theory Spec2Isabelle
  imports Main
begin

section \<open>Exceptions, logging and browser local storage\<close>

text \<open>
  A thrown JavaScript exception is a value \<open>Error msg\<close>; a function that may throw
  returns \<open>error + 'a\<close> (\<open>Inl\<close> is the exception) next to the state it leaves behind.
  The \<open>Logger\<close> only prints, so a logger is the list of the entries written so far
  (level and message, without the decorative glyph that starts each message).
\<close>

datatype error = Error string

datatype level = Debug | Info | Warn | Err | Success

type_synonym logger = "(level \<times> string) list"

text \<open>
  \<open>localStorage\<close>: the stored items, whether \<open>getItem\<close> and \<open>setItem\<close> throw
  (storage blocked, quota exceeded), and the calls made so far with their keys.
\<close>

datatype access = GetItem string | SetItem string | RemoveItem string

record storage =
  items :: "string \<rightharpoonup> string"
  getItem_throws :: bool
  setItem_throws :: bool
  accesses :: "access list"

definition getItem :: "string \<Rightarrow> storage \<Rightarrow> (error + string option) \<times> storage" where
  "getItem k s =
     (let s' = s\<lparr>accesses := accesses s @ [GetItem k]\<rparr>
      in if getItem_throws s then (Inl (Error ''SecurityError''), s')
         else (Inr (items s k), s'))"

definition setItem :: "string \<Rightarrow> string \<Rightarrow> storage \<Rightarrow> (error + unit) \<times> storage" where
  "setItem k v s =
     (let s' = s\<lparr>accesses := accesses s @ [SetItem k]\<rparr>
      in if setItem_throws s then (Inl (Error ''QuotaExceededError''), s')
         else (Inr (), s'\<lparr>items := (items s)(k \<mapsto> v)\<rparr>))"

definition removeItem :: "string \<Rightarrow> storage \<Rightarrow> storage" where
  "removeItem k s = s\<lparr>items := (items s)(k := None), accesses := accesses s @ [RemoveItem k]\<rparr>"

definition key_of :: "access \<Rightarrow> string" where
  "key_of a = (case a of GetItem k \<Rightarrow> k | SetItem k \<Rightarrow> k | RemoveItem k \<Rightarrow> k)"

text \<open>JavaScript truthiness of a string that may be \<open>null\<close>: present and not empty.\<close>

definition truthy :: "string option \<Rightarrow> bool" where
  "truthy v = (case v of None \<Rightarrow> False | Some s \<Rightarrow> s \<noteq> [])"

text \<open>\<open>Array.prototype.indexOf\<close>: the first index of the element, or \<open>-1\<close>.\<close>

fun indexOf :: "'a list \<Rightarrow> 'a \<Rightarrow> int" where
  "indexOf [] x = -1"
| "indexOf (y # ys) x =
     (if y = x then 0 else (let i = indexOf ys x in if i < 0 then -1 else i + 1))"


section \<open>ThemeManager\<close>

text \<open>
  \<open>this.state\<close> and \<open>this.config\<close> of a ThemeManager, with the fields its methods use.
  \<open>enableStateTracking\<close> and \<open>debugMode\<close> are inherited from BaseComponent, whose
  \<open>setState\<close> the ThemeManager uses.
\<close>

record theme_state =
  currentTheme :: string
  systemPreference :: string
  isTransitioning :: bool
  supportsSystemPreference :: bool
  tm_initialized :: bool

record theme_config =
  storageKey :: string
  transitionDuration :: nat
  enableTransitions :: bool
  enableSystemDetection :: bool
  themes :: "string list"
  tm_enableEvents :: bool
  tm_enableStateTracking :: bool
  tm_debugMode :: bool

text \<open>The object literal passed to \<open>setState\<close>: the fields it mentions.\<close>

record theme_changes =
  ch_currentTheme :: "string option"
  ch_systemPreference :: "string option"
  ch_isTransitioning :: "bool option"
  ch_supportsSystemPreference :: "bool option"
  ch_initialized :: "bool option"

definition no_changes :: theme_changes where
  "no_changes = \<lparr>ch_currentTheme = None, ch_systemPreference = None,
                  ch_isTransitioning = None, ch_supportsSystemPreference = None,
                  ch_initialized = None\<rparr>"

text \<open>
  The toggle button. Its glyph and its labels are taken from the tables \<open>icons\<close> and
  \<open>labels\<close> of \<open>updateToggleButton\<close>; the model keeps the key of the table entry shown.
\<close>

record toggle_button =
  icon_key :: string
  label_key :: string
  transitioning_class :: bool
  in_body :: bool

text \<open>The part of the document the ThemeManager writes.\<close>

record document =
  data_theme :: "string option"
  body_classes :: "string list"
  meta_theme_color :: "string option"
  head_styles :: "string list"

datatype timer_action = EndTransition | RemoveTransitioningClass

text \<open>
  The bus is shared by all components of the page. Its listeners for \<open>state:changed\<close>
  are the \<open>handleStateChange\<close> of the ThemeManagers that have been initialised: of
  this manager, or of another one, which is known by its storage key and its current
  theme (the string \<open>undefined\<close> where its state has none), the two things its
  \<open>saveTheme\<close> writes.
\<close>

datatype state_listener = ThisManager | OtherManager string string

text \<open>
  A ThemeManager with the environment it acts on. \<open>tm_handlers\<close> lists the listeners
  of the bus for \<open>state:changed\<close> in the order of the bus, which for listeners of equal
  priority is the order of registration; \<open>tm_emitted\<close> lists the events this manager
  has emitted; \<open>tm_timers\<close> the callbacks given to \<open>setTimeout\<close> with their delays;
  \<open>matchMedia\<close> is \<open>None\<close> when the browser has no \<open>window.matchMedia\<close> and otherwise
  tells whether the dark scheme is preferred. The storage and the document are those of
  the page. Callbacks that the page registers for \<open>theme:changed\<close> are not part of
  the model.
\<close>

record theme_manager =
  tm_state :: theme_state
  tm_config :: theme_config
  tm_toggleButton :: "toggle_button option"
  tm_mediaQuery :: "bool option"
  tm_handlers :: "state_listener list"
  tm_storage :: storage
  tm_document :: document
  tm_log :: logger
  tm_timers :: "(nat \<times> timer_action) list"
  tm_emitted :: "string list"
  matchMedia :: "bool option"

definition tm_logger :: "level \<Rightarrow> string \<Rightarrow> theme_manager \<Rightarrow> theme_manager" where
  "tm_logger l msg m = m\<lparr>tm_log := tm_log m @ [(l, msg)]\<rparr>"

definition tm_emit :: "string \<Rightarrow> theme_manager \<Rightarrow> theme_manager" where
  "tm_emit ev m = m\<lparr>tm_emitted := tm_emitted m @ [ev]\<rparr>"

definition getEffectiveTheme :: "theme_manager \<Rightarrow> string" where
  "getEffectiveTheme m =
     (if currentTheme (tm_state m) = ''auto'' then systemPreference (tm_state m)
      else currentTheme (tm_state m))"

text \<open>\<open>icons[k] || icons.auto\<close> and \<open>labels[k] || labels.auto\<close>: the key whose entry is shown.\<close>

definition table_key :: "string \<Rightarrow> string" where
  "table_key k = (if k \<in> {''light'', ''dark'', ''auto''} then k else ''auto'')"

definition updateToggleButton :: "theme_manager \<Rightarrow> theme_manager" where
  "updateToggleButton m =
     (case tm_toggleButton m of
        None \<Rightarrow> m
      | Some b \<Rightarrow>
          (let effectiveTheme = getEffectiveTheme m;
               b' = b\<lparr>icon_key := table_key (currentTheme (tm_state m)),
                      label_key := table_key effectiveTheme\<rparr>
           in if isTransitioning (tm_state m)
              then m\<lparr>tm_toggleButton := Some (b'\<lparr>transitioning_class := True\<rparr>),
                     tm_timers := tm_timers m
                        @ [(transitionDuration (tm_config m), RemoveTransitioningClass)]\<rparr>
              else m\<lparr>tm_toggleButton := Some b'\<rparr>))"

text \<open>\<open>saveTheme\<close>: the \<open>try\<close> block, then the function with its \<open>catch\<close>.\<close>

definition saveTheme_try :: "theme_manager \<Rightarrow> (error + unit) \<times> theme_manager" where
  "saveTheme_try m =
     (case setItem (storageKey (tm_config m)) (currentTheme (tm_state m)) (tm_storage m) of
        (Inl e, st) \<Rightarrow> (Inl e, m\<lparr>tm_storage := st\<rparr>)
      | (Inr u, st) \<Rightarrow>
          (Inr (), tm_logger Info (''Theme saved: '' @ currentTheme (tm_state m))
                     (m\<lparr>tm_storage := st\<rparr>)))"

definition saveTheme :: "theme_manager \<Rightarrow> (error + unit) \<times> theme_manager" where
  "saveTheme m =
     (case saveTheme_try m of
        (Inr u, m') \<Rightarrow> (Inr (), m')
      | (Inl e, m') \<Rightarrow> (Inr (), tm_logger Warn ''Failed to save theme to storage:'' m'))"

text \<open>
  \<open>handleStateChange\<close> runs as a listener of the bus, whose \<open>emit\<close> wraps every
  listener in \<open>try\<close>/\<open>catch\<close>: an exception of the handler stops the handler and goes
  no further.
\<close>

definition handleStateChange :: "theme_changes \<Rightarrow> theme_manager \<Rightarrow> theme_manager" where
  "handleStateChange ch m =
     (if truthy (ch_currentTheme ch) then snd (saveTheme (updateToggleButton m)) else m)"

definition merge_state :: "theme_state \<Rightarrow> theme_changes \<Rightarrow> theme_state" where
  "merge_state s ch =
     \<lparr>currentTheme = (case ch_currentTheme ch of None \<Rightarrow> currentTheme s | Some v \<Rightarrow> v),
      systemPreference = (case ch_systemPreference ch of None \<Rightarrow> systemPreference s | Some v \<Rightarrow> v),
      isTransitioning = (case ch_isTransitioning ch of None \<Rightarrow> isTransitioning s | Some v \<Rightarrow> v),
      supportsSystemPreference =
        (case ch_supportsSystemPreference ch of None \<Rightarrow> supportsSystemPreference s | Some v \<Rightarrow> v),
      tm_initialized = (case ch_initialized ch of None \<Rightarrow> tm_initialized s | Some v \<Rightarrow> v)\<rparr>"

text \<open>
  A listener of \<open>state:changed\<close> is called. The \<open>handleStateChange\<close> of another
  ThemeManager updates its own button and saves its own theme under its own key, in the
  storage of the page; its \<open>saveTheme\<close> catches the exception of the storage and logs
  with its own logger.
\<close>

fun state_changed_listener :: "theme_changes \<Rightarrow> state_listener \<Rightarrow> theme_manager \<Rightarrow> theme_manager" where
  "state_changed_listener ch ThisManager m = handleStateChange ch m"
| "state_changed_listener ch (OtherManager k t) m =
     (if truthy (ch_currentTheme ch) then m\<lparr>tm_storage := snd (setItem k t (tm_storage m))\<rparr>
      else m)"

text \<open>The bus calls the listeners of \<open>state:changed\<close> in order.\<close>

fun emit_state_changed :: "theme_changes \<Rightarrow> state_listener list \<Rightarrow> theme_manager \<Rightarrow> theme_manager" where
  "emit_state_changed ch [] m = m"
| "emit_state_changed ch (l # ls) m = emit_state_changed ch ls (state_changed_listener ch l m)"

text \<open>
  \<open>BaseComponent.setState\<close> as the ThemeManager inherits it: nothing without state
  tracking; otherwise merge, log in debug mode, and emit \<open>state:changed\<close> on the bus,
  which calls every listener registered for it.
\<close>

definition setState :: "theme_changes \<Rightarrow> theme_manager \<Rightarrow> theme_manager" where
  "setState ch m =
     (if \<not> tm_enableStateTracking (tm_config m) then m
      else
        (let m1 = m\<lparr>tm_state := merge_state (tm_state m) ch\<rparr>;
             m2 = (if tm_debugMode (tm_config m1) then tm_logger Debug ''State updated:'' m1 else m1);
             m3 = tm_emit ''state:changed'' m2
         in emit_state_changed ch (tm_handlers m3) m3))"

definition detectSystemPreference :: "theme_manager \<Rightarrow> theme_manager" where
  "detectSystemPreference m =
     (if \<not> enableSystemDetection (tm_config m) then m
      else
        (case matchMedia m of
           Some dark \<Rightarrow>
             (let pref = (if dark then ''dark'' else ''light'');
                  m1 = setState (no_changes\<lparr>ch_systemPreference := Some pref,
                                            ch_supportsSystemPreference := Some True\<rparr>)
                         (m\<lparr>tm_mediaQuery := Some dark\<rparr>)
              in tm_logger Info (''System preference detected: '' @ pref) m1)
         | None \<Rightarrow> tm_logger Warn ''System preference detection not supported'' m))"

text \<open>\<open>loadTheme\<close>: the \<open>try\<close> block, then the function with its \<open>catch\<close>.\<close>

definition loadTheme_try :: "theme_manager \<Rightarrow> (error + unit) \<times> theme_manager" where
  "loadTheme_try m =
     (case getItem (storageKey (tm_config m)) (tm_storage m) of
        (Inl e, st) \<Rightarrow> (Inl e, m\<lparr>tm_storage := st\<rparr>)
      | (Inr savedTheme, st) \<Rightarrow>
          (let m1 = m\<lparr>tm_storage := st\<rparr>;
               m2 = (if truthy savedTheme \<and> the savedTheme \<in> set (themes (tm_config m1))
                     then setState (no_changes\<lparr>ch_currentTheme := savedTheme\<rparr>) m1
                     else setState (no_changes\<lparr>ch_currentTheme := Some ''auto''\<rparr>) m1)
           in (Inr (), tm_logger Info (''Theme loaded: '' @ currentTheme (tm_state m2)) m2)))"

definition loadTheme :: "theme_manager \<Rightarrow> (error + unit) \<times> theme_manager" where
  "loadTheme m =
     (case loadTheme_try m of
        (Inr u, m') \<Rightarrow> (Inr (), m')
      | (Inl e, m') \<Rightarrow>
          (Inr (), setState (no_changes\<lparr>ch_currentTheme := Some ''auto''\<rparr>)
                     (tm_logger Warn ''Failed to load theme from storage, using default'' m')))"

definition updateMetaThemeColor :: "string \<Rightarrow> theme_manager \<Rightarrow> theme_manager" where
  "updateMetaThemeColor theme m =
     m\<lparr>tm_document := (tm_document m)\<lparr>meta_theme_color :=
          Some (if theme = ''dark'' then ''#1a202c'' else ''#667eea'')\<rparr>\<rparr>"

definition classList_add :: "string \<Rightarrow> string list \<Rightarrow> string list" where
  "classList_add c cs = (if c \<in> set cs then cs else cs @ [c])"

definition applyTheme :: "string \<Rightarrow> theme_manager \<Rightarrow> theme_manager" where
  "applyTheme theme m =
     (let effectiveTheme = (if theme = ''auto'' then systemPreference (tm_state m) else theme);
          m1 = (if enableTransitions (tm_config m)
                then setState (no_changes\<lparr>ch_isTransitioning := Some True\<rparr>) m else m);
          d = tm_document m1;
          m2 = m1\<lparr>tm_document := d\<lparr>data_theme := Some effectiveTheme,
                  body_classes := classList_add (''theme-'' @ effectiveTheme)
                     (filter (\<lambda>c. c \<noteq> ''theme-light'' \<and> c \<noteq> ''theme-dark'') (body_classes d))\<rparr>\<rparr>;
          m3 = updateMetaThemeColor effectiveTheme m2;
          m4 = updateToggleButton m3;
          m5 = tm_emit ''theme:changed'' m4;
          m6 = (if enableTransitions (tm_config m5)
                then m5\<lparr>tm_timers := tm_timers m5
                        @ [(transitionDuration (tm_config m5), EndTransition)]\<rparr>
                else m5)
      in tm_logger Info (''Theme applied: '' @ effectiveTheme) m6)"

definition announceThemeChange :: "string \<Rightarrow> theme_manager \<Rightarrow> theme_manager" where
  "announceThemeChange theme m = tm_emit ''announce'' m"

definition setTheme :: "string \<Rightarrow> theme_manager \<Rightarrow> bool \<times> theme_manager" where
  "setTheme theme m =
     (if theme \<notin> set (themes (tm_config m))
      then (False, tm_logger Warn (''Invalid theme: '' @ theme) m)
      else
        (let oldTheme = currentTheme (tm_state m)
         in if oldTheme = theme
            then (True, tm_logger Debug (''Theme already set: '' @ theme) m)
            else
              (let m1 = setState (no_changes\<lparr>ch_currentTheme := Some theme\<rparr>) m;
                   m2 = applyTheme theme m1;
                   m3 = tm_logger Info (''Theme changed: '' @ oldTheme @ '' -> '' @ theme) m2;
                   m4 = announceThemeChange theme m3
               in (True, m4))))"

text \<open>
  \<open>toggleTheme\<close>. With an empty theme list the source computes \<open>themes[NaN]\<close>, which is
  \<open>undefined\<close>, and \<open>setTheme(undefined)\<close> rejects it.
\<close>

definition toggleTheme :: "theme_manager \<Rightarrow> theme_manager" where
  "toggleTheme m =
     (let ts = themes (tm_config m)
      in if ts = [] then tm_logger Warn ''Invalid theme: undefined'' m
         else
           (let currentIndex = indexOf ts (currentTheme (tm_state m));
                nextIndex = (currentIndex + 1) mod int (length ts);
                nextTheme = ts ! nat nextIndex
            in snd (setTheme nextTheme m)))"

definition handleSystemPreferenceChange :: "bool \<Rightarrow> theme_manager \<Rightarrow> theme_manager" where
  "handleSystemPreferenceChange dark m =
     (let pref = (if dark then ''dark'' else ''light'');
          m1 = setState (no_changes\<lparr>ch_systemPreference := Some pref\<rparr>) m;
          m2 = tm_logger Info (''System preference changed: '' @ pref) m1
      in if currentTheme (tm_state m2) = ''auto'' then applyTheme ''auto'' m2 else m2)"

definition styleToggleButton :: "theme_manager \<Rightarrow> theme_manager" where
  "styleToggleButton m =
     (let d = tm_document m
      in if ''theme-toggle-styles'' \<in> set (head_styles d) then m
         else m\<lparr>tm_document := d\<lparr>head_styles := head_styles d @ [''theme-toggle-styles'']\<rparr>\<rparr>)"

definition createToggleButton :: "theme_manager \<Rightarrow> theme_manager" where
  "createToggleButton m =
     (let b = \<lparr>icon_key = '''', label_key = '''', transitioning_class = False, in_body = False\<rparr>;
          m1 = styleToggleButton (m\<lparr>tm_toggleButton := Some b\<rparr>);
          m2 = m1\<lparr>tm_toggleButton := Some (b\<lparr>in_body := True\<rparr>)\<rparr>;
          m3 = updateToggleButton m2
      in tm_logger Info ''Theme toggle button created'' m3)"

text \<open>\<open>isStorageAvailable\<close> writes and removes a probe key.\<close>

definition isStorageAvailable :: "theme_manager \<Rightarrow> bool \<times> theme_manager" where
  "isStorageAvailable m =
     (case setItem ''__theme_test__'' ''__theme_test__'' (tm_storage m) of
        (Inl e, st) \<Rightarrow> (False, m\<lparr>tm_storage := st\<rparr>)
      | (Inr u, st) \<Rightarrow> (True, m\<lparr>tm_storage := removeItem ''__theme_test__'' st\<rparr>))"

text \<open>
  \<open>setupEventListeners\<close> registers \<open>handleStateChange\<close> for \<open>state:changed\<close>, with the
  default priority, so after the listeners that are there.
\<close>

definition tm_setupEventListeners :: "theme_manager \<Rightarrow> theme_manager" where
  "tm_setupEventListeners m = m\<lparr>tm_handlers := tm_handlers m @ [ThisManager]\<rparr>"

definition setupThemeTransitions :: "theme_manager \<Rightarrow> theme_manager" where
  "setupThemeTransitions m =
     m\<lparr>tm_document := (tm_document m)\<lparr>head_styles :=
          head_styles (tm_document m) @ [''theme-transitions'']\<rparr>\<rparr>"

definition tm_onInit :: "theme_manager \<Rightarrow> theme_manager" where
  "tm_onInit m =
     (let m0 = tm_logger Info ''Initializing Theme Manager...'' m;
          m1 = detectSystemPreference m0;
          m2 = snd (loadTheme m1);
          m3 = createToggleButton m2;
          m4 = tm_setupEventListeners m3;
          m5 = applyTheme (currentTheme (tm_state m4)) m4
      in if enableTransitions (tm_config m5) then setupThemeTransitions m5 else m5)"

text \<open>
  The constructor with default options, over a given storage, document and
  \<open>matchMedia\<close>, on a page where no ThemeManager has been initialised before, so that
  the \<open>state:changed\<close> which the constructor's \<open>setState\<close> emits finds no listener. The
  constructor's own \<open>themes\<close> literal comes after the spread of the options, so the
  list always starts as light, dark, auto.
\<close>

definition new_ThemeManager :: "storage \<Rightarrow> document \<Rightarrow> bool option \<Rightarrow> theme_manager" where
  "new_ThemeManager st d mq =
     \<lparr>tm_state = \<lparr>currentTheme = ''light'', systemPreference = ''light'',
                  isTransitioning = False, supportsSystemPreference = False,
                  tm_initialized = False\<rparr>,
      tm_config = \<lparr>storageKey = ''codenexlify-theme'', transitionDuration = 300,
                   enableTransitions = True, enableSystemDetection = True,
                   themes = [''light'', ''dark'', ''auto''],
                   tm_enableEvents = True, tm_enableStateTracking = True,
                   tm_debugMode = False\<rparr>,
      tm_toggleButton = None, tm_mediaQuery = None, tm_handlers = [],
      tm_storage = st, tm_document = d, tm_log = [], tm_timers = [],
      tm_emitted = [''state:changed''], matchMedia = mq\<rparr>"

text \<open>
  \<open>BaseComponent.init\<close> for a ThemeManager built with default options, which has no
  hooks, no dependencies and no container: \<open>onInit\<close>, \<open>setupEventListeners\<close> a second
  time when events are enabled, the flag, the log and the event. Nothing in it throws.
\<close>

definition tm_init :: "theme_manager \<Rightarrow> theme_manager" where
  "tm_init m =
     (if tm_initialized (tm_state m) then tm_logger Warn ''Component already initialized'' m
      else
        (let m0 = tm_logger Info ''Initializing component: ThemeManager'' m;
             m1 = tm_onInit m0;
             m2 = (if tm_enableEvents (tm_config m1) then tm_setupEventListeners m1 else m1);
             m3 = setState (no_changes\<lparr>ch_initialized := Some True\<rparr>) m2;
             m4 = tm_logger Success ''Component initialized: ThemeManager'' m3
         in tm_emit ''component:initialized'' m4))"

definition empty_storage :: storage where
  "empty_storage = \<lparr>items = Map.empty, getItem_throws = False, setItem_throws = False,
                     accesses = []\<rparr>"

definition empty_document :: document where
  "empty_document = \<lparr>data_theme = None, body_classes = [], meta_theme_color = None,
                      head_styles = []\<rparr>"


section \<open>EventBus\<close>

text \<open>
  A callback is known by what a call of it does: a function with an identity that
  returns (\<open>None\<close>) or throws, a value that is not a function, or the closure that
  \<open>waitFor\<close> registers, which clears its timer and resolves its promise. Callbacks that
  call back into the bus while \<open>emit\<close> is iterating are outside the model.
\<close>

datatype callback = NotAFunction | Function nat "error option" | Resolver nat nat

text \<open>
  What \<open>emit\<close> passes to the listeners: the arguments of the call, or the object that
  \<open>emitError\<close> builds (original event, error, id and time of the listener, timestamp).
\<close>

datatype payload = Args "string list" | ErrorEvent string error nat nat nat

datatype promise_state = Pending | Resolved payload | Rejected error

text \<open>
  A listener as \<open>on\<close> builds it. The id string \<open>listener_<time>_<random>\<close> is a fresh
  number taken from \<open>nextId\<close>.
\<close>

record listener =
  callback :: callback
  once :: bool
  priority :: int
  context_obj :: "nat option"
  lid :: nat
  added :: nat

text \<open>
  The \<open>options\<close> argument of \<open>on\<close>; a missing field reads as \<open>false\<close>, \<open>0\<close>, \<open>null\<close>,
  which is what \<open>options.once || false\<close>, \<open>options.priority || 0\<close> and
  \<open>options.context || null\<close> make of it.
\<close>

record listener_options =
  opt_once :: bool
  opt_priority :: int
  opt_context :: "nat option"

definition default_options :: listener_options where
  "default_options = \<lparr>opt_once = False, opt_priority = 0, opt_context = None\<rparr>"

text \<open>The callback given to \<open>setTimeout\<close> by \<open>waitFor\<close>: event name, listener id, promise.\<close>

datatype timer_callback = WaitForTimeout string nat nat

record timer =
  timer_id :: nat
  due :: nat
  on_fire :: timer_callback

text \<open>
  The bus, with the part of the runtime it uses: the clock (\<open>Date.now()\<close>, in
  milliseconds), the pending timers and the promises created by \<open>waitFor\<close>. \<open>calls\<close>
  records every invocation of a listener: the event and the id of the listener.
\<close>

record event_bus =
  events :: "string \<rightharpoonup> listener list"
  maxListeners :: nat
  bus_debugMode :: bool
  bus_log :: logger
  nextId :: nat
  now :: nat
  calls :: "(string \<times> nat) list"
  timers :: "timer list"
  nextTimer :: nat
  promises :: "nat \<rightharpoonup> promise_state"
  nextPromise :: nat

definition new_EventBus :: "bool \<Rightarrow> event_bus" where
  "new_EventBus dbg =
     \<lparr>events = Map.empty, maxListeners = 50, bus_debugMode = dbg, bus_log = [],
      nextId = 0, now = 0, calls = [], timers = [], nextTimer = 0,
      promises = Map.empty, nextPromise = 0\<rparr>"

definition bus_logger :: "level \<Rightarrow> string \<Rightarrow> event_bus \<Rightarrow> event_bus" where
  "bus_logger l msg b = b\<lparr>bus_log := bus_log b @ [(l, msg)]\<rparr>"

definition bus_debug :: "string \<Rightarrow> event_bus \<Rightarrow> event_bus" where
  "bus_debug msg b = (if bus_debugMode b then bus_logger Info msg b else b)"

definition generateListenerId :: "event_bus \<Rightarrow> nat \<times> event_bus" where
  "generateListenerId b = (nextId b, b\<lparr>nextId := Suc (nextId b)\<rparr>)"

datatype on_result = ListenerId nat | This

text \<open>
  \<open>on\<close>. \<open>listeners.sort((a, b) => b.priority - a.priority)\<close> is a stable sort into
  non-increasing priority: the stable \<open>sort_key\<close> on the negated priority.
\<close>

definition on :: "string \<Rightarrow> callback \<Rightarrow> listener_options \<Rightarrow> event_bus \<Rightarrow> on_result \<times> event_bus" where
  "on eventName cb options b =
     (if cb = NotAFunction
      then (This, bus_logger Err (''Callback for event '' @ eventName @ '' must be a function'') b)
      else
        (let listeners = (case events b eventName of None \<Rightarrow> [] | Some ls \<Rightarrow> ls);
             b1 = (if length listeners \<ge> maxListeners b
                   then bus_logger Warn (''Maximum listeners reached for event '' @ eventName) b
                   else b);
             (i, b2) = generateListenerId b1;
             listener = \<lparr>callback = cb, once = opt_once options, priority = opt_priority options,
                          context_obj = opt_context options, lid = i, added = now b2\<rparr>;
             listeners' = sort_key (\<lambda>l. - priority l) (listeners @ [listener]);
             b3 = b2\<lparr>events := (events b2)(eventName \<mapsto> listeners')\<rparr>
         in (ListenerId i, bus_debug (''Event listener added: '' @ eventName) b3)))"

definition once_on :: "string \<Rightarrow> callback \<Rightarrow> listener_options \<Rightarrow> event_bus \<Rightarrow> on_result \<times> event_bus" where
  "once_on eventName cb options b = on eventName cb (options\<lparr>opt_once := True\<rparr>) b"

text \<open>\<open>findIndex\<close> followed by \<open>splice(index, 1)\<close>: drop the first element that matches.\<close>

fun remove_first :: "('a \<Rightarrow> bool) \<Rightarrow> 'a list \<Rightarrow> 'a list" where
  "remove_first P [] = []"
| "remove_first P (x # xs) = (if P x then xs else x # remove_first P xs)"

datatype off_target = ById nat | ByCallback callback | Neither

definition off :: "string \<Rightarrow> off_target \<Rightarrow> event_bus \<Rightarrow> bool \<times> event_bus" where
  "off eventName callbackOrId b =
     (case events b eventName of
        None \<Rightarrow> (False, b)
      | Some listeners \<Rightarrow>
          (let (removed, b1) =
             (case callbackOrId of
                ById i \<Rightarrow>
                  (if list_ex (\<lambda>l. lid l = i) listeners
                   then (True, b\<lparr>events := (events b)(eventName \<mapsto>
                                  remove_first (\<lambda>l. lid l = i) listeners)\<rparr>)
                   else (False, b))
              | ByCallback cb \<Rightarrow>
                  (if list_ex (\<lambda>l. callback l = cb) listeners
                   then (True, b\<lparr>events := (events b)(eventName \<mapsto>
                                  remove_first (\<lambda>l. callback l = cb) listeners)\<rparr>)
                   else (False, b))
              | Neither \<Rightarrow> (True, b\<lparr>events := (events b)(eventName := None)\<rparr>))
           in (removed, if removed then bus_debug (''Event listener removed: '' @ eventName) b1
                        else b1)))"

definition clearTimeout :: "nat \<Rightarrow> event_bus \<Rightarrow> event_bus" where
  "clearTimeout t b = b\<lparr>timers := filter (\<lambda>x. timer_id x \<noteq> t) (timers b)\<rparr>"

text \<open>Settling a promise: only a pending promise changes.\<close>

definition resolve :: "nat \<Rightarrow> payload \<Rightarrow> event_bus \<Rightarrow> event_bus" where
  "resolve p v b =
     (case promises b p of
        Some Pending \<Rightarrow> b\<lparr>promises := (promises b)(p \<mapsto> Resolved v)\<rparr>
      | _ \<Rightarrow> b)"


text \<open>A call of a callback: the exception it throws, if any, and the state after it.\<close>

fun invoke :: "callback \<Rightarrow> payload \<Rightarrow> event_bus \<Rightarrow> error option \<times> event_bus" where
  "invoke NotAFunction args b = (Some (Error ''TypeError: callback is not a function''), b)"
| "invoke (Function f r) args b = (r, b)"
| "invoke (Resolver p t) args b = (None, resolve p args (clearTimeout t b))"

text \<open>
  The loop of \<open>emit\<close> over the listeners: the call in \<open>try\<close>, the one-time listener
  marked for removal after its call has returned, and in \<open>catch\<close> the flag, the log
  and \<open>emitError\<close> (the parameter \<open>onError\<close>).
\<close>

fun emit_listeners ::
  "(string \<Rightarrow> error \<Rightarrow> listener \<Rightarrow> event_bus \<Rightarrow> event_bus) \<Rightarrow> string \<Rightarrow> payload
     \<Rightarrow> listener list \<Rightarrow> listener list \<times> bool \<times> event_bus \<Rightarrow> listener list \<times> bool \<times> event_bus" where
  "emit_listeners onError eventName args [] acc = acc"
| "emit_listeners onError eventName args (l # ls) (listenersToRemove, hasError, b) =
     (case invoke (callback l) args (b\<lparr>calls := calls b @ [(eventName, lid l)]\<rparr>) of
        (None, b1) \<Rightarrow>
          emit_listeners onError eventName args ls
            (if once l then listenersToRemove @ [l] else listenersToRemove, hasError, b1)
      | (Some e, b1) \<Rightarrow>
          emit_listeners onError eventName args ls
            (listenersToRemove, True,
             onError eventName e l
               (bus_logger Err (''Error in event listener for '' @ eventName) b1)))"

text \<open>After the loop: \<open>indexOf\<close> and \<open>splice\<close> for each marked listener.\<close>

definition remove_marked :: "string \<Rightarrow> listener list \<Rightarrow> event_bus \<Rightarrow> event_bus" where
  "remove_marked eventName listenersToRemove b =
     (case events b eventName of
        None \<Rightarrow> b
      | Some listeners \<Rightarrow>
          b\<lparr>events := (events b)(eventName \<mapsto> foldl (\<lambda>ls l. remove1 l ls) listeners listenersToRemove)\<rparr>)"

definition emit_with ::
  "(string \<Rightarrow> error \<Rightarrow> listener \<Rightarrow> event_bus \<Rightarrow> event_bus) \<Rightarrow> string \<Rightarrow> payload
     \<Rightarrow> event_bus \<Rightarrow> bool \<times> event_bus" where
  "emit_with onError eventName args b =
     (case events b eventName of
        None \<Rightarrow> (False, bus_debug (''No listeners for event: '' @ eventName) b)
      | Some listeners \<Rightarrow>
          (let b0 = bus_debug (''Emitting event: '' @ eventName) b;
               (listenersToRemove, hasError, b1) =
                  emit_listeners onError eventName args listeners ([], False, b0)
           in (\<not> hasError, remove_marked eventName listenersToRemove b1)))"

text \<open>
  \<open>emitError\<close> emits \<open>error\<close> unless the failing event is \<open>error\<close> itself; inside that
  nested \<open>emit\<close> an exception of a listener reaches \<open>emitError\<close> with \<open>error\<close> as the
  original event, which returns at once.
\<close>

definition emitError :: "string \<Rightarrow> error \<Rightarrow> listener \<Rightarrow> event_bus \<Rightarrow> event_bus" where
  "emitError originalEvent e l b =
     (if originalEvent = ''error'' then b
      else snd (emit_with (\<lambda>ev e' l' b'. b') ''error''
                  (ErrorEvent originalEvent e (lid l) (added l) (now b)) b))"

definition emit :: "string \<Rightarrow> payload \<Rightarrow> event_bus \<Rightarrow> bool \<times> event_bus" where
  "emit eventName args b = emit_with emitError eventName args b"

definition listenerCount :: "string \<Rightarrow> event_bus \<Rightarrow> nat" where
  "listenerCount eventName b = (case events b eventName of None \<Rightarrow> 0 | Some ls \<Rightarrow> length ls)"









definition by_priority :: "listener list \<Rightarrow> bool" where
  "by_priority ls = sorted (map (\<lambda>l. - priority l) ls)"









definition shrinks :: "event_bus \<Rightarrow> event_bus \<Rightarrow> bool" where
  "shrinks b b' =
     ((\<forall>ev ls'. events b' ev = Some ls' \<longrightarrow>
          (\<exists>ls. events b ev = Some ls \<and> set ls' \<subseteq> set ls
                \<and> (distinct (map lid ls) \<longrightarrow> distinct (map lid ls'))))
      \<and> set (timers b') \<subseteq> set (timers b)
      \<and> nextId b' = nextId b \<and> nextPromise b' = nextPromise b)"

definition resolves :: "nat \<Rightarrow> callback \<Rightarrow> bool" where
  "resolves p cb = (case cb of Resolver p' t \<Rightarrow> p' = p | _ \<Rightarrow> False)"




section \<open>NavigationManager: the scroll throttle and the cleanup\<close>

text \<open>
  The part of a NavigationManager that \<open>handleScroll\<close> and \<open>onDestroy\<close> use: the menu
  flag, the id of the animation frame requested by the scroll throttle (\<open>null\<close> or a
  positive number), the navbar, hamburger and menu elements where the page has them,
  the classes and the overflow style of the body, and the animation frames the browser
  has pending. The body of the frame callback is not part of the model.
\<close>

record navbar_element =
  transform :: string
  navbar_classes :: "string list"

record navigation_manager =
  mobileMenuOpen :: bool
  scrollThrottleId :: "nat option"
  navbar :: "navbar_element option"
  hamburger_classes :: "string list option"
  navMenu_classes :: "string list option"
  nav_body_classes :: "string list"
  nav_body_overflow :: string
  nav_enableStateTracking :: bool
  animation_frames :: "nat list"
  next_frame :: nat
  nav_emitted :: "string list"
  nav_log :: logger

definition nav_logger :: "level \<Rightarrow> string \<Rightarrow> navigation_manager \<Rightarrow> navigation_manager" where
  "nav_logger l msg m = m\<lparr>nav_log := nav_log m @ [(l, msg)]\<rparr>"

text \<open>A request id is truthy when it is there and not zero.\<close>

definition truthy_id :: "nat option \<Rightarrow> bool" where
  "truthy_id v = (case v of None \<Rightarrow> False | Some n \<Rightarrow> n \<noteq> 0)"

definition requestAnimationFrame :: "navigation_manager \<Rightarrow> nat \<times> navigation_manager" where
  "requestAnimationFrame m =
     (next_frame m, m\<lparr>animation_frames := animation_frames m @ [next_frame m],
                        next_frame := Suc (next_frame m)\<rparr>)"


definition handleScroll :: "navigation_manager \<Rightarrow> navigation_manager" where
  "handleScroll m =
     (if truthy_id (scrollThrottleId m) then m
      else (let (i, m1) = requestAnimationFrame m in m1\<lparr>scrollThrottleId := Some i\<rparr>))"

definition closeMobileMenu :: "navigation_manager \<Rightarrow> navigation_manager" where
  "closeMobileMenu m =
     (let m1 = (if nav_enableStateTracking m
                then m\<lparr>mobileMenuOpen := False, nav_emitted := nav_emitted m @ [''state:changed'']\<rparr>
                else m);
          m2 = m1\<lparr>hamburger_classes := map_option (filter (\<lambda>c. c \<noteq> ''active'')) (hamburger_classes m1),
                  navMenu_classes := map_option (filter (\<lambda>c. c \<noteq> ''active'')) (navMenu_classes m1),
                  nav_body_classes := filter (\<lambda>c. c \<noteq> ''menu-open'') (nav_body_classes m1),
                  nav_body_overflow := [],
                  nav_emitted := nav_emitted m1 @ [''navigation:menu:closed'']\<rparr>
      in nav_logger Debug ''Mobile menu closed'' m2)"




section \<open>ComponentRegistry\<close>

text \<open>
  A registered class is known by its identity and by what \<open>new ComponentClass(options,
  ...args)\<close> does with the arguments: construct, or throw. An instance is a reference to
  a newly allocated object, which remembers its class.
\<close>

record component_class =
  class_id :: nat
  construct :: "string list \<Rightarrow> error option"

record component_instance =
  object_ref :: nat
  instance_of :: nat

record registry =
  components :: "string \<rightharpoonup> component_class"
  instances :: "string \<rightharpoonup> component_instance"
  next_object :: nat
  constructions :: "string list"
  reg_log :: logger

definition new_ComponentRegistry :: registry where
  "new_ComponentRegistry =
     \<lparr>components = Map.empty, instances = Map.empty, next_object = 0,
      constructions = [], reg_log = []\<rparr>"

definition reg_logger :: "level \<Rightarrow> string \<Rightarrow> registry \<Rightarrow> registry" where
  "reg_logger l msg r = r\<lparr>reg_log := reg_log r @ [(l, msg)]\<rparr>"

definition register :: "string \<Rightarrow> component_class \<Rightarrow> registry \<Rightarrow> registry" where
  "register name cls r =
     (let r1 = (if components r name \<noteq> None
                then reg_logger Warn (''Component '' @ name @ '' is already registered. Overwriting...'') r
                else r)
      in reg_logger Info (''Component '' @ name @ '' registered successfully'')
           (r1\<lparr>components := (components r1)(name \<mapsto> cls)\<rparr>))"

text \<open>
  \<open>getInstance(name, ...args)\<close>; the result \<open>None\<close> is \<open>null\<close>. \<open>constructions\<close> lists
  the names for which the constructor was run.
\<close>

definition getInstance :: "string \<Rightarrow> string list \<Rightarrow> registry \<Rightarrow> component_instance option \<times> registry" where
  "getInstance name args r =
     (case components r name of
        None \<Rightarrow> (None, reg_logger Err (''Component '' @ name @ '' is not registered'') r)
      | Some cls \<Rightarrow>
          (case instances r name of
             Some inst \<Rightarrow> (Some inst, r)
           | None \<Rightarrow>
               (let r1 = r\<lparr>constructions := constructions r @ [name]\<rparr>
                in case construct cls args of
                     Some e \<Rightarrow>
                       (None, reg_logger Err (''Failed to create instance of '' @ name) r1)
                   | None \<Rightarrow>
                       (let inst = \<lparr>object_ref = next_object r1, instance_of = class_id cls\<rparr>;
                            r2 = r1\<lparr>instances := (instances r1)(name \<mapsto> inst),
                                    next_object := Suc (next_object r1)\<rparr>
                        in (Some inst,
                            reg_logger Info (''Component '' @ name @ '' instance created'') r2)))))"


section \<open>BaseComponent\<close>

text \<open>
  The lifecycle flags and the configuration of a component. The methods a subclass
  overrides (\<open>onInit\<close>, \<open>onMount\<close>, \<open>onDestroy\<close>), the lifecycle hooks and the
  \<open>destroy\<close> of a child are known by their outcome, return (\<open>None\<close>) or throw; they do
  not write the lifecycle flags themselves. The other methods are BaseComponent's own.
  The time measurements of \<open>performance\<close> are left out.
\<close>

record component_state =
  initialized :: bool
  mounted :: bool
  destroyed :: bool
  loading :: bool
  error :: "error option"

record component_config =
  autoMount :: bool
  enableEvents :: bool
  enableStateTracking :: bool
  debugMode :: bool

datatype hook = NotAHook | Hook "error option"

datatype hook_name =
  beforeInit | afterInit | beforeMount | afterMount
  | beforeUpdate | afterUpdate | beforeDestroy | afterDestroy

text \<open>A child is any object; \<open>destroy\<close> is called on it when it has such a method.\<close>

datatype child = NoDestroyMethod | Child "error option"

text \<open>A container is a DOM node or a selector string; an element is detached or in a node.\<close>

datatype container = Node nat | Selector string

datatype element = Detached | AttachedTo nat

record component =
  name :: string
  state :: component_state
  config :: component_config
  element :: "element option"
  container :: "container option"
  children :: "(string \<times> child) list"
  hooks :: "hook_name \<Rightarrow> hook list"
  dependencies :: "string list"
  onInit :: "error option"
  onMount :: "error option"
  onDestroy :: "error option"
  eventListeners :: nat
  domEventListeners :: nat
  window_has :: "string \<Rightarrow> bool"
  querySelector :: "string \<Rightarrow> nat option"
  c_log :: logger
  c_emitted :: "string list"

definition c_logger :: "level \<Rightarrow> string \<Rightarrow> component \<Rightarrow> component" where
  "c_logger l msg c = c\<lparr>c_log := c_log c @ [(l, msg)]\<rparr>"

text \<open>\<open>emit\<close> goes to the bus, whose \<open>emit\<close> does not throw; the event is recorded.\<close>

definition c_emit :: "string \<Rightarrow> component \<Rightarrow> component" where
  "c_emit ev c = c\<lparr>c_emitted := c_emitted c @ [ev]\<rparr>"

text \<open>\<open>setState(newState)\<close>, the new fields given as the update they make.\<close>

definition c_setState :: "(component_state \<Rightarrow> component_state) \<Rightarrow> component \<Rightarrow> component" where
  "c_setState newState c =
     (if \<not> enableStateTracking (config c) then c
      else
        (let c1 = c\<lparr>state := newState (state c)\<rparr>;
             c2 = (if debugMode (config c1) then c_logger Debug ''State updated:'' c1 else c1)
         in c_emit ''state:changed'' c2))"

text \<open>\<open>runHooks\<close>: every hook that is a function is called; its exception is logged.\<close>

fun run_hook_list :: "string \<Rightarrow> hook list \<Rightarrow> component \<Rightarrow> component" where
  "run_hook_list hn [] c = c"
| "run_hook_list hn (NotAHook # hs) c = run_hook_list hn hs c"
| "run_hook_list hn (Hook None # hs) c = run_hook_list hn hs c"
| "run_hook_list hn (Hook (Some e) # hs) c =
     run_hook_list hn hs (c_logger Err (''Error in '' @ hn @ '' hook:'') c)"

definition hook_label :: "hook_name \<Rightarrow> string" where
  "hook_label h =
     (case h of beforeInit \<Rightarrow> ''beforeInit'' | afterInit \<Rightarrow> ''afterInit''
      | beforeMount \<Rightarrow> ''beforeMount'' | afterMount \<Rightarrow> ''afterMount''
      | beforeUpdate \<Rightarrow> ''beforeUpdate'' | afterUpdate \<Rightarrow> ''afterUpdate''
      | beforeDestroy \<Rightarrow> ''beforeDestroy'' | afterDestroy \<Rightarrow> ''afterDestroy'')"

definition runHooks :: "hook_name \<Rightarrow> component \<Rightarrow> component" where
  "runHooks h c = run_hook_list (hook_label h) (hooks c h) c"

text \<open>\<open>checkDependencies\<close>: the first dependency missing from \<open>window\<close> is thrown.\<close>

fun missing_dependency :: "(string \<Rightarrow> bool) \<Rightarrow> string list \<Rightarrow> error option" where
  "missing_dependency w [] = None"
| "missing_dependency w (d # ds) =
     (if \<not> w d then Some (Error (''Missing dependency: '' @ d)) else missing_dependency w ds)"

definition checkDependencies :: "component \<Rightarrow> (error + unit) \<times> component" where
  "checkDependencies c =
     (if dependencies c = [] then (Inr (), c)
      else
        (let c1 = c_logger Debug ''Checking dependencies'' c
         in case missing_dependency (window_has c1) (dependencies c1) of
              Some e \<Rightarrow> (Inl e, c1)
            | None \<Rightarrow> (Inr (), c1)))"

text \<open>A container that is \<open>null\<close> or the empty string counts as no container.\<close>

definition given :: "container option \<Rightarrow> bool" where
  "given k = (case k of None \<Rightarrow> False | Some (Selector sel) \<Rightarrow> sel \<noteq> [] | Some (Node n) \<Rightarrow> True)"

definition createElement :: "component \<Rightarrow> component" where
  "createElement c = (if element c = None then c\<lparr>element := Some Detached\<rparr> else c)"

text \<open>The \<open>catch\<close> blocks of \<open>init\<close> and \<open>mount\<close>: record, log, emit, and throw again.\<close>

definition init_catch :: "error \<Rightarrow> component \<Rightarrow> (error + unit) \<times> component" where
  "init_catch e c =
     (Inl e, c_emit ''component:error''
               (c_logger Err (''Failed to initialize component: '' @ name c)
                  (c_setState (\<lambda>s. s\<lparr>error := Some e\<rparr>) c)))"

definition mount_catch :: "error \<Rightarrow> component \<Rightarrow> (error + unit) \<times> component" where
  "mount_catch e c =
     (Inl e, c_emit ''component:error''
               (c_logger Err (''Failed to mount component: '' @ name c)
                  (c_setState (\<lambda>s. s\<lparr>error := Some e\<rparr>) c)))"

text \<open>The part of \<open>mount\<close> between \<open>createElement\<close> and the end of the \<open>try\<close> block.\<close>

definition mount_finish :: "component \<Rightarrow> component" where
  "mount_finish c =
     (let c1 = (if element c \<noteq> None \<and> given (container c)
                then (let c' = (case container c of
                                  Some (Selector sel) \<Rightarrow>
                                    c\<lparr>container := map_option Node (querySelector c sel)\<rparr>
                                | _ \<Rightarrow> c)
                      in case container c' of
                           Some (Node n) \<Rightarrow> c'\<lparr>element := Some (AttachedTo n)\<rparr>
                         | _ \<Rightarrow> c')
                else c);
          c2 = c_setState (\<lambda>s. s\<lparr>mounted := True\<rparr>) c1;
          c3 = runHooks afterMount c2;
          c4 = c_logger Success (''Component mounted: '' @ name c3) c3
      in c_emit ''component:mounted'' c4)"

text \<open>The \<open>try\<close> block of \<open>mount\<close> with its \<open>catch\<close>.\<close>

definition mount_try :: "container option \<Rightarrow> component \<Rightarrow> (error + unit) \<times> component" where
  "mount_try cont c =
     (let c1 = c_logger Info (''Mounting component: '' @ name c) c;
          c2 = (if given cont then c1\<lparr>container := cont\<rparr> else c1)
      in if \<not> given (container c2)
         then mount_catch (Error ''No container specified for mounting'') c2
         else
           (let c3 = createElement (runHooks beforeMount c2)
            in case onMount c3 of
                 Some e \<Rightarrow> mount_catch e c3
               | None \<Rightarrow> (Inr (), mount_finish c3)))"

text \<open>
  The \<open>try\<close> block of \<open>init\<close> up to the hooks after initialisation: the hooks before,
  the dependencies, \<open>onInit\<close>, \<open>setupEventListeners\<close> (which does nothing in
  BaseComponent), the flag, the hooks after. Then its end: the log and the event.
\<close>

definition init_start :: "component \<Rightarrow> (error + unit) \<times> component" where
  "init_start c =
     (let c1 = runHooks beforeInit (c_logger Info (''Initializing component: '' @ name c) c)
      in case checkDependencies c1 of
           (Inl e, c2) \<Rightarrow> (Inl e, c2)
         | (Inr u, c2) \<Rightarrow>
             (case onInit c2 of
                Some e \<Rightarrow> (Inl e, c2)
              | None \<Rightarrow>
                  (Inr (), runHooks afterInit (c_setState (\<lambda>s. s\<lparr>initialized := True\<rparr>) c2))))"

definition init_finish :: "component \<Rightarrow> component" where
  "init_finish c =
     c_emit ''component:initialized'' (c_logger Success (''Component initialized: '' @ name c) c)"

text \<open>
  \<open>init\<close> and \<open>mount\<close> call each other: \<open>init\<close> mounts when \<open>autoMount\<close> is set and
  there is a container, \<open>mount\<close> initialises a component that is not initialised. The
  first argument bounds the depth of these calls; \<open>None\<close> means the bound was reached.
  An exception of the \<open>init\<close> that \<open>mount\<close> awaits leaves \<open>mount\<close> before its \<open>try\<close>.
\<close>

fun init :: "nat \<Rightarrow> component \<Rightarrow> ((error + unit) \<times> component) option"
  and mount :: "nat \<Rightarrow> container option \<Rightarrow> component \<Rightarrow> ((error + unit) \<times> component) option" where
  "init 0 c = None"
| "init (Suc n) c =
     (if initialized (state c)
      then Some (Inr (), c_logger Warn ''Component already initialized'' c)
      else
        (case init_start c of
           (Inl e, c2) \<Rightarrow> Some (init_catch e c2)
         | (Inr u, c3) \<Rightarrow>
             (if autoMount (config c3) \<and> given (container c3)
              then (case mount n None c3 of
                      None \<Rightarrow> None
                    | Some (Inl e, c4) \<Rightarrow> Some (init_catch e c4)
                    | Some (Inr u, c4) \<Rightarrow> Some (Inr (), init_finish c4))
              else Some (Inr (), init_finish c3))))"
| "mount 0 cont c = None"
| "mount (Suc n) cont c =
     (if mounted (state c)
      then Some (Inr (), c_logger Warn ''Component already mounted'' c)
      else if \<not> initialized (state c)
      then (case init n c of
              None \<Rightarrow> None
            | Some (Inl e, c1) \<Rightarrow> Some (Inl e, c1)
            | Some (Inr u, c1) \<Rightarrow> Some (mount_try cont c1))
      else Some (mount_try cont c))"

text \<open>The children are destroyed in order; the first exception ends the loop.\<close>

fun destroy_children :: "(string \<times> child) list \<Rightarrow> error option" where
  "destroy_children [] = None"
| "destroy_children ((i, NoDestroyMethod) # cs) = destroy_children cs"
| "destroy_children ((i, Child None) # cs) = destroy_children cs"
| "destroy_children ((i, Child (Some e)) # cs) = Some e"

definition destroy_catch :: "error \<Rightarrow> component \<Rightarrow> component" where
  "destroy_catch e c =
     c_emit ''component:error'' (c_logger Err (''Failed to destroy component: '' @ name c) c)"

text \<open>\<open>destroy\<close> returns nothing and throws nothing: its \<open>catch\<close> does not throw again.\<close>

definition destroy :: "component \<Rightarrow> component" where
  "destroy c =
     (if destroyed (state c) then c_logger Warn ''Component already destroyed'' c
      else
        (let c1 = runHooks beforeDestroy (c_logger Info (''Destroying component: '' @ name c) c)
         in case destroy_children (children c1) of
              Some e \<Rightarrow> destroy_catch e c1
            | None \<Rightarrow>
                (let c2 = c1\<lparr>children := []\<rparr>
                 in case onDestroy c2 of
                      Some e \<Rightarrow> destroy_catch e c2
                    | None \<Rightarrow>
                        (let c3 = (case element c2 of
                                     Some (AttachedTo n) \<Rightarrow> c2\<lparr>element := Some Detached\<rparr>
                                   | _ \<Rightarrow> c2);
                             c4 = c3\<lparr>eventListeners := 0, domEventListeners := 0\<rparr>;
                             c5 = c_setState (\<lambda>s. s\<lparr>destroyed := True, mounted := False,
                                                     initialized := False\<rparr>) c4;
                             c6 = runHooks afterDestroy c5;
                             c7 = c_logger Success (''Component destroyed: '' @ name c6) c6
                         in c_emit ''component:destroyed'' c7))))"

text \<open>The constructor: \<open>new BaseComponent(options)\<close> with the configuration given.\<close>

definition new_BaseComponent :: "string \<Rightarrow> component_config \<Rightarrow> container option \<Rightarrow> component" where
  "new_BaseComponent nm cfg cont =
     \<lparr>name = nm,
      state = \<lparr>initialized = False, mounted = False, destroyed = False, loading = False,
               error = None\<rparr>,
      config = cfg, element = None,
      container = (if given cont then cont else None), children = [],
      hooks = (\<lambda>h. []), dependencies = [],
      onInit = None, onMount = None, onDestroy = None,
      eventListeners = 0, domEventListeners = 0,
      window_has = (\<lambda>d. False), querySelector = (\<lambda>sel. None),
      c_log = [(Debug, ''Component created: '' @ nm)], c_emitted = []\<rparr>"

definition default_config :: component_config where
  "default_config = \<lparr>autoMount = True, enableEvents = True, enableStateTracking = True,
                      debugMode = False\<rparr>"


section \<open>I18nManager: loading translations and the language preference\<close>

text \<open>
  A translation table is known by where it comes from: the Turkish table of the
  constructor, the built-in English table, or the parsed body of a locale file.
  \<open>fetch\<close> tells what a request for a URL gives: a network failure, or a response
  with its \<open>ok\<close> flag, its status and its body, which parses as JSON or does not.
  \<open>fetched\<close> lists the URLs requested so far.
\<close>

datatype translation_table = DefaultTurkish | BuiltInEnglish | FromFile string

datatype response_body = InvalidJson error | Json string

datatype fetch_result = NetworkFailure error | Response bool string response_body

text \<open>
  The four fields of \<open>this.state\<close> are written by the constructor through \<open>setState\<close>,
  which does nothing without state tracking: a field is \<open>None\<close> where the state has no
  such property (\<open>undefined\<close>). \<open>browserLanguage\<close> is what \<open>navigator.language\<close> gives.
  The toggle button and the elements of the page that show translations are not part
  of the model.
\<close>

record i18n_manager =
  currentLanguage :: "string option"
  availableLanguages :: "string list option"
  isLoading :: "bool option"
  loadedLanguages :: "string set option"
  i18n_translations :: "string \<rightharpoonup> translation_table"
  i18n_storageKey :: string
  translationsPath :: string
  autoDetect :: bool
  persistChoice :: bool
  i18n_enableStateTracking :: bool
  browserLanguage :: string
  fetch :: "string \<Rightarrow> fetch_result"
  fetched :: "string list"
  i18n_storage :: storage
  i18n_log :: logger

text \<open>
  The constructor, with state tracking as the option \<open>config.enableStateTracking\<close>
  gives it (it is on by default), a browser language, a storage and a network.
\<close>

definition new_I18nManager ::
  "bool \<Rightarrow> string \<Rightarrow> storage \<Rightarrow> (string \<Rightarrow> fetch_result) \<Rightarrow> i18n_manager" where
  "new_I18nManager tracking nav st f =
     \<lparr>currentLanguage = (if tracking then Some ''tr'' else None),
      availableLanguages = (if tracking then Some [''tr'', ''en''] else None),
      isLoading = (if tracking then Some False else None),
      loadedLanguages = (if tracking then Some {''tr''} else None),
      i18n_translations = [''tr'' \<mapsto> DefaultTurkish],
      i18n_storageKey = ''codenexlify-language'', translationsPath = ''/locales'',
      autoDetect = True, persistChoice = True, i18n_enableStateTracking = tracking,
      browserLanguage = nav, fetch = f, fetched = [], i18n_storage = st, i18n_log = []\<rparr>"

definition i18n_logger :: "level \<Rightarrow> string \<Rightarrow> i18n_manager \<Rightarrow> i18n_manager" where
  "i18n_logger l msg m = m\<lparr>i18n_log := i18n_log m @ [(l, msg)]\<rparr>"

text \<open>\<open>setState({ isLoading: v })\<close> and \<open>setState({ currentLanguage: v })\<close>.\<close>

definition set_isLoading :: "bool \<Rightarrow> i18n_manager \<Rightarrow> i18n_manager" where
  "set_isLoading v m = (if i18n_enableStateTracking m then m\<lparr>isLoading := Some v\<rparr> else m)"

definition set_currentLanguage :: "string \<Rightarrow> i18n_manager \<Rightarrow> i18n_manager" where
  "set_currentLanguage v m =
     (if i18n_enableStateTracking m then m\<lparr>currentLanguage := Some v\<rparr> else m)"

text \<open>What a template literal or \<open>setItem\<close> makes of a string that may be \<open>undefined\<close>.\<close>

definition to_string :: "string option \<Rightarrow> string" where
  "to_string v = (case v of None \<Rightarrow> ''undefined'' | Some s \<Rightarrow> s)"

definition loadBuiltInEnglishTranslations :: "i18n_manager \<Rightarrow> i18n_manager" where
  "loadBuiltInEnglishTranslations m =
     i18n_logger Info ''Built-in English translations loaded''
       (m\<lparr>i18n_translations := (i18n_translations m)(''en'' \<mapsto> BuiltInEnglish)\<rparr>)"

text \<open>
  The inner \<open>try\<close> block of \<open>loadTranslations\<close>: one \<open>fetch\<close>; a response that is not
  \<open>ok\<close> and a body that is not JSON throw like a failed request.
\<close>

definition locale_url :: "i18n_manager \<Rightarrow> string \<Rightarrow> string" where
  "locale_url m language = translationsPath m @ ''/'' @ language @ ''.json''"

definition fetch_translations :: "string \<Rightarrow> i18n_manager \<Rightarrow> (error + unit) \<times> i18n_manager" where
  "fetch_translations language m =
     (let translationsUrl = locale_url m language;
          m1 = m\<lparr>fetched := fetched m @ [translationsUrl]\<rparr>
      in case fetch m1 translationsUrl of
           NetworkFailure e \<Rightarrow> (Inl e, m1)
         | Response ok status body \<Rightarrow>
             (if ok
              then (case body of
                      InvalidJson e \<Rightarrow> (Inl e, m1)
                    | Json file \<Rightarrow>
                        (Inr (), i18n_logger Success (''Translations loaded from file: '' @ language)
                                   (m1\<lparr>i18n_translations := (i18n_translations m1)(language \<mapsto> FromFile file)\<rparr>)))
              else (Inl (Error (''HTTP '' @ status)), m1)))"

text \<open>
  \<open>loadTranslations\<close>. The test \<open>this.state.loadedLanguages.has(language)\<close> comes before
  the \<open>try\<close>: where the state has no \<open>loadedLanguages\<close> it throws a \<open>TypeError\<close> to the
  caller. Otherwise nothing after the inner \<open>catch\<close> throws, so the outer \<open>catch\<close> has
  nothing to handle; \<open>finally\<close> resets \<open>isLoading\<close>.
\<close>

definition loadTranslations :: "string \<Rightarrow> i18n_manager \<Rightarrow> (error + unit) \<times> i18n_manager" where
  "loadTranslations language m =
     (case loadedLanguages m of
        None \<Rightarrow> (Inl (Error ''TypeError: Cannot read properties of undefined (reading has)''), m)
      | Some loaded \<Rightarrow>
          (if language \<in> loaded
           then (Inr (), i18n_logger Debug (''Translations already loaded for: '' @ language) m)
           else
             (let m1 = i18n_logger Info (''Loading translations for: '' @ language) (set_isLoading True m);
                  m2 = (case fetch_translations language m1 of
                          (Inr u, m') \<Rightarrow> m'
                        | (Inl (Error msg), m') \<Rightarrow>
                            (let m'' = i18n_logger Warn (''Failed to load translations from file: '' @ msg) m'
                             in if language = ''en'' then loadBuiltInEnglishTranslations m'' else m''));
                  m3 = m2\<lparr>loadedLanguages := map_option (insert language) (loadedLanguages m2)\<rparr>
              in (Inr (), set_isLoading False m3))))"

text \<open>The request for a locale file fails: no response, a response that is not \<open>ok\<close>, or a body that is not JSON.\<close>

definition fetch_failed :: "fetch_result \<Rightarrow> bool" where
  "fetch_failed r =
     (case r of
        NetworkFailure e \<Rightarrow> True
      | Response ok status body \<Rightarrow>
          (if ok then (case body of InvalidJson e \<Rightarrow> True | Json file \<Rightarrow> False) else True))"

text \<open>
  \<open>loadLanguagePreference\<close>: the \<open>try\<close> block, then the function with its \<open>catch\<close>.
  \<open>this.state.availableLanguages.includes\<close> is reached only for a saved language that
  is not empty, and throws where the state has no \<open>availableLanguages\<close>.
\<close>

definition loadLanguagePreference_try :: "i18n_manager \<Rightarrow> (error + unit) \<times> i18n_manager" where
  "loadLanguagePreference_try m =
     (case getItem (i18n_storageKey m) (i18n_storage m) of
        (Inl e, st) \<Rightarrow> (Inl e, m\<lparr>i18n_storage := st\<rparr>)
      | (Inr savedLanguage, st) \<Rightarrow>
          (let m1 = m\<lparr>i18n_storage := st\<rparr>
           in if truthy savedLanguage
              then (case availableLanguages m1 of
                      None \<Rightarrow>
                        (Inl (Error ''TypeError: Cannot read properties of undefined (reading includes)''), m1)
                    | Some languages \<Rightarrow>
                        (if the savedLanguage \<in> set languages
                         then (Inr (), i18n_logger Info (''Language preference loaded: '' @ the savedLanguage)
                                         (set_currentLanguage (the savedLanguage) m1))
                         else (Inr (), m1)))
              else (Inr (), m1)))"

definition loadLanguagePreference :: "i18n_manager \<Rightarrow> (error + unit) \<times> i18n_manager" where
  "loadLanguagePreference m =
     (if \<not> persistChoice m then (Inr (), m)
      else (case loadLanguagePreference_try m of
              (Inr u, m') \<Rightarrow> (Inr (), m')
            | (Inl e, m') \<Rightarrow> (Inr (), i18n_logger Warn ''Failed to load language preference:'' m')))"

definition saveLanguagePreference :: "i18n_manager \<Rightarrow> (error + unit) \<times> i18n_manager" where
  "saveLanguagePreference m =
     (if \<not> persistChoice m then (Inr (), m)
      else (case setItem (i18n_storageKey m) (to_string (currentLanguage m)) (i18n_storage m) of
              (Inr u, st) \<Rightarrow>
                (Inr (), i18n_logger Info (''Language preference saved: '' @ to_string (currentLanguage m))
                           (m\<lparr>i18n_storage := st\<rparr>))
            | (Inl e, st) \<Rightarrow>
                (Inr (), i18n_logger Warn ''Failed to save language preference:''
                           (m\<lparr>i18n_storage := st\<rparr>))))"

text \<open>
  \<open>detectBrowserLanguage\<close>: the language code is the part of the browser's language
  before the first hyphen. There is no \<open>try\<close> here.
\<close>

definition detectBrowserLanguage :: "i18n_manager \<Rightarrow> (error + unit) \<times> i18n_manager" where
  "detectBrowserLanguage m =
     (let languageCode = takeWhile (\<lambda>c. c \<noteq> CHR ''-'') (browserLanguage m)
      in case availableLanguages m of
           None \<Rightarrow> (Inl (Error ''TypeError: Cannot read properties of undefined (reading includes)''), m)
         | Some languages \<Rightarrow>
             (if languageCode \<in> set languages
              then (Inr (), i18n_logger Info (''Browser language detected: '' @ languageCode)
                              (set_currentLanguage languageCode m))
              else (Inr (), m)))"

text \<open>
  \<open>onInit\<close>. Its own \<open>localStorage.getItem\<close>, in the condition of the \<open>if\<close>, is outside
  any \<open>try\<close>, and so are \<open>detectBrowserLanguage\<close> and \<open>loadTranslations\<close>: their
  exceptions leave \<open>onInit\<close>. Of \<open>createLanguageToggle\<close> and \<open>applyTranslations\<close> the
  model keeps the log entries. Where the state has no \<open>currentLanguage\<close>, the
  argument of \<open>loadTranslations\<close> is \<open>undefined\<close>, written as the string that the URL
  shows.
\<close>

definition i18n_onInit_rest :: "i18n_manager \<Rightarrow> (error + unit) \<times> i18n_manager" where
  "i18n_onInit_rest m =
     (let m1 = i18n_logger Info ''Language toggle button created'' m
      in case loadTranslations (to_string (currentLanguage m1)) m1 of
           (Inl e, m2) \<Rightarrow> (Inl e, m2)
         | (Inr u, m2) \<Rightarrow> (Inr (), i18n_logger Debug ''Applied translations'' m2))"

definition i18n_onInit :: "i18n_manager \<Rightarrow> (error + unit) \<times> i18n_manager" where
  "i18n_onInit m =
     (let m1 = snd (loadLanguagePreference (i18n_logger Info ''Initializing I18n Manager...'' m))
      in if autoDetect m1
         then (case getItem (i18n_storageKey m1) (i18n_storage m1) of
                 (Inl e, st) \<Rightarrow> (Inl e, m1\<lparr>i18n_storage := st\<rparr>)
               | (Inr saved, st) \<Rightarrow>
                   (if \<not> truthy saved
                    then (case detectBrowserLanguage (m1\<lparr>i18n_storage := st\<rparr>) of
                            (Inl e, m2) \<Rightarrow> (Inl e, m2)
                          | (Inr u, m2) \<Rightarrow> i18n_onInit_rest m2)
                    else i18n_onInit_rest (m1\<lparr>i18n_storage := st\<rparr>)))
         else i18n_onInit_rest m1)"


section \<open>App: configuration and user preferences in local storage\<close>

text \<open>
  The App's theme and language, its configuration object (a map from field to value),
  and \<open>JSON.parse\<close> and \<open>JSON.stringify\<close> as they act on the strings and objects used
  here: \<open>JSON_parse\<close> gives \<open>None\<close> where the text is not JSON.
\<close>

record app =
  app_theme :: string
  app_language :: string
  app_config :: "string \<rightharpoonup> string"
  app_storage :: storage
  JSON_parse :: "string \<Rightarrow> (string \<rightharpoonup> string) option"
  JSON_stringify :: "(string \<times> string) list \<Rightarrow> string"
  app_log :: logger

definition app_logger :: "level \<Rightarrow> string \<Rightarrow> app \<Rightarrow> app" where
  "app_logger l msg a = a\<lparr>app_log := app_log a @ [(l, msg)]\<rparr>"

definition loadConfig_try :: "app \<Rightarrow> (error + unit) \<times> app" where
  "loadConfig_try a =
     (case getItem ''codenexlify-config'' (app_storage a) of
        (Inl e, st) \<Rightarrow> (Inl e, a\<lparr>app_storage := st\<rparr>)
      | (Inr savedConfig, st) \<Rightarrow>
          (let a1 = a\<lparr>app_storage := st\<rparr>
           in if truthy savedConfig
              then (case JSON_parse a1 (the savedConfig) of
                      None \<Rightarrow> (Inl (Error ''SyntaxError''), a1)
                    | Some parsedConfig \<Rightarrow>
                        (Inr (), app_logger Info ''Configuration loaded:''
                                   (a1\<lparr>app_config := app_config a1 ++ parsedConfig\<rparr>)))
              else (Inr (), app_logger Info ''Configuration loaded:'' a1)))"

definition loadConfig :: "app \<Rightarrow> (error + unit) \<times> app" where
  "loadConfig a =
     (case loadConfig_try a of
        (Inr u, a') \<Rightarrow> (Inr (), a')
      | (Inl e, a') \<Rightarrow>
          (Inr (), app_logger Warn ''Failed to load configuration, using defaults'' a'))"

text \<open>\<open>parsed.theme || 'light'\<close> and \<open>parsed.language || 'tr'\<close>.\<close>

definition or_default :: "string option \<Rightarrow> string \<Rightarrow> string" where
  "or_default v d = (if truthy v then the v else d)"

definition loadUserPreferences_try :: "app \<Rightarrow> (error + unit) \<times> app" where
  "loadUserPreferences_try a =
     (case getItem ''codenexlify-preferences'' (app_storage a) of
        (Inl e, st) \<Rightarrow> (Inl e, a\<lparr>app_storage := st\<rparr>)
      | (Inr preferences, st) \<Rightarrow>
          (let a1 = a\<lparr>app_storage := st\<rparr>
           in if truthy preferences
              then (case JSON_parse a1 (the preferences) of
                      None \<Rightarrow> (Inl (Error ''SyntaxError''), a1)
                    | Some parsed \<Rightarrow>
                        (Inr (), a1\<lparr>app_theme := or_default (parsed ''theme'') ''light'',
                                    app_language := or_default (parsed ''language'') ''tr''\<rparr>))
              else (Inr (), a1)))"

definition loadUserPreferences :: "app \<Rightarrow> (error + unit) \<times> app" where
  "loadUserPreferences a =
     (case loadUserPreferences_try a of
        (Inr u, a') \<Rightarrow> (Inr (), a')
      | (Inl e, a') \<Rightarrow> (Inr (), app_logger Warn ''Failed to load user preferences'' a'))"

definition saveUserPreferences :: "app \<Rightarrow> (error + unit) \<times> app" where
  "saveUserPreferences a =
     (let preferences = [(''theme'', app_theme a), (''language'', app_language a)]
      in case setItem ''codenexlify-preferences'' (JSON_stringify a preferences) (app_storage a) of
           (Inr u, st) \<Rightarrow> (Inr (), a\<lparr>app_storage := st\<rparr>)
         | (Inl e, st) \<Rightarrow>
             (Inr (), app_logger Warn ''Failed to save user preferences:'' (a\<lparr>app_storage := st\<rparr>)))"

text \<open>\<open>JSON.stringify\<close> of an object whose values are plain strings without special characters.\<close>

fun separated :: "string \<Rightarrow> string list \<Rightarrow> string" where
  "separated sep [] = []"
| "separated sep [x] = x"
| "separated sep (x # y # ys) = x @ sep @ separated sep (y # ys)"

definition json_object :: "(string \<times> string) list \<Rightarrow> string" where
  "json_object kv =
     ''{'' @ separated '',''
              (map (\<lambda>(k, v). [CHR 0x22] @ k @ [CHR 0x22] @ '':'' @ [CHR 0x22] @ v @ [CHR 0x22]) kv)
       @ ''}''"

definition new_App :: "storage \<Rightarrow> (string \<Rightarrow> (string \<rightharpoonup> string) option) \<Rightarrow> app" where
  "new_App st parse =
     \<lparr>app_theme = ''light'', app_language = ''tr'',
      app_config = [''version'' \<mapsto> ''2.0.0'', ''name'' \<mapsto> ''CodeNexlify''],
      app_storage = st, JSON_parse = parse, JSON_stringify = json_object,
      app_log = []\<rparr>"

text \<open>What \<open>loadTheme\<close> makes of the storage: the saved theme when it is readable, not empty and in the list, and \<open>auto\<close> otherwise.\<close>

definition stored_theme :: "theme_manager \<Rightarrow> string" where
  "stored_theme m =
     (let saved = items (tm_storage m) (storageKey (tm_config m))
      in if \<not> getItem_throws (tm_storage m) \<and> truthy saved \<and> the saved \<in> set (themes (tm_config m))
         then the saved else ''auto'')"


text \<open>
  The key under which a listener of \<open>state:changed\<close> saves a theme, and the managers
  for which no other manager's listener saves under their key.
\<close>

definition saves_under :: "theme_manager \<Rightarrow> state_listener \<Rightarrow> string" where
  "saves_under m l = (case l of ThisManager \<Rightarrow> storageKey (tm_config m) | OtherManager k t \<Rightarrow> k)"

text \<open>
  What the listeners of \<open>state:changed\<close> do to the storage when the change names a
  theme: each saves its manager's theme under its manager's key; \<open>k\<close> and \<open>t\<close> are the
  key and the theme of this manager.
\<close>

fun saves :: "string \<Rightarrow> string \<Rightarrow> state_listener list \<Rightarrow> storage \<Rightarrow> storage" where
  "saves k t [] s = s"
| "saves k t (ThisManager # ls) s = saves k t ls (snd (setItem k t s))"
| "saves k t (OtherManager k' t' # ls) s = saves k t ls (snd (setItem k' t' s))"



section \<open>Concrete inputs\<close>

text \<open>
  A storage that refuses every call; a ThemeManager after \<open>init\<close> on an empty storage
  and an empty document, alone and beside a second ThemeManager that was initialised
  after it and whose theme is \<open>auto\<close> (its \<open>init\<close> has registered its
  \<open>handleStateChange\<close> twice, after the listeners of the first); an I18nManager without
  network, one with it, one whose storage is blocked, and one built with
  \<open>enableStateTracking: false\<close>; component
  classes whose constructor throws or returns; a component with a container; a
  listener that throws.
\<close>

definition blocked_storage :: storage where
  "blocked_storage = empty_storage\<lparr>getItem_throws := True, setItem_throws := True\<rparr>"

definition initialised_ThemeManager :: "storage \<Rightarrow> bool option \<Rightarrow> theme_manager" where
  "initialised_ThemeManager st mq = tm_init (new_ThemeManager st empty_document mq)"


definition offline_I18nManager :: i18n_manager where
  "offline_I18nManager =
     new_I18nManager True ''en-US'' empty_storage (\<lambda>url. NetworkFailure (Error ''Failed to fetch''))"


definition blocked_I18nManager :: i18n_manager where
  "blocked_I18nManager =
     new_I18nManager True ''en-US'' blocked_storage (\<lambda>url. NetworkFailure (Error ''Failed to fetch''))"

definition untracked_I18nManager :: i18n_manager where
  "untracked_I18nManager =
     new_I18nManager False ''en-US'' empty_storage (\<lambda>url. Response True ''200'' (Json url))"

definition broken_class :: component_class where
  "broken_class = \<lparr>class_id = 1, construct = (\<lambda>args. Some (Error ''constructor failed''))\<rparr>"

definition working_class :: component_class where
  "working_class = \<lparr>class_id = 2, construct = (\<lambda>args. None)\<rparr>"

definition test_component :: component where
  "test_component = new_BaseComponent ''TestComponent'' default_config (Some (Node 1))"

definition untracked_component :: component where
  "untracked_component =
     new_BaseComponent ''TestComponent'' (default_config\<lparr>enableStateTracking := False\<rparr>) None"

definition failing_listener :: callback where
  "failing_listener = Function 0 (Some (Error ''listener failed''))"

definition bus_with_failing_listener :: event_bus where
  "bus_with_failing_listener =
     snd (once_on ''ready'' failing_listener default_options (new_EventBus False))"


section \<open>ThemeManager: what each method changes\<close>

lemma tm_logger_fields [simp]:
  "tm_state (tm_logger l s m) = tm_state m"
  "tm_config (tm_logger l s m) = tm_config m"
  "tm_document (tm_logger l s m) = tm_document m"
  "tm_storage (tm_logger l s m) = tm_storage m"
  "tm_handlers (tm_logger l s m) = tm_handlers m"
  "tm_toggleButton (tm_logger l s m) = tm_toggleButton m"
  by (simp_all add: tm_logger_def)

lemma tm_emit_fields [simp]:
  "tm_state (tm_emit e m) = tm_state m"
  "tm_config (tm_emit e m) = tm_config m"
  "tm_document (tm_emit e m) = tm_document m"
  "tm_storage (tm_emit e m) = tm_storage m"
  "tm_handlers (tm_emit e m) = tm_handlers m"
  "tm_toggleButton (tm_emit e m) = tm_toggleButton m"
  by (simp_all add: tm_emit_def)

lemma updateToggleButton_fields [simp]:
  "tm_state (updateToggleButton m) = tm_state m"
  "tm_config (updateToggleButton m) = tm_config m"
  "tm_document (updateToggleButton m) = tm_document m"
  "tm_storage (updateToggleButton m) = tm_storage m"
  "tm_handlers (updateToggleButton m) = tm_handlers m"
  by (simp_all add: updateToggleButton_def Let_def split: option.splits)

lemma saveTheme_fields [simp]:
  "fst (saveTheme m) = Inr ()"
  "tm_state (snd (saveTheme m)) = tm_state m"
  "tm_config (snd (saveTheme m)) = tm_config m"
  "tm_document (snd (saveTheme m)) = tm_document m"
  "tm_handlers (snd (saveTheme m)) = tm_handlers m"
  by (simp_all add: saveTheme_def saveTheme_try_def setItem_def Let_def split: prod.splits sum.splits)

lemma saveTheme_storage:
  "tm_storage (snd (saveTheme m))
     = snd (setItem (storageKey (tm_config m)) (currentTheme (tm_state m)) (tm_storage m))"
  by (simp add: saveTheme_def saveTheme_try_def setItem_def Let_def split: prod.splits sum.splits)

lemma handleStateChange_fields [simp]:
  "tm_state (handleStateChange ch m) = tm_state m"
  "tm_config (handleStateChange ch m) = tm_config m"
  "tm_document (handleStateChange ch m) = tm_document m"
  "tm_handlers (handleStateChange ch m) = tm_handlers m"
  by (simp_all add: handleStateChange_def)

lemma listener_fields [simp]:
  "tm_state (state_changed_listener ch l m) = tm_state m"
  "tm_config (state_changed_listener ch l m) = tm_config m"
  "tm_document (state_changed_listener ch l m) = tm_document m"
  "tm_handlers (state_changed_listener ch l m) = tm_handlers m"
  by (cases l; simp)+

lemma emit_state_changed_fields [simp]:
  "tm_state (emit_state_changed ch ls m) = tm_state m"
  "tm_config (emit_state_changed ch ls m) = tm_config m"
  "tm_document (emit_state_changed ch ls m) = tm_document m"
  "tm_handlers (emit_state_changed ch ls m) = tm_handlers m"
  by (induction ls arbitrary: m; simp)+

lemma setState_fields [simp]:
  "tm_config (setState ch m) = tm_config m"
  "tm_document (setState ch m) = tm_document m"
  "tm_handlers (setState ch m) = tm_handlers m"
  by (simp_all add: setState_def Let_def)

lemma setState_state:
  "tm_state (setState ch m) =
     (if tm_enableStateTracking (tm_config m) then merge_state (tm_state m) ch else tm_state m)"
  by (simp add: setState_def Let_def)

lemma applyTheme_fields [simp]:
  "tm_config (applyTheme t m) = tm_config m"
  "tm_handlers (applyTheme t m) = tm_handlers m"
  "data_theme (tm_document (applyTheme t m)) =
     Some (if t = ''auto'' then systemPreference (tm_state m) else t)"
  "currentTheme (tm_state (applyTheme t m)) = currentTheme (tm_state m)"
  "systemPreference (tm_state (applyTheme t m)) = systemPreference (tm_state m)"
  "tm_initialized (tm_state (applyTheme t m)) = tm_initialized (tm_state m)"
  by (simp_all add: applyTheme_def Let_def updateMetaThemeColor_def setState_state merge_state_def no_changes_def)

lemma emit_state_changed_none:
  "\<not> truthy (ch_currentTheme ch) \<Longrightarrow> emit_state_changed ch ls m = m"
proof (induction ls arbitrary: m)
  case Nil
  show ?case by simp
next
  case (Cons l ls)
  have "state_changed_listener ch l m = m"
    using Cons.prems by (cases l) (simp_all add: handleStateChange_def)
  then show ?case using Cons by simp
qed

subsection \<open>The storage calls of the listeners\<close>

lemma saves_flags [simp]:
  "getItem_throws (saves k t ls s) = getItem_throws s"
  "setItem_throws (saves k t ls s) = setItem_throws s"
  by (induction k t ls s rule: saves.induct; simp add: setItem_def Let_def)+

lemma saves_accesses:
  "accesses (saves k t ls s)
     = accesses s @ map (\<lambda>l. SetItem (case l of ThisManager \<Rightarrow> k | OtherManager k' t' \<Rightarrow> k')) ls"
  by (induction k t ls s rule: saves.induct) (simp_all add: setItem_def Let_def)



lemma listener_storage:
  assumes "truthy (ch_currentTheme ch)"
  shows "tm_storage (state_changed_listener ch l m)
           = saves (storageKey (tm_config m)) (currentTheme (tm_state m)) [l] (tm_storage m)"
  using assms by (cases l) (simp_all add: handleStateChange_def saveTheme_storage)

lemma emit_state_changed_storage:
  assumes "truthy (ch_currentTheme ch)"
  shows "tm_storage (emit_state_changed ch ls m)
           = saves (storageKey (tm_config m)) (currentTheme (tm_state m)) ls (tm_storage m)"
proof (induction ls arbitrary: m)
  case Nil
  show ?case by simp
next
  case (Cons l ls)
  show ?case
    using Cons [of "state_changed_listener ch l m"] listener_storage [OF assms, of l m]
    by (cases l) simp_all
qed

lemma setState_storage:
  "tm_storage (setState ch m)
     = (if tm_enableStateTracking (tm_config m) \<and> truthy (ch_currentTheme ch)
        then saves (storageKey (tm_config m)) (the (ch_currentTheme ch)) (tm_handlers m) (tm_storage m)
        else tm_storage m)"
proof (cases "tm_enableStateTracking (tm_config m) \<and> truthy (ch_currentTheme ch)")
  case True
  define m3 where "m3 = tm_emit ''state:changed''
      (if tm_debugMode (tm_config m)
       then tm_logger Debug ''State updated:'' (m\<lparr>tm_state := merge_state (tm_state m) ch\<rparr>)
       else m\<lparr>tm_state := merge_state (tm_state m) ch\<rparr>)"
  have f: "tm_storage m3 = tm_storage m" "tm_config m3 = tm_config m" "tm_handlers m3 = tm_handlers m"
          "currentTheme (tm_state m3) = the (ch_currentTheme ch)"
    using True by (auto simp add: m3_def merge_state_def truthy_def split: option.splits)
  have "setState ch m = emit_state_changed ch (tm_handlers m3) m3"
    using True by (simp add: setState_def Let_def m3_def)
  then show ?thesis
    using emit_state_changed_storage [of ch "tm_handlers m3" m3] True f by simp
next
  case False
  then show ?thesis
    by (auto simp add: setState_def Let_def emit_state_changed_none)
qed


lemma next_index_default:
  "ts = [''light'', ''dark'', ''auto''] \<Longrightarrow>
   ts ! nat ((indexOf ts c + 1) mod int (length ts))
     = (if c = ''light'' then ''dark'' else if c = ''dark'' then ''auto'' else ''light'')"
proof -
  assume ts: "ts = [''light'', ''dark'', ''auto'']"
  consider "c = ''light''" | "c = ''dark''" | "c = ''auto''"
    | "c \<noteq> ''light''" "c \<noteq> ''dark''" "c \<noteq> ''auto''" by blast
  then show ?thesis
  proof cases
    case 1 then show ?thesis using ts by simp
  next
    case 2 then show ?thesis using ts by simp
  next
    case 3 then show ?thesis using ts by simp
  next
    case 4 then show ?thesis using ts by auto
  qed
qed

lemma toggle_default:
  assumes "themes (tm_config m) = [''light'', ''dark'', ''auto'']"
  shows "toggleTheme m = snd (setTheme
           (if currentTheme (tm_state m) = ''light'' then ''dark''
            else if currentTheme (tm_state m) = ''dark'' then ''auto'' else ''light'') m)"
  unfolding toggleTheme_def Let_def
  using next_index_default [OF assms, of "currentTheme (tm_state m)"] assms
  by (simp del: indexOf.simps)

lemma setTheme_changed:
  assumes "t \<in> set (themes (tm_config m))" "t \<noteq> currentTheme (tm_state m)"
  shows "setTheme t m =
     (True, announceThemeChange t
        (tm_logger Info (''Theme changed: '' @ currentTheme (tm_state m) @ '' -> '' @ t)
           (applyTheme t (setState (no_changes\<lparr>ch_currentTheme := Some t\<rparr>) m))))"
  using assms by (auto simp add: setTheme_def Let_def)


lemma announce_fields [simp]:
  "tm_state (announceThemeChange t m) = tm_state m"
  "tm_config (announceThemeChange t m) = tm_config m"
  "tm_document (announceThemeChange t m) = tm_document m"
  "tm_storage (announceThemeChange t m) = tm_storage m"
  "tm_handlers (announceThemeChange t m) = tm_handlers m"
  by (simp_all add: announceThemeChange_def)

lemma setState_systemPreference [simp]:
  "ch_systemPreference ch = None \<Longrightarrow>
   systemPreference (tm_state (setState ch m)) = systemPreference (tm_state m)"
  by (simp add: setState_state merge_state_def)

lemma setTheme_data_theme:
  assumes "t \<in> set (themes (tm_config m))" "t \<noteq> currentTheme (tm_state m)"
  shows "data_theme (tm_document (snd (setTheme t m)))
           = Some (if t = ''auto'' then systemPreference (tm_state m) else t)"
  using assms by (simp add: setTheme_changed no_changes_def)

lemma setTheme_currentTheme:
  assumes "t \<in> set (themes (tm_config m))" "tm_enableStateTracking (tm_config m)"
  shows "currentTheme (tm_state (snd (setTheme t m))) = t"
proof (cases "t = currentTheme (tm_state m)")
  case True
  then show ?thesis using assms by (simp add: setTheme_def)
next
  case False
  then show ?thesis
    using assms by (simp add: setTheme_changed setState_state merge_state_def no_changes_def)
qed

lemma applyTheme_storage:
  "tm_storage (applyTheme t m) = tm_storage m"
  by (simp add: applyTheme_def Let_def updateMetaThemeColor_def setState_storage truthy_def
        no_changes_def)

lemma setTheme_storage:
  "tm_storage (snd (setTheme t m))
     = (if t \<in> set (themes (tm_config m)) \<and> t \<noteq> currentTheme (tm_state m) \<and> t \<noteq> []
           \<and> tm_enableStateTracking (tm_config m)
        then saves (storageKey (tm_config m)) t (tm_handlers m) (tm_storage m)
        else tm_storage m)"
proof (cases "t \<in> set (themes (tm_config m)) \<and> t \<noteq> currentTheme (tm_state m)")
  case True
  then show ?thesis
    by (simp add: setTheme_changed applyTheme_storage setState_storage truthy_def no_changes_def)
next
  case False
  then show ?thesis by (auto simp add: setTheme_def)
qed

lemma loadTheme_reads:
  assumes "\<not> getItem_throws (tm_storage m)"
      and "items (tm_storage m) (storageKey (tm_config m)) = Some t"
      and "t \<noteq> []" "t \<in> set (themes (tm_config m))"
      and "tm_enableStateTracking (tm_config m)"
  shows "currentTheme (tm_state (snd (loadTheme m))) = t"
  using assms
  by (simp add: loadTheme_def loadTheme_try_def getItem_def Let_def truthy_def
        setState_state merge_state_def no_changes_def)

subsection \<open>The state after \<open>init\<close>\<close>

lemma tm_logger_env [simp]:
  "matchMedia (tm_logger l s m) = matchMedia m"
  "tm_log (tm_logger l s m) = tm_log m @ [(l, s)]"
  by (simp_all add: tm_logger_def)

lemma detectSystemPreference_fields [simp]:
  "tm_config (detectSystemPreference m) = tm_config m"
  "tm_handlers (detectSystemPreference m) = tm_handlers m"
  "tm_document (detectSystemPreference m) = tm_document m"
  "tm_storage (detectSystemPreference m) = tm_storage m"
  "currentTheme (tm_state (detectSystemPreference m)) = currentTheme (tm_state m)"
  "tm_initialized (tm_state (detectSystemPreference m)) = tm_initialized (tm_state m)"
  by (simp_all add: detectSystemPreference_def Let_def setState_storage truthy_def no_changes_def
        setState_state merge_state_def split: option.splits)

lemma detectSystemPreference_systemPreference:
  "systemPreference (tm_state (detectSystemPreference m)) =
     (if enableSystemDetection (tm_config m) \<and> tm_enableStateTracking (tm_config m)
      then (case matchMedia m of
              Some dark \<Rightarrow> (if dark then ''dark'' else ''light'')
            | None \<Rightarrow> systemPreference (tm_state m))
      else systemPreference (tm_state m))"
  by (simp add: detectSystemPreference_def Let_def no_changes_def
        setState_state merge_state_def split: option.splits)

lemma loadTheme_fields [simp]:
  "tm_config (snd (loadTheme m)) = tm_config m"
  "tm_handlers (snd (loadTheme m)) = tm_handlers m"
  "tm_document (snd (loadTheme m)) = tm_document m"
  "systemPreference (tm_state (snd (loadTheme m))) = systemPreference (tm_state m)"
  "tm_initialized (tm_state (snd (loadTheme m))) = tm_initialized (tm_state m)"
  by (simp_all add: loadTheme_def loadTheme_try_def getItem_def Let_def no_changes_def
        setState_state merge_state_def split: prod.splits sum.splits)

lemma loadTheme_currentTheme:
  "currentTheme (tm_state (snd (loadTheme m))) =
     (if tm_enableStateTracking (tm_config m) then stored_theme m else currentTheme (tm_state m))"
  by (auto simp add: loadTheme_def loadTheme_try_def getItem_def Let_def no_changes_def
        stored_theme_def setState_state merge_state_def truthy_def
        split: prod.splits sum.splits option.splits)

text \<open>\<open>loadTheme\<close> reads the key once; then the listeners save.\<close>

lemma loadTheme_storage:
  "tm_storage (snd (loadTheme m))
     = (let s = snd (getItem (storageKey (tm_config m)) (tm_storage m))
        in if tm_enableStateTracking (tm_config m)
           then saves (storageKey (tm_config m)) (stored_theme m) (tm_handlers m) s
           else s)"
proof -
  have t: "truthy (Some ''auto'')" by (simp add: truthy_def)
  show ?thesis
    by (auto simp add: loadTheme_def loadTheme_try_def getItem_def Let_def no_changes_def
          stored_theme_def setState_storage t split: prod.splits sum.splits)
qed

lemma createToggleButton_fields [simp]:
  "tm_config (createToggleButton m) = tm_config m"
  "tm_handlers (createToggleButton m) = tm_handlers m"
  "tm_state (createToggleButton m) = tm_state m"
  "tm_storage (createToggleButton m) = tm_storage m"
  by (simp_all add: createToggleButton_def styleToggleButton_def Let_def)

lemma setup_fields [simp]:
  "tm_config (tm_setupEventListeners m) = tm_config m"
  "tm_handlers (tm_setupEventListeners m) = tm_handlers m @ [ThisManager]"
  "tm_state (tm_setupEventListeners m) = tm_state m"
  "tm_storage (tm_setupEventListeners m) = tm_storage m"
  "tm_document (tm_setupEventListeners m) = tm_document m"
  "tm_config (setupThemeTransitions m) = tm_config m"
  "tm_handlers (setupThemeTransitions m) = tm_handlers m"
  "tm_state (setupThemeTransitions m) = tm_state m"
  "tm_storage (setupThemeTransitions m) = tm_storage m"
  "data_theme (tm_document (setupThemeTransitions m)) = data_theme (tm_document m)"
  by (simp_all add: tm_setupEventListeners_def setupThemeTransitions_def)

lemma tm_onInit_fields [simp]:
  "tm_config (tm_onInit m) = tm_config m"
  "tm_handlers (tm_onInit m) = tm_handlers m @ [ThisManager]"
  "tm_initialized (tm_state (tm_onInit m)) = tm_initialized (tm_state m)"
  by (simp_all add: tm_onInit_def Let_def)

lemma tm_onInit_currentTheme:
  "currentTheme (tm_state (tm_onInit m)) =
     (if tm_enableStateTracking (tm_config m) then stored_theme m else currentTheme (tm_state m))"
  by (simp add: tm_onInit_def Let_def loadTheme_currentTheme stored_theme_def)

lemma tm_onInit_systemPreference:
  "systemPreference (tm_state (tm_onInit m)) = systemPreference (tm_state (detectSystemPreference m))"
  by (simp add: tm_onInit_def Let_def detectSystemPreference_systemPreference
        split: option.splits)

lemma tm_onInit_data_theme:
  "data_theme (tm_document (tm_onInit m)) = Some (getEffectiveTheme (tm_onInit m))"
  by (simp add: tm_onInit_def Let_def getEffectiveTheme_def)

lemma tm_onInit_storage:
  "tm_storage (tm_onInit m) = tm_storage (snd (loadTheme m))"
  by (simp add: tm_onInit_def Let_def applyTheme_storage loadTheme_storage stored_theme_def)

lemma initialized_flag [simp]:
  "currentTheme (tm_state (setState (no_changes\<lparr>ch_initialized := Some b\<rparr>) m)) = currentTheme (tm_state m)"
  "systemPreference (tm_state (setState (no_changes\<lparr>ch_initialized := Some b\<rparr>) m))
     = systemPreference (tm_state m)"
  "tm_storage (setState (no_changes\<lparr>ch_initialized := Some b\<rparr>) m) = tm_storage m"
  by (simp_all add: setState_state setState_storage merge_state_def no_changes_def truthy_def)

lemma tm_init_fields [simp]:
  "tm_config (tm_init m) = tm_config m"
  by (simp add: tm_init_def Let_def)

lemma tm_init_handlers:
  "\<not> tm_initialized (tm_state m) \<Longrightarrow>
   tm_handlers (tm_init m)
     = tm_handlers m @ (if tm_enableEvents (tm_config m) then [ThisManager, ThisManager]
                        else [ThisManager])"
  by (simp add: tm_init_def Let_def)

lemma tm_init_currentTheme:
  "\<not> tm_initialized (tm_state m) \<Longrightarrow>
   currentTheme (tm_state (tm_init m)) =
     (if tm_enableStateTracking (tm_config m) then stored_theme m else currentTheme (tm_state m))"
  by (simp add: tm_init_def Let_def tm_onInit_currentTheme stored_theme_def)

lemma tm_init_systemPreference:
  "\<not> tm_initialized (tm_state m) \<Longrightarrow>
   systemPreference (tm_state (tm_init m)) = systemPreference (tm_state (detectSystemPreference m))"
  by (simp add: tm_init_def Let_def tm_onInit_systemPreference detectSystemPreference_systemPreference
        split: option.splits)

lemma tm_init_data_theme:
  "\<not> tm_initialized (tm_state m) \<Longrightarrow>
   data_theme (tm_document (tm_init m)) = Some (getEffectiveTheme (tm_init m))"
  using tm_onInit_data_theme [of "tm_logger Info ''Initializing component: ThemeManager'' m"]
  by (simp add: tm_init_def Let_def getEffectiveTheme_def)

lemma tm_init_initialized:
  "tm_enableStateTracking (tm_config m) \<Longrightarrow> tm_initialized (tm_state (tm_init m))"
  by (simp add: tm_init_def Let_def setState_state merge_state_def no_changes_def)

text \<open>\<open>init\<close> makes the storage calls of \<open>loadTheme\<close> and no others.\<close>

lemma tm_init_storage_loadTheme:
  "\<not> tm_initialized (tm_state m) \<Longrightarrow> tm_storage (tm_init m) = tm_storage (snd (loadTheme m))"
  by (simp add: tm_init_def Let_def tm_onInit_storage loadTheme_storage stored_theme_def)

lemma tm_init_storage:
  assumes "tm_handlers m = []" "\<not> tm_initialized (tm_state m)"
  shows "items (tm_storage (tm_init m)) = items (tm_storage m)"
    and "getItem_throws (tm_storage (tm_init m)) = getItem_throws (tm_storage m)"
    and "setItem_throws (tm_storage (tm_init m)) = setItem_throws (tm_storage m)"
  using assms
  by (simp_all add: tm_init_storage_loadTheme loadTheme_storage getItem_def Let_def)


lemma setTheme_config [simp]: "tm_config (snd (setTheme t m)) = tm_config m"
  by (simp add: setTheme_def Let_def)

lemma setTheme_handlers [simp]: "tm_handlers (snd (setTheme t m)) = tm_handlers m"
  by (simp add: setTheme_def Let_def)


section \<open>BaseComponent: the lifecycle\<close>

lemma c_logger_fields [simp]:
  "state (c_logger l s c) = state c" "config (c_logger l s c) = config c"
  "container (c_logger l s c) = container c" "element (c_logger l s c) = element c"
  "children (c_logger l s c) = children c" "onInit (c_logger l s c) = onInit c"
  "onMount (c_logger l s c) = onMount c" "onDestroy (c_logger l s c) = onDestroy c"
  "hooks (c_logger l s c) = hooks c" "name (c_logger l s c) = name c"
  "dependencies (c_logger l s c) = dependencies c" "window_has (c_logger l s c) = window_has c"
  "c_emitted (c_logger l s c) = c_emitted c"
  "c_log (c_logger l s c) = c_log c @ [(l, s)]"
  by (simp_all add: c_logger_def)

lemma c_emit_fields [simp]:
  "state (c_emit ev c) = state c" "config (c_emit ev c) = config c"
  "container (c_emit ev c) = container c" "element (c_emit ev c) = element c"
  "children (c_emit ev c) = children c" "onInit (c_emit ev c) = onInit c"
  "onMount (c_emit ev c) = onMount c" "onDestroy (c_emit ev c) = onDestroy c"
  "hooks (c_emit ev c) = hooks c" "name (c_emit ev c) = name c"
  "dependencies (c_emit ev c) = dependencies c" "window_has (c_emit ev c) = window_has c"
  "c_log (c_emit ev c) = c_log c"
  "c_emitted (c_emit ev c) = c_emitted c @ [ev]"
  by (simp_all add: c_emit_def)

lemma run_hook_list_fields [simp]:
  "state (run_hook_list hn hs c) = state c" "config (run_hook_list hn hs c) = config c"
  "container (run_hook_list hn hs c) = container c" "element (run_hook_list hn hs c) = element c"
  "children (run_hook_list hn hs c) = children c" "onInit (run_hook_list hn hs c) = onInit c"
  "onMount (run_hook_list hn hs c) = onMount c" "onDestroy (run_hook_list hn hs c) = onDestroy c"
  "hooks (run_hook_list hn hs c) = hooks c" "name (run_hook_list hn hs c) = name c"
  "dependencies (run_hook_list hn hs c) = dependencies c" "window_has (run_hook_list hn hs c) = window_has c"
  "c_emitted (run_hook_list hn hs c) = c_emitted c"
  by (induction hn hs c rule: run_hook_list.induct) simp_all

lemma runHooks_fields [simp]:
  "state (runHooks h c) = state c" "config (runHooks h c) = config c"
  "container (runHooks h c) = container c" "element (runHooks h c) = element c"
  "children (runHooks h c) = children c" "onInit (runHooks h c) = onInit c"
  "onMount (runHooks h c) = onMount c" "onDestroy (runHooks h c) = onDestroy c"
  "hooks (runHooks h c) = hooks c" "name (runHooks h c) = name c"
  "dependencies (runHooks h c) = dependencies c" "window_has (runHooks h c) = window_has c"
  "c_emitted (runHooks h c) = c_emitted c"
  by (simp_all add: runHooks_def)

lemma c_setState_fields [simp]:
  "config (c_setState f c) = config c"
  "container (c_setState f c) = container c" "element (c_setState f c) = element c"
  "children (c_setState f c) = children c" "onInit (c_setState f c) = onInit c"
  "onMount (c_setState f c) = onMount c" "onDestroy (c_setState f c) = onDestroy c"
  "hooks (c_setState f c) = hooks c" "name (c_setState f c) = name c"
  by (simp_all add: c_setState_def Let_def)

lemma c_setState_state:
  "state (c_setState f c) = (if enableStateTracking (config c) then f (state c) else state c)"
  by (simp add: c_setState_def Let_def)

lemma createElement_fields [simp]:
  "state (createElement c) = state c" "config (createElement c) = config c"
  "container (createElement c) = container c"
  "onMount (createElement c) = onMount c" "name (createElement c) = name c"
  "element (createElement c) \<noteq> None"
  by (simp_all add: createElement_def)

lemma checkDependencies_fields [simp]:
  "state (snd (checkDependencies c)) = state c" "config (snd (checkDependencies c)) = config c"
  "container (snd (checkDependencies c)) = container c"
  "onInit (snd (checkDependencies c)) = onInit c"
  "name (snd (checkDependencies c)) = name c"
  by (simp_all add: checkDependencies_def Let_def split: option.splits)

lemma mount_finish_fields [simp]:
  "config (mount_finish c) = config c"
  "state (mount_finish c) =
     (if enableStateTracking (config c) then (state c)\<lparr>mounted := True\<rparr> else state c)"
  by (simp_all add: mount_finish_def Let_def c_setState_state
        split: option.splits container.splits)

lemma mount_catch_fields [simp]:
  "fst (mount_catch e c) = Inl e"
  "config (snd (mount_catch e c)) = config c"
  by (simp_all add: mount_catch_def)

lemma init_catch_fields [simp]:
  "fst (init_catch e c) = Inl e"
  "config (snd (init_catch e c)) = config c"
  "state (snd (init_catch e c)) =
     (if enableStateTracking (config c) then (state c)\<lparr>error := Some e\<rparr> else state c)"
  "c_log (snd (init_catch e c)) =
     c_log (c_setState (\<lambda>s. s\<lparr>error := Some e\<rparr>) c) @ [(Err, ''Failed to initialize component: '' @ name c)]"
  by (simp_all add: init_catch_def c_setState_state)

lemma mount_try_config [simp]: "config (snd (mount_try cont c)) = config c"
  by (simp add: mount_try_def Let_def split: option.splits)

lemma mount_try_ok:
  assumes "mount_try cont c = (Inr u, c')" "enableStateTracking (config c)"
  shows "mounted (state c')" "initialized (state c') = initialized (state c)"
  using assms
  by (auto simp add: mount_try_def Let_def mount_catch_def split: option.splits if_splits)

lemma destroy_sets_flags:
  assumes "\<not> destroyed (state c)" "enableStateTracking (config c)"
          "destroy_children (children c) = None" "onDestroy c = None"
  shows "state (destroy c) = (state c)\<lparr>destroyed := True, mounted := False, initialized := False\<rparr>"
  using assms
  by (simp add: destroy_def Let_def c_setState_state split: option.splits element.splits)

lemma destroy_already_destroyed:
  "destroyed (state c) \<Longrightarrow> destroy c = c\<lparr>c_log := c_log c @ [(Warn, ''Component already destroyed'')]\<rparr>"
  by (simp add: destroy_def c_logger_def)

lemma mount_initialized:
  assumes "initialized (state c)"
  shows "mount (Suc n) cont c =
           Some (if mounted (state c) then (Inr (), c_logger Warn ''Component already mounted'' c)
                 else mount_try cont c)"
  using assms by simp

lemma checkDependencies_result:
  assumes "checkDependencies c = (r, c2)"
  shows "state c2 = state c \<and> config c2 = config c \<and> container c2 = container c
         \<and> name c2 = name c \<and> onInit c2 = onInit c"
  using assms checkDependencies_fields [of c] by simp

lemma init_start_fields [simp]:
  "config (snd (init_start c)) = config c"
  "container (snd (init_start c)) = container c"
  by (auto simp add: init_start_def Let_def dest!: checkDependencies_result
        split: prod.splits sum.splits option.splits)

lemma init_start_ok:
  assumes "init_start c = (Inr u, c3)" "enableStateTracking (config c)"
  shows "initialized (state c3)"
  using assms
  by (auto simp add: init_start_def Let_def c_setState_state dest!: checkDependencies_result
        split: prod.splits sum.splits option.splits)

lemma init_start_state_err:
  assumes "init_start c = (Inl e, c2)"
  shows "state c2 = state c" "name c2 = name c"
  using assms
  by (auto simp add: init_start_def Let_def dest!: checkDependencies_result
        split: prod.splits sum.splits option.splits)

lemma init_finish_fields [simp]:
  "state (init_finish c) = state c" "config (init_finish c) = config c"
  by (simp_all add: init_finish_def)

lemma init_total:
  assumes "enableStateTracking (config c)"
  shows "init (Suc (Suc n)) c \<noteq> None"
proof (cases "initialized (state c)")
  case True
  then show ?thesis by simp
next
  case False
  obtain r c3 where st: "init_start c = (r, c3)" by (cases "init_start c")
  show ?thesis
  proof (cases r)
    case (Inl e)
    then show ?thesis using False st by simp
  next
    case (Inr u)
    have i3: "initialized (state c3)" using init_start_ok st Inr assms by blast
    have m: "mount (Suc n) None c3 \<noteq> None"
      using mount_initialized [OF i3] by simp
    show ?thesis
      using False st Inr m
      by (auto simp del: mount.simps split: option.splits sum.splits prod.splits)
  qed
qed

lemma mount_total:
  assumes "enableStateTracking (config c)"
  shows "mount (Suc (Suc (Suc n))) cont c \<noteq> None"
  using init_total [OF assms, of n]
  by (auto simp del: init.simps split: option.splits sum.splits prod.splits)

lemma mount_keeps_initialized:
  assumes "initialized (state c)" "enableStateTracking (config c)"
          "mount k cont c = Some (Inr u, c')"
  shows "initialized (state c')" "config c' = config c"
proof -
  obtain n where k: "k = Suc n" using assms(3) by (cases k) auto
  have "initialized (state c') \<and> config c' = config c"
  proof (cases "mounted (state c)")
    case True
    then have "c' = c_logger Warn ''Component already mounted'' c"
      using assms(3) unfolding k by simp
    then show ?thesis using assms(1) by simp
  next
    case False
    then have m: "mount_try cont c = (Inr u, c')"
      using assms(1,3) unfolding k by simp
    have "initialized (state c')" using mount_try_ok(2) [OF m assms(2)] assms(1) by simp
    moreover have "config c' = config c" using mount_try_config [of cont c] m by simp
    ultimately show ?thesis by simp
  qed
  then show "initialized (state c')" "config c' = config c" by simp_all
qed

lemma init_ok:
  assumes "enableStateTracking (config c)" "init k c = Some (Inr u, c')"
  shows "initialized (state c')" "config c' = config c"
proof -
  obtain n where k: "k = Suc n" using assms(2) by (cases k) auto
  have "initialized (state c') \<and> config c' = config c"
  proof (cases "initialized (state c)")
    case True
    then show ?thesis using assms(2) unfolding k by auto
  next
    case False
    obtain r c3 where st: "init_start c = (r, c3)" by (cases "init_start c")
    have cf: "config c3 = config c" using init_start_fields(1) [of c] st by simp
    show ?thesis
    proof (cases r)
      case (Inl e)
      then show ?thesis using assms(2) False st unfolding k by (simp add: init_catch_def)
    next
      case (Inr v)
      have i3: "initialized (state c3)" "enableStateTracking (config c3)"
        using init_start_ok st Inr assms(1) cf by auto
      from assms(2) show ?thesis
        unfolding k
        using False st Inr i3 cf mount_keeps_initialized [OF i3, of n None]
        by (auto simp add: init_catch_def simp del: mount.simps
              split: sum.splits option.splits if_splits prod.splits)
    qed
  qed
  then show "initialized (state c')" "config c' = config c" by simp_all
qed

lemma mount_ok:
  assumes "enableStateTracking (config c)" "\<not> mounted (state c)"
          "mount k cont c = Some (Inr u, c')"
  shows "mounted (state c') \<and> initialized (state c')"
proof -
  obtain n where k: "k = Suc n" using assms(3) by (cases k) auto
  show ?thesis
  proof (cases "initialized (state c)")
    case True
    then have m: "mount_try cont c = (Inr u, c')"
      using assms(2,3) unfolding k by simp
    show ?thesis using mount_try_ok [OF m assms(1)] True by simp
  next
    case False
    have step: "mount (Suc n) cont c =
        (case init n c of None \<Rightarrow> None
         | Some (Inl e, c1) \<Rightarrow> Some (Inl e, c1)
         | Some (Inr u, c1) \<Rightarrow> Some (mount_try cont c1))"
      using False assms(2) by simp
    obtain r c1 where i: "init n c = Some (r, c1)"
      using assms(3) unfolding k step by (cases "init n c") auto
    obtain v where r: "r = Inr v"
      using assms(3) i unfolding k step by (cases r) auto
    have m: "mount_try cont c1 = (Inr u, c')"
      using assms(3) i r unfolding k step by simp
    have "initialized (state c1)" "config c1 = config c"
      using init_ok [OF assms(1)] i r by auto
    then show ?thesis
      using mount_try_ok [OF m] assms(1) by simp
  qed
qed

section \<open>Local storage: the calls each method makes\<close>

lemma storage_call_accesses [simp]:
  "accesses (snd (getItem k s)) = accesses s @ [GetItem k]"
  "accesses (snd (setItem k v s)) = accesses s @ [SetItem k]"
  "accesses (removeItem k s) = accesses s @ [RemoveItem k]"
  by (simp_all add: getItem_def setItem_def removeItem_def Let_def)

lemma saves_under_accesses:
  "accesses (saves (storageKey (tm_config m)) t ls s)
     = accesses s @ map (\<lambda>l. SetItem (saves_under m l)) ls"
proof -
  have "(\<lambda>l. SetItem (case l of ThisManager \<Rightarrow> storageKey (tm_config m) | OtherManager k' t' \<Rightarrow> k'))
          = (\<lambda>l. SetItem (saves_under m l))"
    by (simp add: saves_under_def)
  then show ?thesis using saves_accesses [of "storageKey (tm_config m)" t ls s] by simp
qed

lemma saveTheme_accesses:
  "accesses (tm_storage (snd (saveTheme m)))
     = accesses (tm_storage m) @ [SetItem (storageKey (tm_config m))]"
  by (simp add: saveTheme_storage)

lemma loadTheme_accesses:
  "accesses (tm_storage (snd (loadTheme m)))
     = accesses (tm_storage m) @ GetItem (storageKey (tm_config m))
         # (if tm_enableStateTracking (tm_config m)
            then map (\<lambda>l. SetItem (saves_under m l)) (tm_handlers m) else [])"
  by (simp add: loadTheme_storage Let_def saves_under_accesses)

lemma setTheme_accesses:
  "accesses (tm_storage (snd (setTheme t m)))
     = accesses (tm_storage m)
         @ (if t \<in> set (themes (tm_config m)) \<and> t \<noteq> currentTheme (tm_state m) \<and> t \<noteq> []
               \<and> tm_enableStateTracking (tm_config m)
            then map (\<lambda>l. SetItem (saves_under m l)) (tm_handlers m) else [])"
  by (simp add: setTheme_storage saves_under_accesses)

lemma toggleTheme_accesses:
  assumes "themes (tm_config m) = [''light'', ''dark'', ''auto'']"
  shows "accesses (tm_storage (toggleTheme m))
     = accesses (tm_storage m)
         @ (if tm_enableStateTracking (tm_config m)
            then map (\<lambda>l. SetItem (saves_under m l)) (tm_handlers m) else [])"
proof -
  define nxt where "nxt = (if currentTheme (tm_state m) = ''light'' then ''dark''
            else if currentTheme (tm_state m) = ''dark'' then ''auto'' else ''light'')"
  have n: "nxt \<in> set (themes (tm_config m))" "nxt \<noteq> currentTheme (tm_state m)" "nxt \<noteq> []"
    using assms by (auto simp add: nxt_def)
  have "toggleTheme m = snd (setTheme nxt m)"
    using toggle_default [OF assms] by (simp add: nxt_def)
  then show ?thesis using n by (simp add: setTheme_accesses)
qed

lemma tm_init_accesses:
  "\<not> tm_initialized (tm_state m) \<Longrightarrow>
   accesses (tm_storage (tm_init m)) = accesses (tm_storage (snd (loadTheme m)))"
  by (simp add: tm_init_storage_loadTheme)

lemma isStorageAvailable_accesses:
  "accesses (tm_storage (snd (isStorageAvailable m)))
     = accesses (tm_storage m)
         @ (if setItem_throws (tm_storage m) then [SetItem ''__theme_test__'']
            else [SetItem ''__theme_test__'', RemoveItem ''__theme_test__''])"
  by (simp add: isStorageAvailable_def setItem_def removeItem_def Let_def)

lemma loadConfig_accesses:
  "accesses (app_storage (snd (loadConfig a)))
     = accesses (app_storage a) @ [GetItem ''codenexlify-config'']"
  by (simp add: loadConfig_def loadConfig_try_def getItem_def Let_def app_logger_def
        split: option.splits)

lemma loadUserPreferences_accesses:
  "accesses (app_storage (snd (loadUserPreferences a)))
     = accesses (app_storage a) @ [GetItem ''codenexlify-preferences'']"
  by (simp add: loadUserPreferences_def loadUserPreferences_try_def getItem_def Let_def
        app_logger_def split: option.splits)

lemma saveUserPreferences_accesses:
  "accesses (app_storage (snd (saveUserPreferences a)))
     = accesses (app_storage a) @ [SetItem ''codenexlify-preferences'']"
  by (simp add: saveUserPreferences_def setItem_def Let_def app_logger_def)


section \<open>I18nManager: one request, then the fallback\<close>

lemma i18n_logger_fields [simp]:
  "fetched (i18n_logger l s m) = fetched m"
  "i18n_translations (i18n_logger l s m) = i18n_translations m"
  "loadedLanguages (i18n_logger l s m) = loadedLanguages m"
  "availableLanguages (i18n_logger l s m) = availableLanguages m"
  "currentLanguage (i18n_logger l s m) = currentLanguage m"
  "fetch (i18n_logger l s m) = fetch m"
  "translationsPath (i18n_logger l s m) = translationsPath m"
  "i18n_storageKey (i18n_logger l s m) = i18n_storageKey m"
  "autoDetect (i18n_logger l s m) = autoDetect m"
  "persistChoice (i18n_logger l s m) = persistChoice m"
  "i18n_enableStateTracking (i18n_logger l s m) = i18n_enableStateTracking m"
  "i18n_storage (i18n_logger l s m) = i18n_storage m"
  "i18n_log (i18n_logger l s m) = i18n_log m @ [(l, s)]"
  by (simp_all add: i18n_logger_def)

lemma set_isLoading_fields [simp]:
  "fetched (set_isLoading v m) = fetched m"
  "i18n_translations (set_isLoading v m) = i18n_translations m"
  "loadedLanguages (set_isLoading v m) = loadedLanguages m"
  "fetch (set_isLoading v m) = fetch m"
  "translationsPath (set_isLoading v m) = translationsPath m"
  "i18n_storage (set_isLoading v m) = i18n_storage m"
  "i18n_log (set_isLoading v m) = i18n_log m"
  by (simp_all add: set_isLoading_def)

lemma set_currentLanguage_fields [simp]:
  "i18n_storage (set_currentLanguage v m) = i18n_storage m"
  "i18n_storageKey (set_currentLanguage v m) = i18n_storageKey m"
  "autoDetect (set_currentLanguage v m) = autoDetect m"
  "persistChoice (set_currentLanguage v m) = persistChoice m"
  "i18n_log (set_currentLanguage v m) = i18n_log m"
  by (simp_all add: set_currentLanguage_def)

lemma loadBuiltIn_fields [simp]:
  "fetched (loadBuiltInEnglishTranslations m) = fetched m"
  "loadedLanguages (loadBuiltInEnglishTranslations m) = loadedLanguages m"
  "i18n_storage (loadBuiltInEnglishTranslations m) = i18n_storage m"
  "i18n_translations (loadBuiltInEnglishTranslations m) = (i18n_translations m)(''en'' \<mapsto> BuiltInEnglish)"
  by (simp_all add: loadBuiltInEnglishTranslations_def)

lemma fetch_translations_fetched:
  "fetched (snd (fetch_translations language m)) = fetched m @ [locale_url m language]"
  "loadedLanguages (snd (fetch_translations language m)) = loadedLanguages m"
  "i18n_storage (snd (fetch_translations language m)) = i18n_storage m"
  by (simp_all add: fetch_translations_def locale_url_def Let_def
        split: fetch_result.splits response_body.splits)

lemma fetch_translations_result:
  "fetch_failed (fetch m (locale_url m language)) \<Longrightarrow>
     (\<exists>e. fst (fetch_translations language m) = Inl e)
     \<and> i18n_translations (snd (fetch_translations language m)) = i18n_translations m"
  "fetch m (locale_url m language) = Response True status (Json file) \<Longrightarrow>
     fst (fetch_translations language m) = Inr ()
     \<and> i18n_translations (snd (fetch_translations language m))
          = (i18n_translations m)(language \<mapsto> FromFile file)"
  by (auto simp add: fetch_translations_def locale_url_def fetch_failed_def Let_def
        split: fetch_result.splits response_body.splits if_splits)

lemma loadTranslations_undefined:
  "loadedLanguages m = None \<Longrightarrow>
   loadTranslations language m
     = (Inl (Error ''TypeError: Cannot read properties of undefined (reading has)''), m)"
  by (simp add: loadTranslations_def)

lemma loadTranslations_never_throws:
  "loadedLanguages m \<noteq> None \<Longrightarrow> fst (loadTranslations language m) = Inr ()"
  by (auto simp add: loadTranslations_def Let_def)


lemma loadTranslations_unloaded:
  assumes "loadedLanguages m = Some loaded" "language \<notin> loaded"
  shows "loadTranslations language m =
     (let m1 = i18n_logger Info (''Loading translations for: '' @ language) (set_isLoading True m);
          m2 = (case fetch_translations language m1 of
                  (Inr u, m') \<Rightarrow> m'
                | (Inl (Error msg), m') \<Rightarrow>
                    (let m'' = i18n_logger Warn (''Failed to load translations from file: '' @ msg) m'
                     in if language = ''en'' then loadBuiltInEnglishTranslations m'' else m''));
          m3 = m2\<lparr>loadedLanguages := map_option (insert language) (loadedLanguages m2)\<rparr>
      in (Inr (), set_isLoading False m3))"
  unfolding loadTranslations_def assms(1) option.case using assms(2) by (rule if_not_P)

lemma loadTranslations_fetches_once:
  assumes "loadedLanguages m = Some loaded" "language \<notin> loaded"
  shows "fetched (snd (loadTranslations language m)) = fetched m @ [locale_url m language]"
    and "loadedLanguages (snd (loadTranslations language m)) = Some (insert language loaded)"
proof -
  define m1 where "m1 = i18n_logger Info (''Loading translations for: '' @ language) (set_isLoading True m)"
  obtain r m' where f: "fetch_translations language m1 = (r, m')"
    by (cases "fetch_translations language m1")
  have fm: "fetched m' = fetched m @ [locale_url m language]"
    using fetch_translations_fetched(1) [of language m1] f by (simp add: m1_def locale_url_def)
  have lm: "loadedLanguages m' = Some loaded"
    using fetch_translations_fetched(2) [of language m1] f assms(1) by (simp add: m1_def)
  show "fetched (snd (loadTranslations language m)) = fetched m @ [locale_url m language]"
    unfolding loadTranslations_unloaded [OF assms] Let_def m1_def [symmetric] f
    using fm by (cases r) (auto split: error.splits)
  show "loadedLanguages (snd (loadTranslations language m)) = Some (insert language loaded)"
    unfolding loadTranslations_unloaded [OF assms] Let_def m1_def [symmetric] f
    using lm by (cases r) (auto split: error.splits)
qed

lemma loadTranslations_failure:
  assumes "loadedLanguages m = Some loaded" "language \<notin> loaded"
          "fetch_failed (fetch m (locale_url m language))"
  shows "i18n_translations (snd (loadTranslations language m))
           = (if language = ''en'' then (i18n_translations m)(''en'' \<mapsto> BuiltInEnglish)
              else i18n_translations m)"
    and "\<exists>msg. (Warn, ''Failed to load translations from file: '' @ msg)
               \<in> set (i18n_log (snd (loadTranslations language m)))"
proof -
  define m1 where "m1 = i18n_logger Info (''Loading translations for: '' @ language) (set_isLoading True m)"
  have ff: "fetch_failed (fetch m1 (locale_url m1 language))"
    using assms(3) by (simp add: m1_def locale_url_def)
  obtain e m' where f: "fetch_translations language m1 = (Inl e, m')"
    using fetch_translations_result(1) [OF ff] by (cases "fetch_translations language m1") auto
  have tm: "i18n_translations m' = i18n_translations m"
    using fetch_translations_result(1) [OF ff] f by (simp add: m1_def)
  obtain msg where e: "e = Error msg" by (cases e)
  show "i18n_translations (snd (loadTranslations language m))
           = (if language = ''en'' then (i18n_translations m)(''en'' \<mapsto> BuiltInEnglish)
              else i18n_translations m)"
    unfolding loadTranslations_unloaded [OF assms(1,2)] Let_def m1_def [symmetric] f e
    using tm by (simp add: set_isLoading_def)
  have "(Warn, ''Failed to load translations from file: '' @ msg)
               \<in> set (i18n_log (snd (loadTranslations language m)))"
    unfolding loadTranslations_unloaded [OF assms(1,2)] Let_def m1_def [symmetric] f e
    by (simp add: loadBuiltInEnglishTranslations_def i18n_logger_def set_isLoading_def)
  then show "\<exists>msg. (Warn, ''Failed to load translations from file: '' @ msg)
               \<in> set (i18n_log (snd (loadTranslations language m)))" by blast
qed


lemma loadTranslations_storage: "i18n_storage (snd (loadTranslations language m)) = i18n_storage m"
proof (cases "loadedLanguages m")
  case None
  then show ?thesis by (simp add: loadTranslations_undefined)
next
  case (Some loaded)
  show ?thesis
  proof (cases "language \<in> loaded")
    case True
    then show ?thesis using Some by (simp add: loadTranslations_def)
  next
    case False
    define m1 where "m1 = i18n_logger Info (''Loading translations for: '' @ language) (set_isLoading True m)"
    obtain r m' where f: "fetch_translations language m1 = (r, m')"
      by (cases "fetch_translations language m1")
    have "i18n_storage m1 = i18n_storage m" by (simp add: m1_def)
    then have "i18n_storage m' = i18n_storage m"
      using fetch_translations_fetched(3) [of language m1] f by simp
    then show ?thesis
      unfolding loadTranslations_unloaded [OF Some False] Let_def m1_def [symmetric] f
      by (cases r) (auto split: error.splits)
  qed
qed

subsection \<open>The language preference and \<open>onInit\<close>\<close>

lemma loadLanguagePreference_fields [simp]:
  "fst (loadLanguagePreference m) = Inr ()"
  "i18n_storageKey (snd (loadLanguagePreference m)) = i18n_storageKey m"
  "autoDetect (snd (loadLanguagePreference m)) = autoDetect m"
  "persistChoice (snd (loadLanguagePreference m)) = persistChoice m"
  by (simp_all add: loadLanguagePreference_def loadLanguagePreference_try_def getItem_def Let_def
        split: option.splits)

lemma loadLanguagePreference_storage:
  "i18n_storage (snd (loadLanguagePreference m))
     = (if persistChoice m then snd (getItem (i18n_storageKey m) (i18n_storage m))
        else i18n_storage m)"
  by (simp add: loadLanguagePreference_def loadLanguagePreference_try_def getItem_def Let_def
        split: option.splits)

lemma loadLanguagePreference_accesses:
  "accesses (i18n_storage (snd (loadLanguagePreference m)))
     = accesses (i18n_storage m) @ (if persistChoice m then [GetItem (i18n_storageKey m)] else [])"
  by (simp add: loadLanguagePreference_storage)

lemma loadLanguagePreference_failure:
  assumes "persistChoice m" "getItem_throws (i18n_storage m)"
  shows "i18n_log (snd (loadLanguagePreference m))
           = i18n_log m @ [(Warn, ''Failed to load language preference:'')]"
    and "currentLanguage (snd (loadLanguagePreference m)) = currentLanguage m"
  using assms
  by (simp_all add: loadLanguagePreference_def loadLanguagePreference_try_def getItem_def Let_def)

lemma saveLanguagePreference_fields [simp]:
  "fst (saveLanguagePreference m) = Inr ()"
  by (simp add: saveLanguagePreference_def setItem_def Let_def)

lemma saveLanguagePreference_accesses:
  "accesses (i18n_storage (snd (saveLanguagePreference m)))
     = accesses (i18n_storage m) @ (if persistChoice m then [SetItem (i18n_storageKey m)] else [])"
  by (simp add: saveLanguagePreference_def setItem_def Let_def)

lemma saveLanguagePreference_failure:
  assumes "persistChoice m" "setItem_throws (i18n_storage m)"
  shows "i18n_log (snd (saveLanguagePreference m))
           = i18n_log m @ [(Warn, ''Failed to save language preference:'')]"
    and "items (i18n_storage (snd (saveLanguagePreference m))) = items (i18n_storage m)"
  using assms by (simp_all add: saveLanguagePreference_def setItem_def Let_def)

lemma detectBrowserLanguage_storage [simp]:
  "i18n_storage (snd (detectBrowserLanguage m)) = i18n_storage m"
  by (simp add: detectBrowserLanguage_def Let_def split: option.splits)

lemma i18n_onInit_rest_storage [simp]:
  "i18n_storage (snd (i18n_onInit_rest m)) = i18n_storage m"
proof -
  define m1 where "m1 = i18n_logger Info ''Language toggle button created'' m"
  obtain r m2 where l: "loadTranslations (to_string (currentLanguage m1)) m1 = (r, m2)"
    by (cases "loadTranslations (to_string (currentLanguage m1)) m1")
  have "i18n_storage m2 = i18n_storage m"
    using loadTranslations_storage [of "to_string (currentLanguage m1)" m1] l by (simp add: m1_def)
  then show ?thesis
    unfolding i18n_onInit_rest_def Let_def m1_def [symmetric] l by (cases r) simp_all
qed

lemma i18n_onInit_accesses:
  "accesses (i18n_storage (snd (i18n_onInit m)))
     = accesses (i18n_storage m)
         @ (if persistChoice m then [GetItem (i18n_storageKey m)] else [])
         @ (if autoDetect m then [GetItem (i18n_storageKey m)] else [])"
proof -
  define m1 where "m1 = snd (loadLanguagePreference (i18n_logger Info ''Initializing I18n Manager...'' m))"
  have f: "autoDetect m1 = autoDetect m" "i18n_storageKey m1 = i18n_storageKey m"
          "accesses (i18n_storage m1)
             = accesses (i18n_storage m) @ (if persistChoice m then [GetItem (i18n_storageKey m)] else [])"
    by (simp_all add: m1_def loadLanguagePreference_accesses)
  show ?thesis
  proof (cases "autoDetect m")
    case False
    then show ?thesis
      unfolding i18n_onInit_def Let_def m1_def [symmetric] using f by simp
  next
    case True
    obtain r st where g: "getItem (i18n_storageKey m1) (i18n_storage m1) = (r, st)"
      by (cases "getItem (i18n_storageKey m1) (i18n_storage m1)")
    have "st = snd (getItem (i18n_storageKey m1) (i18n_storage m1))" using g by simp
    then have st: "accesses st = accesses (i18n_storage m1) @ [GetItem (i18n_storageKey m)]"
      using f(2) by simp
    have d: "i18n_storage (snd (detectBrowserLanguage (m1\<lparr>i18n_storage := st\<rparr>))) = st"
      by simp
    show ?thesis
    proof (cases r)
      case (Inl e)
      then show ?thesis
        unfolding i18n_onInit_def Let_def m1_def [symmetric] g using True f st by simp
    next
      case (Inr saved)
      obtain r2 m2 where db: "detectBrowserLanguage (m1\<lparr>i18n_storage := st\<rparr>) = (r2, m2)"
        by (cases "detectBrowserLanguage (m1\<lparr>i18n_storage := st\<rparr>)")
      have m2: "i18n_storage m2 = st" using d db by simp
      show ?thesis
        unfolding i18n_onInit_def Let_def m1_def [symmetric] g Inr
        using True f st db m2 by (cases r2) simp_all
    qed
  qed
qed

text \<open>An exception of the storage at the \<open>getItem\<close> of \<open>onInit\<close> leaves \<open>onInit\<close>.\<close>

lemma i18n_onInit_throws:
  assumes "autoDetect m" "getItem_throws (i18n_storage m)"
  shows "fst (i18n_onInit m) = Inl (Error ''SecurityError'')"
proof -
  define m1 where "m1 = snd (loadLanguagePreference (i18n_logger Info ''Initializing I18n Manager...'' m))"
  have "getItem_throws (i18n_storage m1)"
    using assms(2) by (simp add: m1_def loadLanguagePreference_storage getItem_def Let_def)
  moreover have "autoDetect m1" using assms(1) by (simp add: m1_def)
  ultimately show ?thesis
    unfolding i18n_onInit_def Let_def m1_def [symmetric] by (simp add: getItem_def Let_def)
qed


section \<open>Failures: caught, or thrown again\<close>

lemma updateToggleButton_log [simp]: "tm_log (updateToggleButton m) = tm_log m"
  by (simp add: updateToggleButton_def Let_def split: option.splits)

lemma saveTheme_log:
  "set (tm_log m) \<subseteq> set (tm_log (snd (saveTheme m)))"
  "setItem_throws (tm_storage m) \<Longrightarrow>
     tm_log (snd (saveTheme m)) = tm_log m @ [(Warn, ''Failed to save theme to storage:'')]"
  by (auto simp add: saveTheme_def saveTheme_try_def setItem_def Let_def tm_logger_def)

lemma listener_log: "set (tm_log m) \<subseteq> set (tm_log (state_changed_listener ch l m))"
  using saveTheme_log(1) [of "updateToggleButton m"]
  by (cases l) (simp_all add: handleStateChange_def)

lemma emit_state_changed_log: "set (tm_log m) \<subseteq> set (tm_log (emit_state_changed ch ls m))"
proof (induction ls arbitrary: m)
  case Nil
  show ?case by simp
next
  case (Cons l ls)
  show ?case
    using Cons [of "state_changed_listener ch l m"] listener_log [of m ch l] by auto
qed

lemma setState_log: "set (tm_log m) \<subseteq> set (tm_log (setState ch m))"
proof (cases "tm_enableStateTracking (tm_config m)")
  case False
  then show ?thesis by (simp add: setState_def)
next
  case True
  define m3 where "m3 = tm_emit ''state:changed''
      (if tm_debugMode (tm_config m)
       then tm_logger Debug ''State updated:'' (m\<lparr>tm_state := merge_state (tm_state m) ch\<rparr>)
       else m\<lparr>tm_state := merge_state (tm_state m) ch\<rparr>)"
  have f: "set (tm_log m) \<subseteq> set (tm_log m3)"
    by (auto simp add: m3_def tm_emit_def tm_logger_def)
  have "setState ch m = emit_state_changed ch (tm_handlers m3) m3"
    using True by (simp add: setState_def Let_def m3_def)
  then show ?thesis using emit_state_changed_log [of m3 ch "tm_handlers m3"] f by auto
qed

lemma loadTheme_never_throws: "fst (loadTheme m) = Inr ()"
  by (simp add: loadTheme_def split: prod.splits sum.splits)

lemma loadTheme_storage_failure:
  assumes "getItem_throws (tm_storage m)"
  shows "(Warn, ''Failed to load theme from storage, using default'') \<in> set (tm_log (snd (loadTheme m)))"
    and "tm_enableStateTracking (tm_config m) \<Longrightarrow> currentTheme (tm_state (snd (loadTheme m))) = ''auto''"
proof -
  define m' where "m' = m\<lparr>tm_storage := (tm_storage m)\<lparr>accesses := accesses (tm_storage m)
                              @ [GetItem (storageKey (tm_config m))]\<rparr>\<rparr>"
  have eq: "snd (loadTheme m) = setState (no_changes\<lparr>ch_currentTheme := Some ''auto''\<rparr>)
                     (tm_logger Warn ''Failed to load theme from storage, using default'' m')"
    using assms by (simp add: loadTheme_def loadTheme_try_def getItem_def Let_def m'_def)
  show "(Warn, ''Failed to load theme from storage, using default'') \<in> set (tm_log (snd (loadTheme m)))"
    unfolding eq
    using setState_log [of "tm_logger Warn ''Failed to load theme from storage, using default'' m'"]
    by (auto simp add: tm_logger_def)
  show "currentTheme (tm_state (snd (loadTheme m))) = ''auto''" if "tm_enableStateTracking (tm_config m)"
    unfolding eq using that by (simp add: setState_state merge_state_def no_changes_def m'_def)
qed

lemma saveTheme_storage_failure:
  assumes "setItem_throws (tm_storage m)"
  shows "items (tm_storage (snd (saveTheme m))) = items (tm_storage m)"
  using assms by (simp add: saveTheme_storage setItem_def Let_def)

lemma app_storage_never_throws:
  "fst (loadConfig a) = Inr ()" "fst (loadUserPreferences a) = Inr ()"
  "fst (saveUserPreferences a) = Inr ()"
  by (simp_all add: loadConfig_def loadUserPreferences_def saveUserPreferences_def Let_def
        split: prod.splits sum.splits)

lemma loadConfig_failure:
  assumes "getItem_throws (app_storage a)"
  shows "app_log (snd (loadConfig a))
           = app_log a @ [(Warn, ''Failed to load configuration, using defaults'')]"
    and "app_config (snd (loadConfig a)) = app_config a"
  using assms by (simp_all add: loadConfig_def loadConfig_try_def getItem_def Let_def app_logger_def)

lemma loadUserPreferences_failure:
  assumes "getItem_throws (app_storage a)"
  shows "app_log (snd (loadUserPreferences a)) = app_log a @ [(Warn, ''Failed to load user preferences'')]"
    and "app_theme (snd (loadUserPreferences a)) = app_theme a"
    and "app_language (snd (loadUserPreferences a)) = app_language a"
  using assms
  by (simp_all add: loadUserPreferences_def loadUserPreferences_try_def getItem_def Let_def
        app_logger_def)

lemma saveUserPreferences_failure:
  assumes "setItem_throws (app_storage a)"
  shows "app_log (snd (saveUserPreferences a)) = app_log a @ [(Warn, ''Failed to save user preferences:'')]"
    and "items (app_storage (snd (saveUserPreferences a))) = items (app_storage a)"
  using assms by (simp_all add: saveUserPreferences_def setItem_def Let_def app_logger_def)

lemma init_start_onInit_throws:
  assumes "missing_dependency (window_has c) (dependencies c) = None" "onInit c = Some e"
  shows "\<exists>c2. init_start c = (Inl e, c2) \<and> name c2 = name c \<and> config c2 = config c
              \<and> state c2 = state c"
proof -
  define c1 where "c1 = runHooks beforeInit (c_logger Info (''Initializing component: '' @ name c) c)"
  have f: "onInit c1 = Some e" "name c1 = name c" "config c1 = config c" "state c1 = state c"
          "missing_dependency (window_has c1) (dependencies c1) = None"
    using assms by (simp_all add: c1_def)
  have "fst (checkDependencies c1) = Inr ()"
    using f(5) by (simp add: checkDependencies_def Let_def)
  then obtain c2 where d: "checkDependencies c1 = (Inr (), c2)"
    by (cases "checkDependencies c1") auto
  have g: "onInit c2 = Some e" "name c2 = name c" "config c2 = config c" "state c2 = state c"
    using checkDependencies_result [OF d] f by simp_all
  have "init_start c = (Inl e, c2)"
    unfolding init_start_def Let_def c1_def [symmetric] d using g(1) by simp
  then show ?thesis using g by blast
qed

lemma catch_emitted:
  "last (c_emitted (snd (init_catch e c))) = ''component:error''"
  "last (c_emitted (snd (mount_catch e c))) = ''component:error''"
  by (simp_all add: init_catch_def mount_catch_def)

lemma mount_catch_state:
  "state (snd (mount_catch e c)) =
     (if enableStateTracking (config c) then (state c)\<lparr>error := Some e\<rparr> else state c)"
  "(Err, ''Failed to mount component: '' @ name c) \<in> set (c_log (snd (mount_catch e c)))"
  by (simp_all add: mount_catch_def c_setState_state)

lemma init_rethrows:
  assumes "\<not> initialized (state c)"
          "missing_dependency (window_has c) (dependencies c) = None" "onInit c = Some e"
  shows "\<exists>c'. init (Suc n) c = Some (Inl e, c')
            \<and> (Err, ''Failed to initialize component: '' @ name c) \<in> set (c_log c')
            \<and> last (c_emitted c') = ''component:error''
            \<and> state c' = (if enableStateTracking (config c) then (state c)\<lparr>error := Some e\<rparr>
                           else state c)"
proof -
  obtain c2 where s: "init_start c = (Inl e, c2)" "name c2 = name c" "config c2 = config c"
      "state c2 = state c"
    using init_start_onInit_throws [OF assms(2,3)] by blast
  have "init (Suc n) c = Some (Inl e, snd (init_catch e c2))"
    using assms(1) s(1) by (simp add: init_catch_def)
  moreover have "(Err, ''Failed to initialize component: '' @ name c) \<in> set (c_log (snd (init_catch e c2)))"
    using s(2) by simp
  moreover have "last (c_emitted (snd (init_catch e c2))) = ''component:error''"
    by (rule catch_emitted)
  moreover have "state (snd (init_catch e c2))
      = (if enableStateTracking (config c) then (state c)\<lparr>error := Some e\<rparr> else state c)"
    using s(3,4) by simp
  ultimately show ?thesis by blast
qed

lemma mount_without_container_rethrows:
  assumes "initialized (state c)" "\<not> mounted (state c)" "\<not> given cont" "\<not> given (container c)"
  shows "\<exists>c'. mount (Suc n) cont c = Some (Inl (Error ''No container specified for mounting''), c')
            \<and> (Err, ''Failed to mount component: '' @ name c) \<in> set (c_log c')
            \<and> last (c_emitted c') = ''component:error''
            \<and> state c' = (if enableStateTracking (config c)
                           then (state c)\<lparr>error := Some (Error ''No container specified for mounting'')\<rparr>
                           else state c)"
proof -
  define c1 where "c1 = c_logger Info (''Mounting component: '' @ name c) c"
  have f: "name c1 = name c" "config c1 = config c" "state c1 = state c" "container c1 = container c"
    by (simp_all add: c1_def)
  have m: "mount (Suc n) cont c = Some (mount_try cont c)" using assms(1,2) by simp
  have t: "mount_try cont c = mount_catch (Error ''No container specified for mounting'') c1"
    using assms(3,4) by (simp add: mount_try_def Let_def c1_def)
  have "mount (Suc n) cont c
          = Some (Inl (Error ''No container specified for mounting''),
                  snd (mount_catch (Error ''No container specified for mounting'') c1))"
    unfolding m t by (simp add: mount_catch_def)
  moreover have "(Err, ''Failed to mount component: '' @ name c)
                   \<in> set (c_log (snd (mount_catch (Error ''No container specified for mounting'') c1)))"
    using mount_catch_state(2) [of c1] f(1) by simp
  moreover have "last (c_emitted (snd (mount_catch (Error ''No container specified for mounting'') c1)))
                   = ''component:error''"
    by (rule catch_emitted)
  moreover have "state (snd (mount_catch (Error ''No container specified for mounting'') c1))
      = (if enableStateTracking (config c)
         then (state c)\<lparr>error := Some (Error ''No container specified for mounting'')\<rparr>
         else state c)"
    using f by (simp add: mount_catch_state(1))
  ultimately show ?thesis by blast
qed


section \<open>ThemeManager: the stored theme\<close>



lemma tm_init_stored_theme:
  assumes "tm_handlers m = []" "\<not> tm_initialized (tm_state m)"
  shows "stored_theme (tm_init m) = stored_theme m"
  using tm_init_storage [OF assms] by (simp add: stored_theme_def)

lemma new_ThemeManager_fields:
  "themes (tm_config (new_ThemeManager st d mq)) = [''light'', ''dark'', ''auto'']"
  "tm_handlers (new_ThemeManager st d mq) = []"
  "tm_enableStateTracking (tm_config (new_ThemeManager st d mq))"
  "tm_enableEvents (tm_config (new_ThemeManager st d mq))"
  "\<not> tm_initialized (tm_state (new_ThemeManager st d mq))"
  "storageKey (tm_config (new_ThemeManager st d mq)) = ''codenexlify-theme''"
  "tm_storage (new_ThemeManager st d mq) = st"
  "matchMedia (new_ThemeManager st d mq) = mq"
  by (simp_all add: new_ThemeManager_def)

lemma initialised_ThemeManager_fields:
  "tm_config (initialised_ThemeManager st mq) = tm_config (new_ThemeManager st empty_document mq)"
  "tm_handlers (initialised_ThemeManager st mq) = [ThisManager, ThisManager]"
  "currentTheme (tm_state (initialised_ThemeManager st mq))
     = stored_theme (new_ThemeManager st empty_document mq)"
  "items (tm_storage (initialised_ThemeManager st mq)) = items st"
  "getItem_throws (tm_storage (initialised_ThemeManager st mq)) = getItem_throws st"
  "setItem_throws (tm_storage (initialised_ThemeManager st mq)) = setItem_throws st"
  "stored_theme (initialised_ThemeManager st mq) = stored_theme (new_ThemeManager st empty_document mq)"
  unfolding initialised_ThemeManager_def
  using tm_init_storage [of "new_ThemeManager st empty_document mq"]
        tm_init_stored_theme [of "new_ThemeManager st empty_document mq"]
  by (simp_all add: new_ThemeManager_fields tm_init_handlers tm_init_currentTheme)



section \<open>EventBus: listeners and timers only go away\<close>

lemma shrinks_refl [simp]: "shrinks b b"
  by (simp add: shrinks_def)
































section \<open>EventBus: the states a run can reach\<close>














lemma on_counters [simp]:
  "nextPromise (snd (on ev cb opts b)) = nextPromise b"
  "promises (snd (on ev cb opts b)) = promises b"
  "timers (snd (on ev cb opts b)) = timers b"
  "now (snd (on ev cb opts b)) = now b"
  by (simp_all add: on_def Let_def generateListenerId_def bus_logger_def bus_debug_def
        split: prod.splits del: append.simps)






section \<open>EventBus: the promise of \<open>waitFor\<close>\<close>

lemma promises_frame [simp]:
  "promises (bus_logger l m b) = promises b"
  "promises (bus_debug m b) = promises b"
  "promises (clearTimeout t b) = promises b"
  "promises (remove_marked ev rs b) = promises b"
  by (simp_all add: bus_logger_def bus_debug_def clearTimeout_def remove_marked_def
        split: option.splits)

lemma off_promises [simp]: "promises (snd (off ev tg b)) = promises b"
  by (cases tg) (simp_all add: off_def Let_def split: option.splits del: append.simps)

lemma resolve_promise:
  "promises (resolve q v b) p
     = (if q = p \<and> promises b p = Some Pending then Some (Resolved v) else promises b p)"
  by (simp add: resolve_def split: option.splits promise_state.splits)


lemma invoke_promise:
  "promises (snd (invoke cb args b)) p
     = (if resolves p cb \<and> promises b p = Some Pending then Some (Resolved args)
        else promises b p)"
  by (cases cb) (simp_all add: resolves_def resolve_promise)

lemma invoke_resolver [simp]: "fst (invoke (Resolver q t) args b) = None"
  by simp


subsection \<open>A settled promise stays as it is\<close>

lemma settled_invoke:
  "promises b p = Some v \<Longrightarrow> v \<noteq> Pending \<Longrightarrow> promises (snd (invoke cb args b)) p = Some v"
  by (simp add: invoke_promise)

lemma settled_emit_listeners:
  assumes "\<And>ev e l b. promises b p = Some v \<Longrightarrow> promises (onError ev e l b) p = Some v"
      and "promises b p = Some v" "v \<noteq> Pending"
  shows "promises (snd (snd (emit_listeners onError ev args ls (rm, h, b)))) p = Some v"
  using assms(2)
proof (induction ls arbitrary: rm h b)
  case Nil
  then show ?case by simp
next
  case (Cons l ls)
  let ?b0 = "b\<lparr>calls := calls b @ [(ev, lid l)]\<rparr>"
  obtain r b1 where i: "invoke (callback l) args ?b0 = (r, b1)"
    by (cases "invoke (callback l) args ?b0")
  have "promises ?b0 p = Some v" using Cons.prems by simp
  then have p1: "promises b1 p = Some v"
    using settled_invoke [of ?b0 p v "callback l" args] assms(3) i by simp
  show ?case
  proof (cases r)
    case None
    then show ?thesis using i Cons.IH [OF p1] by simp
  next
    case (Some er)
    let ?b2 = "onError ev er l (bus_logger Err (''Error in event listener for '' @ ev) b1)"
    have "promises ?b2 p = Some v" using assms(1) p1 by simp
    then show ?thesis using i Some Cons.IH by (simp del: append.simps)
  qed
qed

lemma settled_emit_with:
  assumes "\<And>ev e l b. promises b p = Some v \<Longrightarrow> promises (onError ev e l b) p = Some v"
      and "promises b p = Some v" "v \<noteq> Pending"
  shows "promises (snd (emit_with onError ev args b)) p = Some v"
proof (cases "events b ev")
  case None
  then show ?thesis using assms(2) by (simp add: emit_with_def del: append.simps)
next
  case (Some ls)
  let ?b0 = "bus_debug (''Emitting event: '' @ ev) b"
  obtain rm h b1 where e: "emit_listeners onError ev args ls ([], False, ?b0) = (rm, h, b1)"
    by (metis prod_cases3)
  have "promises ?b0 p = Some v" using assms(2) by simp
  then have "promises b1 p = Some v"
    using settled_emit_listeners [of p v onError ?b0 ev args ls "[]" False, OF assms(1) _ assms(3)] e
    by simp
  then show ?thesis
    using Some e by (simp add: emit_with_def Let_def del: append.simps)
qed

lemma settled_emitError:
  assumes "promises b p = Some v" "v \<noteq> Pending"
  shows "promises (emitError ev e l b) p = Some v"
  using settled_emit_with [of p v "\<lambda>ev e' l' b'. b'", OF _ assms] assms(1)
  by (simp add: emitError_def)

lemma settled_emit:
  assumes "promises b p = Some v" "v \<noteq> Pending"
  shows "promises (snd (emit ev args b)) p = Some v"
  unfolding emit_def
  using settled_emit_with [of p v emitError, OF _ assms] settled_emitError [OF _ assms(2)]
  by blast




subsection \<open>The timeout\<close>







subsection \<open>The event\<close>









subsection \<open>What \<open>waitFor\<close> leaves behind\<close>











section \<open>NavigationManager: the animation frame of the scroll throttle\<close>


lemma handleScroll_throttled:
  "truthy_id (scrollThrottleId m) \<Longrightarrow> handleScroll m = m"
  by (simp add: handleScroll_def)

lemma closeMobileMenu_frames [simp]:
  "animation_frames (closeMobileMenu m) = animation_frames m"
  "scrollThrottleId (closeMobileMenu m) = scrollThrottleId m"
  by (simp_all add: closeMobileMenu_def nav_logger_def Let_def)



section \<open>The claims\<close>

subsection \<open>C1: failures are caught locally\<close>

text \<open>
  C1, as stated: no operation ends by passing an exception to its caller. This fails
  for \<open>BaseComponent.init\<close>: when \<open>onInit\<close> throws, the \<open>catch\<close> block records and
  logs the error and throws it again.
\<close>

theorem init_rethrows_counterexample:
  "init (Suc 0) (test_component\<lparr>onInit := Some (Error ''Init error'')\<rparr>)
     = Some (Inl (Error ''Init error''),
             snd (the (init (Suc 0) (test_component\<lparr>onInit := Some (Error ''Init error'')\<rparr>))))"
  by (simp add: test_component_def new_BaseComponent_def default_config_def given_def
        init_start_def checkDependencies_def runHooks_def hook_label_def init_catch_def Let_def)

text \<open>
  C1, amended. The methods that call \<open>localStorage\<close> inside \<open>try\<close> (\<open>loadTheme\<close> and
  \<open>saveTheme\<close> of the ThemeManager, \<open>loadLanguagePreference\<close> and
  \<open>saveLanguagePreference\<close> of the I18nManager, \<open>loadConfig\<close>, \<open>loadUserPreferences\<close> and
  \<open>saveUserPreferences\<close> of the App) return normally whatever the storage does. When
  the storage throws, each logs a warning and keeps what it had: \<open>loadTheme\<close> sets the
  theme \<open>auto\<close> (with state tracking), a save stores nothing, and the language, the
  configuration and the preferences stay as they were. \<open>loadTranslations\<close> returns
  normally when the state has \<open>loadedLanguages\<close>; a failed request is logged as a
  warning and the language is marked as loaded.

  Other failures reach the caller. \<open>loadTranslations\<close> throws a \<open>TypeError\<close> when the
  state has no \<open>loadedLanguages\<close>, as in a manager built with
  \<open>enableStateTracking: false\<close>. \<open>I18nManager.onInit\<close> passes on the exception of its
  own \<open>localStorage.getItem\<close>. \<open>BaseComponent.init\<close> throws an exception of \<open>onInit\<close>
  again, and \<open>mount\<close> throws the error of a missing container, each after logging it
  as an error, emitting \<open>component:error\<close> and, with state tracking only, recording it
  in \<open>state.error\<close>.
\<close>

theorem failures_caught_or_rethrown:
  "fst (loadTheme m) = Inr () \<and> fst (saveTheme m) = Inr ()
   \<and> fst (loadLanguagePreference i) = Inr () \<and> fst (saveLanguagePreference i) = Inr ()
   \<and> fst (loadConfig a) = Inr () \<and> fst (loadUserPreferences a) = Inr ()
   \<and> fst (saveUserPreferences a) = Inr ()
   \<and> (getItem_throws (tm_storage m) \<longrightarrow>
         (Warn, ''Failed to load theme from storage, using default'') \<in> set (tm_log (snd (loadTheme m)))
         \<and> (tm_enableStateTracking (tm_config m) \<longrightarrow>
               currentTheme (tm_state (snd (loadTheme m))) = ''auto''))
   \<and> (setItem_throws (tm_storage m) \<longrightarrow>
         tm_log (snd (saveTheme m)) = tm_log m @ [(Warn, ''Failed to save theme to storage:'')]
         \<and> items (tm_storage (snd (saveTheme m))) = items (tm_storage m))
   \<and> (persistChoice i \<and> getItem_throws (i18n_storage i) \<longrightarrow>
         i18n_log (snd (loadLanguagePreference i))
           = i18n_log i @ [(Warn, ''Failed to load language preference:'')]
         \<and> currentLanguage (snd (loadLanguagePreference i)) = currentLanguage i)
   \<and> (persistChoice i \<and> setItem_throws (i18n_storage i) \<longrightarrow>
         i18n_log (snd (saveLanguagePreference i))
           = i18n_log i @ [(Warn, ''Failed to save language preference:'')]
         \<and> items (i18n_storage (snd (saveLanguagePreference i))) = items (i18n_storage i))
   \<and> (getItem_throws (app_storage a) \<longrightarrow>
         app_log (snd (loadConfig a))
           = app_log a @ [(Warn, ''Failed to load configuration, using defaults'')]
         \<and> app_config (snd (loadConfig a)) = app_config a
         \<and> app_log (snd (loadUserPreferences a))
             = app_log a @ [(Warn, ''Failed to load user preferences'')]
         \<and> app_theme (snd (loadUserPreferences a)) = app_theme a
         \<and> app_language (snd (loadUserPreferences a)) = app_language a)
   \<and> (setItem_throws (app_storage a) \<longrightarrow>
         app_log (snd (saveUserPreferences a))
           = app_log a @ [(Warn, ''Failed to save user preferences:'')]
         \<and> items (app_storage (snd (saveUserPreferences a))) = items (app_storage a))
   \<and> (loadedLanguages i \<noteq> None \<longrightarrow> fst (loadTranslations language i) = Inr ())
   \<and> (\<forall>loaded. loadedLanguages i = Some loaded \<and> language \<notin> loaded
          \<and> fetch_failed (fetch i (locale_url i language)) \<longrightarrow>
         (\<exists>msg. (Warn, ''Failed to load translations from file: '' @ msg)
                  \<in> set (i18n_log (snd (loadTranslations language i))))
         \<and> loadedLanguages (snd (loadTranslations language i)) = Some (insert language loaded))
   \<and> (loadedLanguages i = None \<longrightarrow>
         loadTranslations language i
           = (Inl (Error ''TypeError: Cannot read properties of undefined (reading has)''), i))
   \<and> (autoDetect i \<and> getItem_throws (i18n_storage i) \<longrightarrow>
         fst (i18n_onInit i) = Inl (Error ''SecurityError''))
   \<and> (\<not> initialized (state c) \<and> missing_dependency (window_has c) (dependencies c) = None
        \<and> onInit c = Some e \<longrightarrow>
         (\<exists>c'. init (Suc n) c = Some (Inl e, c')
            \<and> (Err, ''Failed to initialize component: '' @ name c) \<in> set (c_log c')
            \<and> last (c_emitted c') = ''component:error''
            \<and> state c' = (if enableStateTracking (config c) then (state c)\<lparr>error := Some e\<rparr>
                           else state c)))
   \<and> (initialized (state c) \<and> \<not> mounted (state c) \<and> \<not> given cont \<and> \<not> given (container c) \<longrightarrow>
         (\<exists>c'. mount (Suc n) cont c
                  = Some (Inl (Error ''No container specified for mounting''), c')
            \<and> (Err, ''Failed to mount component: '' @ name c) \<in> set (c_log c')
            \<and> last (c_emitted c') = ''component:error''
            \<and> state c' = (if enableStateTracking (config c)
                           then (state c)\<lparr>error := Some (Error ''No container specified for mounting'')\<rparr>
                           else state c)))"
proof -
  have returns: "fst (loadTheme m) = Inr () \<and> fst (saveTheme m) = Inr ()
      \<and> fst (loadLanguagePreference i) = Inr () \<and> fst (saveLanguagePreference i) = Inr ()
      \<and> fst (loadConfig a) = Inr () \<and> fst (loadUserPreferences a) = Inr ()
      \<and> fst (saveUserPreferences a) = Inr ()"
    by (simp add: loadTheme_never_throws app_storage_never_throws)
  have load: "getItem_throws (tm_storage m) \<longrightarrow>
         (Warn, ''Failed to load theme from storage, using default'') \<in> set (tm_log (snd (loadTheme m)))
         \<and> (tm_enableStateTracking (tm_config m) \<longrightarrow>
               currentTheme (tm_state (snd (loadTheme m))) = ''auto'')"
    using loadTheme_storage_failure [of m] by blast
  have save: "setItem_throws (tm_storage m) \<longrightarrow>
         tm_log (snd (saveTheme m)) = tm_log m @ [(Warn, ''Failed to save theme to storage:'')]
         \<and> items (tm_storage (snd (saveTheme m))) = items (tm_storage m)"
    using saveTheme_log(2) [of m] saveTheme_storage_failure [of m] by blast
  have lang1: "persistChoice i \<and> getItem_throws (i18n_storage i) \<longrightarrow>
         i18n_log (snd (loadLanguagePreference i))
           = i18n_log i @ [(Warn, ''Failed to load language preference:'')]
         \<and> currentLanguage (snd (loadLanguagePreference i)) = currentLanguage i"
    using loadLanguagePreference_failure [of i] by blast
  have lang2: "persistChoice i \<and> setItem_throws (i18n_storage i) \<longrightarrow>
         i18n_log (snd (saveLanguagePreference i))
           = i18n_log i @ [(Warn, ''Failed to save language preference:'')]
         \<and> items (i18n_storage (snd (saveLanguagePreference i))) = items (i18n_storage i)"
    using saveLanguagePreference_failure [of i] by blast
  have app1: "getItem_throws (app_storage a) \<longrightarrow>
         app_log (snd (loadConfig a))
           = app_log a @ [(Warn, ''Failed to load configuration, using defaults'')]
         \<and> app_config (snd (loadConfig a)) = app_config a
         \<and> app_log (snd (loadUserPreferences a))
             = app_log a @ [(Warn, ''Failed to load user preferences'')]
         \<and> app_theme (snd (loadUserPreferences a)) = app_theme a
         \<and> app_language (snd (loadUserPreferences a)) = app_language a"
    using loadConfig_failure [of a] loadUserPreferences_failure [of a] by blast
  have app2: "setItem_throws (app_storage a) \<longrightarrow>
         app_log (snd (saveUserPreferences a))
           = app_log a @ [(Warn, ''Failed to save user preferences:'')]
         \<and> items (app_storage (snd (saveUserPreferences a))) = items (app_storage a)"
    using saveUserPreferences_failure [of a] by blast
  have tr1: "loadedLanguages i \<noteq> None \<longrightarrow> fst (loadTranslations language i) = Inr ()"
    using loadTranslations_never_throws [of i language] by blast
  have tr2: "\<forall>loaded. loadedLanguages i = Some loaded \<and> language \<notin> loaded
          \<and> fetch_failed (fetch i (locale_url i language)) \<longrightarrow>
         (\<exists>msg. (Warn, ''Failed to load translations from file: '' @ msg)
                  \<in> set (i18n_log (snd (loadTranslations language i))))
         \<and> loadedLanguages (snd (loadTranslations language i)) = Some (insert language loaded)"
    using loadTranslations_failure(2) [of i _ language] loadTranslations_fetches_once(2) [of i _ language]
    by blast
  have tr3: "loadedLanguages i = None \<longrightarrow>
         loadTranslations language i
           = (Inl (Error ''TypeError: Cannot read properties of undefined (reading has)''), i)"
    using loadTranslations_undefined [of i language] by blast
  have oni: "autoDetect i \<and> getItem_throws (i18n_storage i) \<longrightarrow>
         fst (i18n_onInit i) = Inl (Error ''SecurityError'')"
    using i18n_onInit_throws [of i] by blast
  have ini: "\<not> initialized (state c) \<and> missing_dependency (window_has c) (dependencies c) = None
        \<and> onInit c = Some e \<longrightarrow>
         (\<exists>c'. init (Suc n) c = Some (Inl e, c')
            \<and> (Err, ''Failed to initialize component: '' @ name c) \<in> set (c_log c')
            \<and> last (c_emitted c') = ''component:error''
            \<and> state c' = (if enableStateTracking (config c) then (state c)\<lparr>error := Some e\<rparr>
                           else state c))"
    using init_rethrows [of c e n] by blast
  have mnt: "initialized (state c) \<and> \<not> mounted (state c) \<and> \<not> given cont \<and> \<not> given (container c) \<longrightarrow>
         (\<exists>c'. mount (Suc n) cont c
                  = Some (Inl (Error ''No container specified for mounting''), c')
            \<and> (Err, ''Failed to mount component: '' @ name c) \<in> set (c_log c')
            \<and> last (c_emitted c') = ''component:error''
            \<and> state c' = (if enableStateTracking (config c)
                           then (state c)\<lparr>error := Some (Error ''No container specified for mounting'')\<rparr>
                           else state c))"
    using mount_without_container_rethrows [of c cont n] by blast
  from returns load save lang1 lang2 app1 app2 tr1 tr2 tr3 oni ini mnt
  show ?thesis by (intro conjI) (elim conjE, assumption)+
qed

theorem failures_caught_or_rethrown_witness:
  "getItem_throws (tm_storage (new_ThemeManager blocked_storage empty_document None))
   \<and> setItem_throws (tm_storage (new_ThemeManager blocked_storage empty_document None))
   \<and> tm_enableStateTracking (tm_config (new_ThemeManager blocked_storage empty_document None))
   \<and> fst (loadTheme (new_ThemeManager blocked_storage empty_document None)) = Inr ()
   \<and> currentTheme (tm_state (snd (loadTheme (new_ThemeManager blocked_storage empty_document None))))
        = ''auto''
   \<and> tm_log (snd (saveTheme (new_ThemeManager blocked_storage empty_document None)))
        = [(Warn, ''Failed to save theme to storage:'')]
   \<and> persistChoice blocked_I18nManager \<and> autoDetect blocked_I18nManager
   \<and> getItem_throws (i18n_storage blocked_I18nManager)
   \<and> setItem_throws (i18n_storage blocked_I18nManager)
   \<and> i18n_log (snd (loadLanguagePreference blocked_I18nManager))
        = [(Warn, ''Failed to load language preference:'')]
   \<and> i18n_log (snd (saveLanguagePreference blocked_I18nManager))
        = [(Warn, ''Failed to save language preference:'')]
   \<and> fst (i18n_onInit blocked_I18nManager) = Inl (Error ''SecurityError'')
   \<and> getItem_throws (app_storage (new_App blocked_storage (\<lambda>s. None)))
   \<and> setItem_throws (app_storage (new_App blocked_storage (\<lambda>s. None)))
   \<and> app_log (snd (loadConfig (new_App blocked_storage (\<lambda>s. None))))
        = [(Warn, ''Failed to load configuration, using defaults'')]
   \<and> app_log (snd (saveUserPreferences (new_App blocked_storage (\<lambda>s. None))))
        = [(Warn, ''Failed to save user preferences:'')]
   \<and> loadedLanguages offline_I18nManager = Some {''tr''} \<and> ''en'' \<notin> {''tr''}
   \<and> fetch_failed (fetch offline_I18nManager (locale_url offline_I18nManager ''en''))
   \<and> fst (loadTranslations ''en'' offline_I18nManager) = Inr ()
   \<and> loadedLanguages (snd (loadTranslations ''en'' offline_I18nManager)) = Some {''en'', ''tr''}
   \<and> loadedLanguages untracked_I18nManager = None
   \<and> fst (loadTranslations ''en'' untracked_I18nManager)
        = Inl (Error ''TypeError: Cannot read properties of undefined (reading has)'')
   \<and> \<not> initialized (state (test_component\<lparr>onInit := Some (Error ''Init error'')\<rparr>))
   \<and> onInit (test_component\<lparr>onInit := Some (Error ''Init error'')\<rparr>) = Some (Error ''Init error'')
   \<and> (\<exists>c'. init (Suc 0) (test_component\<lparr>onInit := Some (Error ''Init error'')\<rparr>)
               = Some (Inl (Error ''Init error''), c')
          \<and> last (c_emitted c') = ''component:error''
          \<and> error (state c') = Some (Error ''Init error''))
   \<and> (\<exists>c'. mount (Suc 0) None (untracked_component\<lparr>state := (state untracked_component)\<lparr>initialized := True\<rparr>\<rparr>)
               = Some (Inl (Error ''No container specified for mounting''), c')
          \<and> last (c_emitted c') = ''component:error''
          \<and> error (state c') = None)"
proof -
  let ?m = "new_ThemeManager blocked_storage empty_document None"
  let ?a = "new_App blocked_storage (\<lambda>s. None)"
  let ?c = "test_component\<lparr>onInit := Some (Error ''Init error'')\<rparr>"
  let ?u = "untracked_component\<lparr>state := (state untracked_component)\<lparr>initialized := True\<rparr>\<rparr>"
  let ?e = "Error ''Init error''"
  let ?nc = "Error ''No container specified for mounting''"
  have hm: "getItem_throws (tm_storage ?m)" "setItem_throws (tm_storage ?m)"
           "tm_enableStateTracking (tm_config ?m)" "tm_log ?m = []"
    by (simp_all add: new_ThemeManager_def blocked_storage_def empty_storage_def)
  have hb: "persistChoice blocked_I18nManager" "autoDetect blocked_I18nManager"
           "getItem_throws (i18n_storage blocked_I18nManager)"
           "setItem_throws (i18n_storage blocked_I18nManager)"
           "i18n_log blocked_I18nManager = []"
    by (simp_all add: blocked_I18nManager_def new_I18nManager_def blocked_storage_def
          empty_storage_def)
  have ha: "getItem_throws (app_storage ?a)" "setItem_throws (app_storage ?a)" "app_log ?a = []"
    by (simp_all add: new_App_def blocked_storage_def empty_storage_def)
  have ho: "loadedLanguages offline_I18nManager = Some {''tr''}" "''en'' \<notin> {''tr''}"
           "fetch_failed (fetch offline_I18nManager (locale_url offline_I18nManager ''en''))"
    by (simp_all add: offline_I18nManager_def new_I18nManager_def fetch_failed_def)
  have hn: "loadedLanguages untracked_I18nManager = None"
    by (simp add: untracked_I18nManager_def new_I18nManager_def)
  have hc: "\<not> initialized (state ?c)" "onInit ?c = Some ?e"
           "missing_dependency (window_has ?c) (dependencies ?c) = None"
           "enableStateTracking (config ?c)"
    by (simp_all add: test_component_def new_BaseComponent_def default_config_def)
  have hu: "initialized (state ?u)" "\<not> mounted (state ?u)" "\<not> given None" "\<not> given (container ?u)"
           "\<not> enableStateTracking (config ?u)" "error (state ?u) = None"
    by (simp_all add: untracked_component_def new_BaseComponent_def default_config_def given_def)
  have t1: "fst (loadTheme ?m) = Inr ()"
    by (rule failures_caught_or_rethrown [where m = ?m, THEN conjunct1])
  have t2: "currentTheme (tm_state (snd (loadTheme ?m))) = ''auto''"
    using failures_caught_or_rethrown [where m = ?m, THEN conjunct2, THEN conjunct2, THEN conjunct2, THEN conjunct2, THEN conjunct2, THEN conjunct2, THEN conjunct2, THEN conjunct1] hm(1,3) by blast
  have "tm_log (snd (saveTheme ?m)) = tm_log ?m @ [(Warn, ''Failed to save theme to storage:'')]"
    using failures_caught_or_rethrown [where m = ?m, THEN conjunct2, THEN conjunct2, THEN conjunct2, THEN conjunct2, THEN conjunct2, THEN conjunct2, THEN conjunct2, THEN conjunct2, THEN conjunct1] hm(2) by blast
  then have t3: "tm_log (snd (saveTheme ?m)) = [(Warn, ''Failed to save theme to storage:'')]"
    unfolding hm(4) by simp
  have "i18n_log (snd (loadLanguagePreference blocked_I18nManager))
        = i18n_log blocked_I18nManager @ [(Warn, ''Failed to load language preference:'')]"
    using failures_caught_or_rethrown [where i = blocked_I18nManager, THEN conjunct2, THEN conjunct2, THEN conjunct2, THEN conjunct2, THEN conjunct2, THEN conjunct2, THEN conjunct2, THEN conjunct2, THEN conjunct2, THEN conjunct1] hb(1,3) by blast
  then have l1: "i18n_log (snd (loadLanguagePreference blocked_I18nManager))
        = [(Warn, ''Failed to load language preference:'')]"
    unfolding hb(5) by simp
  have "i18n_log (snd (saveLanguagePreference blocked_I18nManager))
        = i18n_log blocked_I18nManager @ [(Warn, ''Failed to save language preference:'')]"
    using failures_caught_or_rethrown [where i = blocked_I18nManager, THEN conjunct2, THEN conjunct2, THEN conjunct2, THEN conjunct2, THEN conjunct2, THEN conjunct2, THEN conjunct2, THEN conjunct2, THEN conjunct2, THEN conjunct2, THEN conjunct1] hb(1,4) by blast
  then have l2: "i18n_log (snd (saveLanguagePreference blocked_I18nManager))
        = [(Warn, ''Failed to save language preference:'')]"
    unfolding hb(5) by simp
  have l3: "fst (i18n_onInit blocked_I18nManager) = Inl (Error ''SecurityError'')"
    using failures_caught_or_rethrown [where i = blocked_I18nManager, THEN conjunct2, THEN conjunct2, THEN conjunct2, THEN conjunct2, THEN conjunct2, THEN conjunct2, THEN conjunct2, THEN conjunct2, THEN conjunct2, THEN conjunct2, THEN conjunct2, THEN conjunct2, THEN conjunct2, THEN conjunct2, THEN conjunct2, THEN conjunct2, THEN conjunct1] hb(2,3) by blast
  have "app_log (snd (loadConfig ?a))
          = app_log ?a @ [(Warn, ''Failed to load configuration, using defaults'')]"
    using failures_caught_or_rethrown [where a = ?a, THEN conjunct2, THEN conjunct2, THEN conjunct2, THEN conjunct2, THEN conjunct2, THEN conjunct2, THEN conjunct2, THEN conjunct2, THEN conjunct2, THEN conjunct2, THEN conjunct2, THEN conjunct1] ha(1) by blast
  then have a1: "app_log (snd (loadConfig ?a))
          = [(Warn, ''Failed to load configuration, using defaults'')]"
    unfolding ha(3) by simp
  have "app_log (snd (saveUserPreferences ?a))
          = app_log ?a @ [(Warn, ''Failed to save user preferences:'')]"
    using failures_caught_or_rethrown [where a = ?a, THEN conjunct2, THEN conjunct2, THEN conjunct2, THEN conjunct2, THEN conjunct2, THEN conjunct2, THEN conjunct2, THEN conjunct2, THEN conjunct2, THEN conjunct2, THEN conjunct2, THEN conjunct2, THEN conjunct1] ha(2) by blast
  then have a2: "app_log (snd (saveUserPreferences ?a)) = [(Warn, ''Failed to save user preferences:'')]"
    unfolding ha(3) by simp
  have r1: "fst (loadTranslations ''en'' offline_I18nManager) = Inr ()"
    using failures_caught_or_rethrown [where i = offline_I18nManager and language = "''en''", THEN conjunct2, THEN conjunct2, THEN conjunct2, THEN conjunct2, THEN conjunct2, THEN conjunct2, THEN conjunct2, THEN conjunct2, THEN conjunct2, THEN conjunct2, THEN conjunct2, THEN conjunct2, THEN conjunct2, THEN conjunct1]
      ho(1) by simp
  have "loadedLanguages (snd (loadTranslations ''en'' offline_I18nManager))
          = Some (insert ''en'' {''tr''})"
    using failures_caught_or_rethrown [where i = offline_I18nManager and language = "''en''", THEN conjunct2, THEN conjunct2, THEN conjunct2, THEN conjunct2, THEN conjunct2, THEN conjunct2, THEN conjunct2, THEN conjunct2, THEN conjunct2, THEN conjunct2, THEN conjunct2, THEN conjunct2, THEN conjunct2, THEN conjunct2, THEN conjunct1]
      ho by blast
  then have r2: "loadedLanguages (snd (loadTranslations ''en'' offline_I18nManager))
          = Some {''en'', ''tr''}" .
  have "loadTranslations ''en'' untracked_I18nManager
          = (Inl (Error ''TypeError: Cannot read properties of undefined (reading has)''),
             untracked_I18nManager)"
    using failures_caught_or_rethrown [where i = untracked_I18nManager and language = "''en''", THEN conjunct2, THEN conjunct2, THEN conjunct2, THEN conjunct2, THEN conjunct2, THEN conjunct2, THEN conjunct2, THEN conjunct2, THEN conjunct2, THEN conjunct2, THEN conjunct2, THEN conjunct2, THEN conjunct2, THEN conjunct2, THEN conjunct2, THEN conjunct1]
      hn by blast
  then have r3: "fst (loadTranslations ''en'' untracked_I18nManager)
        = Inl (Error ''TypeError: Cannot read properties of undefined (reading has)'')"
    by (rule arg_cong [where f = fst, THEN trans]) (rule fst_conv)
  obtain c1 where c1: "init (Suc 0) ?c = Some (Inl ?e, c1)"
      "last (c_emitted c1) = ''component:error''"
      "state c1 = (if enableStateTracking (config ?c) then (state ?c)\<lparr>error := Some ?e\<rparr>
                   else state ?c)"
    using failures_caught_or_rethrown [where c = ?c and e = ?e and n = 0, THEN conjunct2, THEN conjunct2, THEN conjunct2, THEN conjunct2, THEN conjunct2, THEN conjunct2, THEN conjunct2, THEN conjunct2, THEN conjunct2, THEN conjunct2, THEN conjunct2, THEN conjunct2, THEN conjunct2, THEN conjunct2, THEN conjunct2, THEN conjunct2, THEN conjunct2, THEN conjunct1] hc(1,2,3)
    by blast
  have "error (state c1) = Some ?e"
    unfolding c1(3) using hc(4) by simp
  then have ini: "\<exists>c'. init (Suc 0) ?c = Some (Inl ?e, c')
          \<and> last (c_emitted c') = ''component:error''
          \<and> error (state c') = Some ?e"
    using c1(1,2) by blast
  obtain c2 where c2: "mount (Suc 0) None ?u = Some (Inl ?nc, c2)"
      "last (c_emitted c2) = ''component:error''"
      "state c2 = (if enableStateTracking (config ?u) then (state ?u)\<lparr>error := Some ?nc\<rparr>
                   else state ?u)"
    using failures_caught_or_rethrown [where c = ?u and n = 0 and cont = None, THEN conjunct2, THEN conjunct2, THEN conjunct2, THEN conjunct2, THEN conjunct2, THEN conjunct2, THEN conjunct2, THEN conjunct2, THEN conjunct2, THEN conjunct2, THEN conjunct2, THEN conjunct2, THEN conjunct2, THEN conjunct2, THEN conjunct2, THEN conjunct2, THEN conjunct2, THEN conjunct2] hu(1,2,3,4)
    by blast
  have "error (state c2) = None"
    unfolding c2(3) using hu(5,6) by simp
  then have mnt: "\<exists>c'. mount (Suc 0) None ?u = Some (Inl ?nc, c')
          \<and> last (c_emitted c') = ''component:error''
          \<and> error (state c') = None"
    using c2(1,2) by blast
  show ?thesis
    using hm(1-3) hb(1-4) ha(1,2) ho hn hc(1,2) t1 t2 t3 l1 l2 l3 a1 a2 r1 r2 r3 ini mnt
    by (intro conjI) assumption+
qed


subsection \<open>C2: the lifecycle flags\<close>

text \<open>
  C2, as stated: after \<open>destroy()\<close> the component is destroyed, not mounted and not
  initialised. This fails for a component built with \<open>enableStateTracking: false\<close>:
  \<open>setState\<close> returns at once, so \<open>destroy\<close> leaves the flags as they were.
\<close>

theorem destroy_untracked_counterexample:
  "destroyed (state (destroy untracked_component)) = False"
  by (simp add: untracked_component_def new_BaseComponent_def default_config_def given_def
        destroy_def c_setState_state Let_def)

text \<open>
  C2, amended: for a component with state tracking whose \<open>onDestroy\<close> and whose
  children's \<open>destroy\<close> do not throw, \<open>destroy()\<close> on a component that is not yet
  destroyed leaves it destroyed, not mounted and not initialised; \<open>destroy()\<close> on a
  destroyed component changes nothing but the log. With state tracking, \<open>mount()\<close>
  returns (three nested calls are enough), and when it returns normally on a component
  that was not mounted, the component is mounted and initialised.
\<close>

theorem lifecycle_flags:
  "(\<not> destroyed (state c) \<and> enableStateTracking (config c)
      \<and> destroy_children (children c) = None \<and> onDestroy c = None \<longrightarrow>
        destroyed (state (destroy c)) \<and> \<not> mounted (state (destroy c))
        \<and> \<not> initialized (state (destroy c)))
   \<and> (destroyed (state c) \<longrightarrow>
        destroy c = c\<lparr>c_log := c_log c @ [(Warn, ''Component already destroyed'')]\<rparr>)
   \<and> (enableStateTracking (config c) \<longrightarrow> mount (Suc (Suc (Suc n))) cont c \<noteq> None)
   \<and> (\<forall>k u c'. enableStateTracking (config c) \<and> \<not> mounted (state c)
          \<and> mount k cont c = Some (Inr u, c') \<longrightarrow>
        mounted (state c') \<and> initialized (state c'))"
proof -
  have d1: "\<not> destroyed (state c) \<and> enableStateTracking (config c)
      \<and> destroy_children (children c) = None \<and> onDestroy c = None \<longrightarrow>
        destroyed (state (destroy c)) \<and> \<not> mounted (state (destroy c))
        \<and> \<not> initialized (state (destroy c))"
    using destroy_sets_flags [of c] by simp
  have d2: "destroyed (state c) \<longrightarrow>
        destroy c = c\<lparr>c_log := c_log c @ [(Warn, ''Component already destroyed'')]\<rparr>"
    using destroy_already_destroyed [of c] by blast
  have m1: "enableStateTracking (config c) \<longrightarrow> mount (Suc (Suc (Suc n))) cont c \<noteq> None"
    using mount_total [of c n cont] by blast
  have m2: "\<forall>k u c'. enableStateTracking (config c) \<and> \<not> mounted (state c)
          \<and> mount k cont c = Some (Inr u, c') \<longrightarrow>
        mounted (state c') \<and> initialized (state c')"
    using mount_ok [of c] by blast
  show ?thesis using d1 d2 m1 m2 by blast
qed

theorem lifecycle_flags_witness:
  "\<not> destroyed (state test_component) \<and> enableStateTracking (config test_component)
   \<and> destroy_children (children test_component) = None \<and> onDestroy test_component = None
   \<and> destroyed (state (destroy test_component))
   \<and> \<not> mounted (state (destroy test_component))
   \<and> \<not> initialized (state (destroy test_component))
   \<and> destroyed (state (destroy test_component))
   \<and> state (destroy (destroy test_component)) = state (destroy test_component)
   \<and> \<not> mounted (state test_component)
   \<and> mount (Suc (Suc (Suc 0))) None test_component
        = Some (Inr (), snd (the (mount (Suc (Suc (Suc 0))) None test_component)))
   \<and> mounted (state (snd (the (mount (Suc (Suc (Suc 0))) None test_component))))
   \<and> initialized (state (snd (the (mount (Suc (Suc (Suc 0))) None test_component))))"
proof -
  let ?c = test_component
  have h: "\<not> destroyed (state ?c)" "enableStateTracking (config ?c)"
          "destroy_children (children ?c) = None" "onDestroy ?c = None"
          "\<not> mounted (state ?c)"
    by (simp_all add: test_component_def new_BaseComponent_def default_config_def)
  have r: "fst (the (mount (Suc (Suc (Suc 0))) None ?c)) = Inr ()"
    by (simp add: test_component_def new_BaseComponent_def default_config_def given_def
          init_start_def checkDependencies_def runHooks_def hook_label_def init_finish_def
          c_setState_def c_emit_def c_logger_def mount_try_def mount_finish_def createElement_def
          Let_def)
  have t: "mount (Suc (Suc (Suc 0))) None ?c \<noteq> None"
    using lifecycle_flags [of ?c 0 None] h by blast
  have m: "mount (Suc (Suc (Suc 0))) None ?c
             = Some (Inr (), snd (the (mount (Suc (Suc (Suc 0))) None ?c)))"
    using r t by (cases "mount (Suc (Suc (Suc 0))) None ?c") (auto simp add: prod_eq_iff)
  have dd: "destroyed (state (destroy ?c))"
    using lifecycle_flags [of ?c 0 None] h by blast
  have again: "state (destroy (destroy ?c)) = state (destroy ?c)"
    using lifecycle_flags [of "destroy ?c" 0 None] dd by simp
  show ?thesis
    using h m again lifecycle_flags [of ?c 0 None] by blast
qed


subsection \<open>C3: the stored theme round-trips\<close>





subsection \<open>C4: the local-storage keys\<close>

text \<open>
  C4, as stated: only the theme key and the language key are ever read or written.
  This fails: \<open>App.saveUserPreferences\<close> writes the key \<open>codenexlify-preferences\<close>.
\<close>

theorem preferences_key_counterexample:
  "accesses (app_storage (snd (saveUserPreferences (new_App empty_storage (\<lambda>s. None)))))
     = [SetItem ''codenexlify-preferences'']
   \<and> items (app_storage (snd (saveUserPreferences (new_App empty_storage (\<lambda>s. None)))))
        ''codenexlify-preferences'' \<noteq> None
   \<and> ''codenexlify-preferences'' \<noteq> ''codenexlify-theme''
   \<and> ''codenexlify-preferences'' \<noteq> ''codenexlify-language''"
  by (simp add: saveUserPreferences_def new_App_def empty_storage_def setItem_def Let_def)

text \<open>
  C4, amended. Each of the following methods makes exactly the following calls of
  \<open>localStorage\<close>, in this order. In the ThemeManager, whose key is
  \<open>config.storageKey\<close>, set to \<open>codenexlify-theme\<close> by the constructor and left alone
  by \<open>init\<close>: \<open>saveTheme\<close> writes the key once; \<open>loadTheme\<close> reads it once and then,
  with state tracking, every listener of \<open>state:changed\<close> on the bus writes the key of
  its own manager once; \<open>init\<close>, on a manager that is not initialised yet, makes the
  calls of \<open>loadTheme\<close>; \<open>setTheme\<close> makes no call unless the theme is in the list,
  not empty and not the current one and state tracking is on, and then every listener
  writes once; \<open>toggleTheme\<close>, with the theme list of the constructor, makes these
  writes whenever state tracking is on; \<open>isStorageAvailable\<close> writes the probe key
  \<open>__theme_test__\<close> and, unless the write was refused, removes it. In the
  I18nManager, whose key is \<open>config.storageKey\<close>, set to \<open>codenexlify-language\<close>:
  \<open>loadLanguagePreference\<close> reads the key once and \<open>saveLanguagePreference\<close> writes it
  once, each only with \<open>persistChoice\<close>; \<open>onInit\<close> makes the read of
  \<open>loadLanguagePreference\<close> and, with \<open>autoDetect\<close>, one more read of the key;
  \<open>loadTranslations\<close> leaves the storage alone. In the App, \<open>loadConfig\<close> reads
  \<open>codenexlify-config\<close> once, \<open>loadUserPreferences\<close> reads \<open>codenexlify-preferences\<close>
  once, and \<open>saveUserPreferences\<close> writes \<open>codenexlify-preferences\<close> once.
\<close>

theorem storage_keys:
  "accesses (tm_storage (snd (saveTheme m)))
     = accesses (tm_storage m) @ [SetItem (storageKey (tm_config m))]
   \<and> accesses (tm_storage (snd (loadTheme m)))
       = accesses (tm_storage m) @ GetItem (storageKey (tm_config m))
           # (if tm_enableStateTracking (tm_config m)
              then map (\<lambda>l. SetItem (saves_under m l)) (tm_handlers m) else [])
   \<and> (\<not> tm_initialized (tm_state m) \<longrightarrow>
         accesses (tm_storage (tm_init m)) = accesses (tm_storage (snd (loadTheme m))))
   \<and> accesses (tm_storage (snd (setTheme t m)))
       = accesses (tm_storage m)
           @ (if t \<in> set (themes (tm_config m)) \<and> t \<noteq> currentTheme (tm_state m) \<and> t \<noteq> []
                 \<and> tm_enableStateTracking (tm_config m)
              then map (\<lambda>l. SetItem (saves_under m l)) (tm_handlers m) else [])
   \<and> (themes (tm_config m) = [''light'', ''dark'', ''auto''] \<longrightarrow>
         accesses (tm_storage (toggleTheme m))
           = accesses (tm_storage m)
               @ (if tm_enableStateTracking (tm_config m)
                  then map (\<lambda>l. SetItem (saves_under m l)) (tm_handlers m) else []))
   \<and> saves_under m ThisManager = storageKey (tm_config m)
   \<and> saves_under m (OtherManager k v) = k
   \<and> accesses (tm_storage (snd (isStorageAvailable m)))
       = accesses (tm_storage m)
           @ (if setItem_throws (tm_storage m) then [SetItem ''__theme_test__'']
              else [SetItem ''__theme_test__'', RemoveItem ''__theme_test__''])
   \<and> accesses (i18n_storage (snd (loadLanguagePreference i)))
       = accesses (i18n_storage i) @ (if persistChoice i then [GetItem (i18n_storageKey i)] else [])
   \<and> accesses (i18n_storage (snd (saveLanguagePreference i)))
       = accesses (i18n_storage i) @ (if persistChoice i then [SetItem (i18n_storageKey i)] else [])
   \<and> accesses (i18n_storage (snd (i18n_onInit i)))
       = accesses (i18n_storage i)
           @ (if persistChoice i then [GetItem (i18n_storageKey i)] else [])
           @ (if autoDetect i then [GetItem (i18n_storageKey i)] else [])
   \<and> i18n_storage (snd (loadTranslations language i)) = i18n_storage i
   \<and> accesses (app_storage (snd (loadConfig a)))
       = accesses (app_storage a) @ [GetItem ''codenexlify-config'']
   \<and> accesses (app_storage (snd (loadUserPreferences a)))
       = accesses (app_storage a) @ [GetItem ''codenexlify-preferences'']
   \<and> accesses (app_storage (snd (saveUserPreferences a)))
       = accesses (app_storage a) @ [SetItem ''codenexlify-preferences'']
   \<and> storageKey (tm_config (new_ThemeManager st d mq)) = ''codenexlify-theme''
   \<and> storageKey (tm_config (tm_init m)) = storageKey (tm_config m)
   \<and> i18n_storageKey (new_I18nManager tracking nav st f) = ''codenexlify-language''"
proof -
  have init: "\<not> tm_initialized (tm_state m) \<longrightarrow>
         accesses (tm_storage (tm_init m)) = accesses (tm_storage (snd (loadTheme m)))"
    using tm_init_accesses [of m] by blast
  have toggle: "themes (tm_config m) = [''light'', ''dark'', ''auto''] \<longrightarrow>
         accesses (tm_storage (toggleTheme m))
           = accesses (tm_storage m)
               @ (if tm_enableStateTracking (tm_config m)
                  then map (\<lambda>l. SetItem (saves_under m l)) (tm_handlers m) else [])"
    using toggleTheme_accesses [of m] by blast
  have under: "saves_under m ThisManager = storageKey (tm_config m)"
              "saves_under m (OtherManager k v) = k"
    by (simp_all add: saves_under_def)
  have k: "storageKey (tm_config (new_ThemeManager st d mq)) = ''codenexlify-theme''"
          "storageKey (tm_config (tm_init m)) = storageKey (tm_config m)"
          "i18n_storageKey (new_I18nManager tracking nav st f) = ''codenexlify-language''"
    by (simp_all add: new_ThemeManager_def new_I18nManager_def)
  show ?thesis
    by (intro conjI saveTheme_accesses loadTheme_accesses init setTheme_accesses toggle under
          isStorageAvailable_accesses loadLanguagePreference_accesses
          saveLanguagePreference_accesses i18n_onInit_accesses loadTranslations_storage
          loadConfig_accesses loadUserPreferences_accesses saveUserPreferences_accesses k)
qed

theorem storage_keys_witness:
  "\<not> tm_initialized (tm_state (new_ThemeManager empty_storage empty_document None))
   \<and> accesses (tm_storage (initialised_ThemeManager empty_storage None))
        = [GetItem ''codenexlify-theme'']
   \<and> themes (tm_config (initialised_ThemeManager empty_storage None)) = [''light'', ''dark'', ''auto'']
   \<and> accesses (tm_storage (toggleTheme (initialised_ThemeManager empty_storage None)))
        = [GetItem ''codenexlify-theme'', SetItem ''codenexlify-theme'', SetItem ''codenexlify-theme'']
   \<and> accesses (i18n_storage (snd (i18n_onInit offline_I18nManager)))
        = [GetItem ''codenexlify-language'', GetItem ''codenexlify-language'']
   \<and> accesses (app_storage (snd (saveUserPreferences (new_App empty_storage (\<lambda>s. None)))))
        = [SetItem ''codenexlify-preferences'']"
proof -
  let ?n = "new_ThemeManager empty_storage empty_document None"
  let ?m = "initialised_ThemeManager empty_storage None"
  let ?a = "new_App empty_storage (\<lambda>s. None)"
  have n: "\<not> tm_initialized (tm_state ?n)" "tm_enableStateTracking (tm_config ?n)"
          "tm_handlers ?n = []" "storageKey (tm_config ?n) = ''codenexlify-theme''"
          "accesses (tm_storage ?n) = []"
    by (simp_all add: new_ThemeManager_fields empty_storage_def)
  have "accesses (tm_storage (snd (loadTheme ?n)))
       = accesses (tm_storage ?n) @ GetItem (storageKey (tm_config ?n))
           # (if tm_enableStateTracking (tm_config ?n)
              then map (\<lambda>l. SetItem (saves_under ?n l)) (tm_handlers ?n) else [])"
    by (rule storage_keys [where m = ?n, THEN conjunct2, THEN conjunct1])
  then have l: "accesses (tm_storage (snd (loadTheme ?n))) = [GetItem ''codenexlify-theme'']"
    unfolding n(3,4,5) by simp
  have "accesses (tm_storage (tm_init ?n)) = accesses (tm_storage (snd (loadTheme ?n)))"
    using storage_keys [where m = ?n, THEN conjunct2, THEN conjunct2, THEN conjunct1] n(1) by blast
  then have i: "accesses (tm_storage ?m) = [GetItem ''codenexlify-theme'']"
    unfolding initialised_ThemeManager_def l .
  have m: "themes (tm_config ?m) = [''light'', ''dark'', ''auto'']"
          "tm_enableStateTracking (tm_config ?m)"
          "tm_handlers ?m = [ThisManager, ThisManager]"
          "storageKey (tm_config ?m) = ''codenexlify-theme''"
    by (simp_all add: initialised_ThemeManager_fields new_ThemeManager_fields)
  have "accesses (tm_storage (toggleTheme ?m))
           = accesses (tm_storage ?m)
               @ (if tm_enableStateTracking (tm_config ?m)
                  then map (\<lambda>l. SetItem (saves_under ?m l)) (tm_handlers ?m) else [])"
    using storage_keys [where m = ?m, THEN conjunct2, THEN conjunct2, THEN conjunct2, THEN conjunct2, THEN conjunct1] m(1) by blast
  then have t: "accesses (tm_storage (toggleTheme ?m))
        = [GetItem ''codenexlify-theme'', SetItem ''codenexlify-theme'', SetItem ''codenexlify-theme'']"
    unfolding i m(3) using m(2,4) by (simp add: saves_under_def)
  have o: "persistChoice offline_I18nManager" "autoDetect offline_I18nManager"
          "i18n_storageKey offline_I18nManager = ''codenexlify-language''"
          "accesses (i18n_storage offline_I18nManager) = []"
    by (simp_all add: offline_I18nManager_def new_I18nManager_def empty_storage_def)
  have "accesses (i18n_storage (snd (i18n_onInit offline_I18nManager)))
       = accesses (i18n_storage offline_I18nManager)
           @ (if persistChoice offline_I18nManager
              then [GetItem (i18n_storageKey offline_I18nManager)] else [])
           @ (if autoDetect offline_I18nManager
              then [GetItem (i18n_storageKey offline_I18nManager)] else [])"
    by (rule storage_keys [where i = offline_I18nManager, THEN conjunct2, THEN conjunct2, THEN conjunct2, THEN conjunct2, THEN conjunct2, THEN conjunct2, THEN conjunct2, THEN conjunct2, THEN conjunct2, THEN conjunct2, THEN conjunct1])
  then have oi: "accesses (i18n_storage (snd (i18n_onInit offline_I18nManager)))
        = [GetItem ''codenexlify-language'', GetItem ''codenexlify-language'']"
    unfolding o(3,4) using o(1,2) by simp
  have a0: "accesses (app_storage ?a) = []"
    by (simp add: new_App_def empty_storage_def)
  have "accesses (app_storage (snd (saveUserPreferences ?a)))
       = accesses (app_storage ?a) @ [SetItem ''codenexlify-preferences'']"
    by (rule storage_keys [where a = ?a, THEN conjunct2, THEN conjunct2, THEN conjunct2, THEN conjunct2, THEN conjunct2, THEN conjunct2, THEN conjunct2, THEN conjunct2, THEN conjunct2, THEN conjunct2, THEN conjunct2, THEN conjunct2, THEN conjunct2, THEN conjunct2, THEN conjunct1])
  then have ap: "accesses (app_storage (snd (saveUserPreferences ?a)))
        = [SetItem ''codenexlify-preferences'']"
    unfolding a0 by simp
  show ?thesis
    using n(1) i m(1) t oi ap by (intro conjI) assumption+
qed


subsection \<open>C5: loading translations\<close>





subsection \<open>C6: the toggle and the attribute\<close>

text \<open>
  C6, as stated: \<open>toggleTheme()\<close> always changes the document's \<open>data-theme\<close>. This
  fails: after \<open>init\<close> with a light system preference the theme is \<open>auto\<close> and the
  attribute is \<open>light\<close>; the toggle moves on to the theme \<open>light\<close>, and the attribute
  is \<open>light\<close> as before.
\<close>

theorem toggleTheme_same_attribute_counterexample:
  "data_theme (tm_document (initialised_ThemeManager empty_storage (Some False))) = Some ''light''
   \<and> currentTheme (tm_state (initialised_ThemeManager empty_storage (Some False))) = ''auto''
   \<and> currentTheme (tm_state (toggleTheme (initialised_ThemeManager empty_storage (Some False))))
        = ''light''
   \<and> data_theme (tm_document (toggleTheme (initialised_ThemeManager empty_storage (Some False))))
        = Some ''light''"
proof -
  let ?n = "new_ThemeManager empty_storage empty_document (Some False)"
  let ?m = "initialised_ThemeManager empty_storage (Some False)"
  have n: "themes (tm_config ?n) = [''light'', ''dark'', ''auto'']"
          "tm_enableStateTracking (tm_config ?n)" "stored_theme ?n = ''auto''"
          "systemPreference (tm_state (detectSystemPreference ?n)) = ''light''"
          "\<not> tm_initialized (tm_state ?n)"
    by (simp_all add: new_ThemeManager_def empty_storage_def stored_theme_def truthy_def
          detectSystemPreference_systemPreference)
  have m: "themes (tm_config ?m) = [''light'', ''dark'', ''auto'']"
          "tm_enableStateTracking (tm_config ?m)"
          "currentTheme (tm_state ?m) = ''auto''" "systemPreference (tm_state ?m) = ''light''"
    unfolding initialised_ThemeManager_def
    using n by (simp_all add: tm_init_currentTheme tm_init_systemPreference)
  have d: "data_theme (tm_document ?m) = Some ''light''"
    unfolding initialised_ThemeManager_def
    using m(3,4) tm_init_data_theme [OF n(5)]
    by (simp add: getEffectiveTheme_def initialised_ThemeManager_def)
  have tog: "toggleTheme ?m = snd (setTheme ''light'' ?m)"
    using toggle_default [OF m(1)] m(3) by simp
  have mem: "''light'' \<in> set (themes (tm_config ?m))" "''light'' \<noteq> currentTheme (tm_state ?m)"
    using m by simp_all
  have a: "currentTheme (tm_state (toggleTheme ?m)) = ''light''"
    unfolding tog using setTheme_currentTheme [OF mem(1) m(2)] .
  have b: "data_theme (tm_document (toggleTheme ?m)) = Some ''light''"
    unfolding tog using setTheme_data_theme [OF mem] by simp
  show ?thesis using d m(3) a b by simp
qed

text \<open>
  C6, amended: with the theme list light, dark, auto, a current theme from the list
  and a \<open>data-theme\<close> that shows the effective theme, \<open>toggleTheme()\<close> moves to the next
  theme in the cycle light, dark, auto (with state tracking) and sets \<open>data-theme\<close> to
  that theme, or to the system preference when that theme is \<open>auto\<close>. The attribute
  differs from the one before except in two cases: dark to auto under a dark system
  preference, and auto to light under a light one.
\<close>

theorem toggleTheme_attribute:
  assumes "themes (tm_config m) = [''light'', ''dark'', ''auto'']"
      and "currentTheme (tm_state m) \<in> set (themes (tm_config m))"
      and "data_theme (tm_document m) = Some (getEffectiveTheme m)"
  shows "let cur = currentTheme (tm_state m);
             sys = systemPreference (tm_state m);
             nxt = (if cur = ''light'' then ''dark'' else if cur = ''dark'' then ''auto'' else ''light'')
         in data_theme (tm_document (toggleTheme m)) = Some (if nxt = ''auto'' then sys else nxt)
          \<and> (tm_enableStateTracking (tm_config m)
                \<longrightarrow> currentTheme (tm_state (toggleTheme m)) = nxt)
          \<and> (data_theme (tm_document (toggleTheme m)) \<noteq> data_theme (tm_document m)
                \<longleftrightarrow> \<not> (cur = ''dark'' \<and> sys = ''dark'') \<and> \<not> (cur = ''auto'' \<and> sys = ''light''))"
proof -
  define cur where "cur = currentTheme (tm_state m)"
  define sys where "sys = systemPreference (tm_state m)"
  define nxt where "nxt = (if cur = ''light'' then ''dark'' else if cur = ''dark'' then ''auto'' else ''light'')"
  have tog: "toggleTheme m = snd (setTheme nxt m)"
    using toggle_default [OF assms(1)] by (simp add: nxt_def cur_def)
  have cur3: "cur = ''light'' \<or> cur = ''dark'' \<or> cur = ''auto''"
    using assms(1,2) by (simp add: cur_def)
  have mem: "nxt \<in> set (themes (tm_config m))"
    using assms(1) by (simp add: nxt_def)
  have ne: "nxt \<noteq> currentTheme (tm_state m)"
    using cur3 by (auto simp add: nxt_def cur_def)
  have attr: "data_theme (tm_document (toggleTheme m)) = Some (if nxt = ''auto'' then sys else nxt)"
    unfolding tog using setTheme_data_theme [OF mem ne] by (simp add: sys_def)
  have st: "tm_enableStateTracking (tm_config m) \<longrightarrow> currentTheme (tm_state (toggleTheme m)) = nxt"
    unfolding tog using setTheme_currentTheme [OF mem] by simp
  have before: "data_theme (tm_document m) = Some (if cur = ''auto'' then sys else cur)"
    using assms(3) by (simp add: getEffectiveTheme_def cur_def sys_def)
  have iff: "data_theme (tm_document (toggleTheme m)) \<noteq> data_theme (tm_document m)
                \<longleftrightarrow> \<not> (cur = ''dark'' \<and> sys = ''dark'') \<and> \<not> (cur = ''auto'' \<and> sys = ''light'')"
    unfolding attr before using cur3 by (auto simp add: nxt_def)
  show ?thesis
    using attr st iff unfolding Let_def cur_def [symmetric] sys_def [symmetric] nxt_def [symmetric]
    by blast
qed

theorem toggleTheme_attribute_witness:
  "themes (tm_config (initialised_ThemeManager empty_storage (Some True)))
     = [''light'', ''dark'', ''auto'']
   \<and> currentTheme (tm_state (initialised_ThemeManager empty_storage (Some True))) = ''auto''
   \<and> systemPreference (tm_state (initialised_ThemeManager empty_storage (Some True))) = ''dark''
   \<and> data_theme (tm_document (initialised_ThemeManager empty_storage (Some True)))
        = Some (getEffectiveTheme (initialised_ThemeManager empty_storage (Some True)))
   \<and> tm_enableStateTracking (tm_config (initialised_ThemeManager empty_storage (Some True)))
   \<and> data_theme (tm_document (initialised_ThemeManager empty_storage (Some True))) = Some ''dark''
   \<and> data_theme (tm_document (toggleTheme (initialised_ThemeManager empty_storage (Some True))))
        = Some ''light''
   \<and> currentTheme (tm_state (toggleTheme (initialised_ThemeManager empty_storage (Some True))))
        = ''light''"
proof -
  let ?n = "new_ThemeManager empty_storage empty_document (Some True)"
  let ?m = "initialised_ThemeManager empty_storage (Some True)"
  have n: "themes (tm_config ?n) = [''light'', ''dark'', ''auto'']"
          "tm_enableStateTracking (tm_config ?n)" "stored_theme ?n = ''auto''"
          "systemPreference (tm_state (detectSystemPreference ?n)) = ''dark''"
          "\<not> tm_initialized (tm_state ?n)"
    by (simp_all add: new_ThemeManager_def empty_storage_def stored_theme_def truthy_def
          detectSystemPreference_systemPreference)
  have m: "themes (tm_config ?m) = [''light'', ''dark'', ''auto'']"
          "tm_enableStateTracking (tm_config ?m)"
          "currentTheme (tm_state ?m) = ''auto''" "systemPreference (tm_state ?m) = ''dark''"
    unfolding initialised_ThemeManager_def
    using n by (simp_all add: tm_init_currentTheme tm_init_systemPreference)
  have d: "data_theme (tm_document ?m) = Some (getEffectiveTheme ?m)"
    unfolding initialised_ThemeManager_def using tm_init_data_theme [OF n(5)] .
  have e: "getEffectiveTheme ?m = ''dark''"
    using m(3,4) by (simp add: getEffectiveTheme_def)
  have c: "currentTheme (tm_state ?m) \<in> set (themes (tm_config ?m))"
    using m by simp
  show ?thesis
    using m d e toggleTheme_attribute [OF m(1) c d] by (simp add: Let_def)
qed


subsection \<open>C7: timeouts and cancellation\<close>





subsection \<open>C8: priorities and one-time listeners\<close>

text \<open>
  C8: the listeners of an event are kept in non-increasing priority, \<open>emit\<close> calls
  them in that order, and a one-time listener is removed after the first \<open>emit\<close> that
  calls it. \<open>emit\<close> marks a one-time listener for removal only after its callback has
  returned; when the callback throws, the mark is skipped. Here a one-time listener
  that throws is registered and the event is emitted twice: the listener is called
  both times and is still registered afterwards.
\<close>

theorem once_listener_that_throws_is_kept:
  "map once (the (events bus_with_failing_listener ''ready'')) = [True]
   \<and> calls (snd (emit ''ready'' (Args []) (snd (emit ''ready'' (Args []) bus_with_failing_listener))))
        = [(''ready'', 0), (''ready'', 0)]
   \<and> listenerCount ''ready''
        (snd (emit ''ready'' (Args []) (snd (emit ''ready'' (Args []) bus_with_failing_listener)))) = 1"
  unfolding bus_with_failing_listener_def failing_listener_def by code_simp


subsection \<open>C9: the registry caches instances\<close>

text \<open>
  C9, as stated: for every registered name two successive calls of \<open>getInstance\<close>
  return the same instance, the second from the cache. This fails when the constructor
  throws: the call returns \<open>null\<close>, nothing is cached, and the second call runs the
  constructor again.
\<close>

theorem getInstance_constructor_throws_counterexample:
  "components (register ''Broken'' broken_class new_ComponentRegistry) ''Broken'' = Some broken_class
   \<and> fst (getInstance ''Broken'' [] (register ''Broken'' broken_class new_ComponentRegistry)) = None
   \<and> constructions (snd (getInstance ''Broken'' []
        (snd (getInstance ''Broken'' [] (register ''Broken'' broken_class new_ComponentRegistry)))))
      = [''Broken'', ''Broken'']"
  by (simp add: register_def new_ComponentRegistry_def getInstance_def reg_logger_def
        broken_class_def Let_def)

text \<open>
  C9, amended: for a name that is not registered \<open>getInstance\<close> returns \<open>null\<close>. For a
  registered name that has an instance already, or whose constructor returns, the call
  returns an instance, and a second call returns the same instance and changes
  nothing, so it constructs nothing. For a registered name without an instance whose
  constructor throws, the call logs the error, returns \<open>null\<close> and caches nothing.
\<close>

theorem getInstance_memoizes:
  "(components r nm = None \<longrightarrow> fst (getInstance nm args r) = None)
   \<and> (\<forall>cls. components r nm = Some cls \<and> (instances r nm \<noteq> None \<or> construct cls args = None)
         \<longrightarrow> (\<exists>inst. fst (getInstance nm args r) = Some inst
                \<and> getInstance nm args2 (snd (getInstance nm args r))
                    = (Some inst, snd (getInstance nm args r))))
   \<and> (\<forall>cls e. components r nm = Some cls \<and> instances r nm = None \<and> construct cls args = Some e
         \<longrightarrow> fst (getInstance nm args r) = None
             \<and> instances (snd (getInstance nm args r)) nm = None
             \<and> constructions (snd (getInstance nm args r)) = constructions r @ [nm]
             \<and> reg_log (snd (getInstance nm args r))
                 = reg_log r @ [(Err, ''Failed to create instance of '' @ nm)])"
  by (auto simp add: getInstance_def reg_logger_def Let_def split: option.splits)

theorem getInstance_memoizes_witness:
  "components new_ComponentRegistry ''Nav'' = None
   \<and> fst (getInstance ''Nav'' [] new_ComponentRegistry) = None
   \<and> components (register ''Nav'' working_class new_ComponentRegistry) ''Nav'' = Some working_class
   \<and> construct working_class [] = None
   \<and> (\<exists>inst. fst (getInstance ''Nav'' [] (register ''Nav'' working_class new_ComponentRegistry)) = Some inst
        \<and> getInstance ''Nav'' []
             (snd (getInstance ''Nav'' [] (register ''Nav'' working_class new_ComponentRegistry)))
           = (Some inst, snd (getInstance ''Nav'' [] (register ''Nav'' working_class new_ComponentRegistry))))
   \<and> components (register ''Broken'' broken_class new_ComponentRegistry) ''Broken'' = Some broken_class
   \<and> instances (register ''Broken'' broken_class new_ComponentRegistry) ''Broken'' = None
   \<and> construct broken_class [] = Some (Error ''constructor failed'')
   \<and> instances (snd (getInstance ''Broken'' [] (register ''Broken'' broken_class new_ComponentRegistry)))
        ''Broken'' = None"
proof -
  have a: "components new_ComponentRegistry ''Nav'' = None"
    by (simp add: new_ComponentRegistry_def)
  have b: "components (register ''Nav'' working_class new_ComponentRegistry) ''Nav'' = Some working_class"
          "construct working_class [] = None"
    by (simp_all add: register_def new_ComponentRegistry_def reg_logger_def working_class_def)
  have c: "components (register ''Broken'' broken_class new_ComponentRegistry) ''Broken'' = Some broken_class"
          "instances (register ''Broken'' broken_class new_ComponentRegistry) ''Broken'' = None"
          "construct broken_class [] = Some (Error ''constructor failed'')"
    by (simp_all add: register_def new_ComponentRegistry_def reg_logger_def broken_class_def)
  show ?thesis
    using a b c
      getInstance_memoizes [of new_ComponentRegistry "''Nav''" "[]" "[]"]
      getInstance_memoizes [of "register ''Nav'' working_class new_ComponentRegistry" "''Nav''" "[]" "[]"]
      getInstance_memoizes [of "register ''Broken'' broken_class new_ComponentRegistry" "''Broken''" "[]" "[]"]
    by blast
qed


subsection \<open>C10: an invalid theme changes nothing\<close>

text \<open>
  C10: \<open>setTheme\<close> with a theme name that is not in \<open>config.themes\<close> returns \<open>false\<close>
  and changes nothing but the log: the state (so \<open>currentTheme\<close>), the storage and the
  document (so \<open>data-theme\<close>) are as before.
\<close>

theorem setTheme_invalid_atomic:
  assumes "theme \<notin> set (themes (tm_config m))"
  shows "fst (setTheme theme m) = False
       \<and> snd (setTheme theme m) = m\<lparr>tm_log := tm_log m @ [(Warn, ''Invalid theme: '' @ theme)]\<rparr>
       \<and> currentTheme (tm_state (snd (setTheme theme m))) = currentTheme (tm_state m)
       \<and> tm_storage (snd (setTheme theme m)) = tm_storage m
       \<and> data_theme (tm_document (snd (setTheme theme m))) = data_theme (tm_document m)"
  using assms by (simp add: setTheme_def tm_logger_def)

theorem setTheme_invalid_atomic_witness:
  "''invalid'' \<notin> set (themes (tm_config (new_ThemeManager empty_storage empty_document None)))
   \<and> fst (setTheme ''invalid'' (new_ThemeManager empty_storage empty_document None)) = False
   \<and> currentTheme (tm_state (snd (setTheme ''invalid''
          (new_ThemeManager empty_storage empty_document None)))) = ''light''"
  using setTheme_invalid_atomic [of "''invalid''" "new_ThemeManager empty_storage empty_document None"]
  by (simp add: new_ThemeManager_def)

end
